(* ===== verification/Prelude.thy ===== *)
theory Prelude
  imports Main "HOL-Library.Word"
begin

text \<open>
  Shared vocabulary of the development: the types that name the values of the Python
  program (bytes, 32-bit words, Python \<open>str\<close> as a list of code points), the Python
  exceptions that the modelled code paths can raise, and the list and word lemmas that
  the component theories (Base64, Sha256, Hmac, Pbkdf2, CompareDigest, HashEngine) share.
  Rules that only serve the evaluation of the model on concrete inputs are collected in
  \<open>eval_simps\<close>; rules about the block structure of byte strings in \<open>chunk_simps\<close>.
\<close>

unbundle bit_operations_syntax

named_theorems eval_simps "rules that evaluate the model on concrete inputs"
named_theorems chunk_simps "rules about cutting lists into fixed-size blocks"
named_theorems byte_bit_simps "rules that decide identities between bytes bit by bit"

type_synonym byte = "8 word"
type_synonym bytes = "byte list"
type_synonym word32 = "32 word"

text \<open>
  A Python \<open>str\<close> is a sequence of Unicode code points, not of bytes: it is modelled as a
  list of natural numbers. Lone surrogates (\<open>0xD800..0xDFFF\<close>) are legal elements of a
  Python \<open>str\<close>; they are what makes \<open>str.encode('utf-8')\<close> fail.
\<close>

type_synonym pystr = "nat list"

definition ascii :: "string \<Rightarrow> pystr" where
  "ascii s = map of_char s"

text \<open>
  The Python exceptions raised on the modelled paths, with the data their messages carry.
  \<^item> \<open>UnicodeEncodeError c i\<close>: \<open>str.encode('utf-8')\<close> met the surrogate \<open>c\<close> at index \<open>i\<close>;
  \<^item> \<open>UnicodeDecodeError i\<close>: \<open>bytes.decode('utf-8')\<close> met an invalid byte at index \<open>i\<close>;
  \<^item> \<open>NonAsciiError\<close>: \<open>base64.b64decode\<close> was given a \<open>str\<close> with a non-ASCII character
    (a \<open>ValueError\<close>);
  \<^item> \<open>Base64LengthError n\<close>, \<open>Base64PaddingError\<close>: the two \<open>binascii.Error\<close>s of the
    non-strict decoder, "number of data characters (n) cannot be 1 more than a multiple
    of 4" and "Incorrect padding";
  \<^item> \<open>TypeError\<close>: a value of the wrong Python type reached the library;
  \<^item> \<open>InvalidIterations\<close>: the PBKDF2 primitive rejected an iteration count below 1;
  \<^item> \<open>AlreadyFinalized\<close>: a \<open>PBKDF2HMAC\<close> object was asked to derive twice;
  \<^item> \<open>EOFError\<close>: \<open>input()\<close> met the end of its input before a line;
  \<^item> \<open>ModuleNotFoundError m\<close>: an \<open>import\<close> found no module named \<open>m\<close>;
  \<^item> \<open>AttributeError m a\<close>: the module \<open>m\<close> has no attribute \<open>a\<close>;
  \<^item> \<open>OrdinalEncodeError codec c i n\<close>: the \<open>UnicodeEncodeError\<close> of a one-byte codec
    (\<open>ascii\<close>, \<open>latin-1\<close>), which met the character \<open>c\<close> at index \<open>i\<close>, "ordinal not in
    range(n)".
\<close>

datatype pyexc =
    UnicodeEncodeError nat nat
  | UnicodeDecodeError nat
  | NonAsciiError
  | Base64LengthError nat
  | Base64PaddingError
  | TypeError
  | InvalidIterations
  | AlreadyFinalized
  | EOFError
  | ModuleNotFoundError pystr
  | AttributeError pystr pystr
  | OrdinalEncodeError pystr nat nat nat

text \<open>A Python value as the two functions receive it: a \<open>str\<close>, a \<open>bytes\<close>, or anything else.\<close>

datatype pyval = PyStr pystr | PyBytes bytes | PyOther

text \<open>
  A Python statement that may raise: the exception propagates (\<open>Inl\<close>), otherwise the
  next statement runs with the value (\<open>Inr\<close>).
\<close>

definition sbind :: "'e + 'a \<Rightarrow> ('a \<Rightarrow> 'e + 'b) \<Rightarrow> 'e + 'b" where
  "sbind r f = (case r of Inl e \<Rightarrow> Inl e | Inr x \<Rightarrow> f x)"

lemma sbind_Inl [simp]: "sbind (Inl e) f = Inl e"
  and sbind_Inr [simp]: "sbind (Inr x) f = f x"
  by (simp_all add: sbind_def)

lemma sbind_eq_Inr: "sbind r f = Inr y \<longleftrightarrow> (\<exists>x. r = Inr x \<and> f x = Inr y)"
  by (cases r) simp_all

subsection \<open>Blocks\<close>

text \<open>
  \<open>chunks n xs\<close> cuts \<open>xs\<close> into consecutive blocks of \<open>n\<close> elements, the last one
  possibly shorter: the 64-byte blocks and 4-byte words of SHA-256, the 3-byte groups of
  base64.
\<close>

fun chunks :: "nat \<Rightarrow> 'a list \<Rightarrow> 'a list list" where
  "chunks n xs = (if xs = [] \<or> n = 0 then [] else take n xs # chunks n (drop n xs))"

declare chunks.simps [simp del]

definition xor_bytes :: "bytes \<Rightarrow> bytes \<Rightarrow> bytes" where
  "xor_bytes xs ys = map2 (XOR) xs ys"

lemma chunks_Nil [simp, chunk_simps]: "chunks n [] = []"
  by (simp add: chunks.simps)

lemma chunks_append_block [chunk_simps]:
  "length xs = n \<Longrightarrow> 0 < n \<Longrightarrow> chunks n (xs @ ys) = xs # chunks n ys"
  by (subst chunks.simps) auto

lemma chunks_short [chunk_simps]:
  assumes "xs \<noteq> []" and "length xs \<le> n"
  shows "chunks n xs = [xs]"
proof -
  from assms have "0 < n" by (cases xs) auto
  with assms show ?thesis by (simp add: chunks.simps [of n xs])
qed

lemma concat_chunks [simp, chunk_simps]: "0 < n \<Longrightarrow> concat (chunks n xs) = xs"
proof (induction n xs rule: chunks.induct)
  case (1 n xs)
  then show ?case by (cases "xs = []") (simp_all add: chunks.simps [of n xs])
qed

lemma chunks_length_le [chunk_simps]: "c \<in> set (chunks n xs) \<Longrightarrow> length c \<le> n"
proof (induction n xs rule: chunks.induct)
  case (1 n xs)
  then show ?case by (auto simp: chunks.simps [of n xs] split: if_splits)
qed

lemma chunks_nonempty [chunk_simps]: "c \<in> set (chunks n xs) \<Longrightarrow> c \<noteq> []"
proof (induction n xs rule: chunks.induct)
  case (1 n xs)
  then show ?case by (auto simp: chunks.simps [of n xs] split: if_splits)
qed

lemma chunks_full [chunk_simps]:
  "n dvd length xs \<Longrightarrow> c \<in> set (chunks n xs) \<Longrightarrow> length c = n"
proof (induction n xs rule: chunks.induct)
  case (1 n xs)
  show ?case
  proof (cases "xs = [] \<or> n = 0")
    case True
    with "1.prems" show ?thesis by (auto simp: chunks.simps [of n xs])
  next
    case False
    then have n: "n \<le> length xs"
      using "1.prems"(1) by (auto dest: dvd_imp_le)
    have "n dvd length (drop n xs)"
      using "1.prems"(1) n by (simp add: dvd_diff_nat)
    with "1.IH" False "1.prems"(2) n show ?thesis
      by (auto simp: chunks.simps [of n xs] min_def)
  qed
qed

lemma div_round_up_step:
  "0 < (n::nat) \<Longrightarrow> n \<le> L \<Longrightarrow> (L + n - 1) div n = Suc ((L - n + n - 1) div n)"
proof -
  assume n: "0 < n" and L: "n \<le> L"
  from n L have e1: "L + n - 1 = (L - 1) + n" and e2: "L - n + n - 1 = L - 1" by arith+
  from n have "((L - 1) + n) div n = (L - 1) div n + 1" by (simp only: div_add_self2 neq0_conv)
  then show ?thesis by (simp only: e1 e2)
qed

lemma div_round_up_last: "0 < L \<Longrightarrow> L < (n::nat) \<Longrightarrow> (L + n - 1) div n = 1"
proof -
  assume "0 < L" "L < n"
  then have "n \<le> L + n - 1" "L + n - 1 < n + n" by arith+
  then show ?thesis by (simp add: div_nat_eqI)
qed

lemma length_chunks [chunk_simps]: "0 < n \<Longrightarrow> length (chunks n xs) = (length xs + n - 1) div n"
proof (induction n xs rule: chunks.induct)
  case (1 n xs)
  show ?case
  proof (cases "xs = []")
    case True
    with "1.prems" show ?thesis by simp
  next
    case False
    with "1.prems" "1.IH" have step: "length (chunks n xs) = Suc ((length xs - n + n - 1) div n)"
      by (simp add: chunks.simps [of n xs])
    show ?thesis
    proof (cases "n \<le> length xs")
      case True
      with step "1.prems" show ?thesis by (simp only: div_round_up_step)
    next
      case False
      then have "length xs - n = 0" by arith
      moreover from False \<open>xs \<noteq> []\<close> have "(length xs + n - 1) div n = 1"
        by (intro div_round_up_last) auto
      ultimately show ?thesis using step "1.prems" by simp
    qed
  qed
qed
text \<open>\<open>str(n)\<close> of a non-negative Python int: its decimal digits as code points.\<close>

fun dec_str :: "nat \<Rightarrow> pystr" where
  "dec_str n = (if n < 10 then [48 + n] else dec_str (n div 10) @ [48 + n mod 10])"

declare dec_str.simps [simp del]

lemma dec_str_nonempty: "dec_str n \<noteq> []"
  by (subst dec_str.simps) simp

subsection \<open>Evaluation\<close>

lemma replicate_numeral [eval_simps]:
  "replicate (numeral k) x = x # replicate (pred_numeral k) x"
  by (simp add: numeral_eq_Suc)

lemma ascii_Nil [simp]: "ascii [] = []" and ascii_Cons [simp]: "ascii (c # s) = of_char c # ascii s"
  by (simp_all add: ascii_def)

lemma ascii_append [simp]: "ascii (s @ t) = ascii s @ ascii t"
  by (simp add: ascii_def)

subsection \<open>Bytes and words\<close>

lemma length_xor_bytes [simp]: "length (xor_bytes xs ys) = min (length xs) (length ys)"
  by (simp add: xor_bytes_def)

lemma unat_byte_less [simp]: "unat (b :: byte) < 256"
  using unsigned_less [of b] by simp

lemma all_less8 [byte_bit_simps]:
  "(\<forall>n<8. P n) \<longleftrightarrow> P 0 \<and> P 1 \<and> P 2 \<and> P 3 \<and> P 4 \<and> P 5 \<and> P 6 \<and> P (7::nat)"
proof
  assume "P 0 \<and> P 1 \<and> P 2 \<and> P 3 \<and> P 4 \<and> P 5 \<and> P 6 \<and> P 7"
  moreover have "n < 8 \<Longrightarrow> n = 0 \<or> n = 1 \<or> n = 2 \<or> n = 3 \<or> n = 4 \<or> n = 5 \<or> n = 6 \<or> n = 7"
    for n :: nat
    by auto
  ultimately show "\<forall>n<8. P n" by auto
qed simp

lemma bit_byte_high [byte_bit_simps]: "8 \<le> n \<Longrightarrow> \<not> bit (x::byte) n"
  by (auto dest: bit_imp_le_length)

lemma suc_numerals [byte_bit_simps]: "Suc (Suc 0) = 2" "Suc (Suc (Suc 0)) = 3"
  by simp_all

lemma byte_eq_iff_bits [byte_bit_simps]: "(x::byte) = y \<longleftrightarrow> (\<forall>n<8. bit x n = bit y n)"
  by (auto intro: bit_word_eqI)

lemma byte_xor_eq_0 [simp]: "(x :: byte) XOR y = 0 \<longleftrightarrow> x = y"
  by (auto simp: bit_eq_iff bit_xor_iff)

lemma byte_or_eq_0 [simp]: "(x :: byte) OR y = 0 \<longleftrightarrow> x = 0 \<and> y = 0"
  by (rule or_eq_0_iff)

lemma xor_bytes_zeros: "length u = n \<Longrightarrow> xor_bytes (replicate n 0) u = u"
  by (induction u arbitrary: n) (auto simp: xor_bytes_def)

lemma take_xor_bytes: "take k (xor_bytes a b) = xor_bytes (take k a) b"
proof (induction a arbitrary: b k)
  case Nil
  then show ?case by (simp add: xor_bytes_def)
next
  case (Cons x a)
  then show ?case by (cases b; cases k) (simp_all add: xor_bytes_def)
qed

lemma unat_and_63: "v AND 63 = v \<Longrightarrow> unat (v :: byte) < 64"
  using word_and_le1 [of v 63] by (simp add: word_le_nat_alt)

lemma unat_of_nat_byte [simp]: "n < 256 \<Longrightarrow> unat (of_nat n :: byte) = n"
  by (simp add: unat_of_nat)

end
