(* ===== verification/Utf8.thy ===== *)
theory Utf8
  imports Prelude
begin

text \<open>
  The UTF-8 codec of CPython as the program uses it: \<open>password.encode('utf-8')\<close> at lines
  26 and 70 of \<open>generate_password_hash.py\<close> (a \<open>str\<close> password becomes bytes; a lone
  surrogate raises \<open>UnicodeEncodeError\<close>), and \<open>bytes.decode('utf-8')\<close> at lines 44 and
  45 (the base64 text becomes a \<open>str\<close>). The encoder follows RFC 3629; the decoder is
  strict, accepting exactly the well-formed byte sequences of Table 3-7 of the Unicode
  standard and raising \<open>UnicodeDecodeError\<close> at the first ill-formed one.
\<close>

subsection \<open>Encoding\<close>

definition is_surrogate :: "nat \<Rightarrow> bool" where
  "is_surrogate c \<longleftrightarrow> 0xD800 \<le> c \<and> c \<le> 0xDFFF"

definition utf8_encode_cp :: "nat \<Rightarrow> bytes" where
  "utf8_encode_cp c =
     (if c < 0x80 then [of_nat c]
      else if c < 0x800 then [of_nat (0xC0 + c div 64), of_nat (0x80 + c mod 64)]
      else if c < 0x10000 then
        [of_nat (0xE0 + c div 4096), of_nat (0x80 + c div 64 mod 64), of_nat (0x80 + c mod 64)]
      else [of_nat (0xF0 + c div 262144), of_nat (0x80 + c div 4096 mod 64),
            of_nat (0x80 + c div 64 mod 64), of_nat (0x80 + c mod 64)])"

text \<open>\<open>str.encode('utf-8')\<close>, with the index of the code point that fails.\<close>

fun utf8_encode_from :: "nat \<Rightarrow> pystr \<Rightarrow> pyexc + bytes" where
  "utf8_encode_from i [] = Inr []"
| "utf8_encode_from i (c # cs) =
     (if is_surrogate c then Inl (UnicodeEncodeError c i)
      else (case utf8_encode_from (Suc i) cs of
              Inl e \<Rightarrow> Inl e
            | Inr bs \<Rightarrow> Inr (utf8_encode_cp c @ bs)))"

definition str_encode_utf8 :: "pystr \<Rightarrow> pyexc + bytes" where
  "str_encode_utf8 s = utf8_encode_from 0 s"

subsection \<open>Decoding\<close>

definition is_cont :: "byte \<Rightarrow> bool" where
  "is_cont b \<longleftrightarrow> 0x80 \<le> unat b \<and> unat b \<le> 0xBF"

text \<open>
  One well-formed sequence at the front of the input (Table 3-7): the code point and the
  number of bytes it takes, or \<open>None\<close> where the sequence is ill-formed.
\<close>

definition utf8_seq :: "bytes \<Rightarrow> (nat \<times> nat) option" where
  "utf8_seq bs =
     (case bs of
        [] \<Rightarrow> None
      | b0 # r1 \<Rightarrow>
          (let x = unat b0 in
           if x < 0x80 then Some (x, 1)
           else if 0xC2 \<le> x \<and> x \<le> 0xDF then
             (case r1 of b1 # _ \<Rightarrow>
                 if is_cont b1 then Some ((x - 0xC0) * 64 + (unat b1 - 0x80), 2) else None
              | [] \<Rightarrow> None)
           else if 0xE0 \<le> x \<and> x \<le> 0xEF then
             (case r1 of b1 # b2 # _ \<Rightarrow>
                 let y = unat b1;
                     lo = (if x = 0xE0 then 0xA0 else 0x80);
                     hi = (if x = 0xED then 0x9F else 0xBF)
                 in if lo \<le> y \<and> y \<le> hi \<and> is_cont b2
                    then Some ((x - 0xE0) * 4096 + (y - 0x80) * 64 + (unat b2 - 0x80), 3)
                    else None
              | _ \<Rightarrow> None)
           else if 0xF0 \<le> x \<and> x \<le> 0xF4 then
             (case r1 of b1 # b2 # b3 # _ \<Rightarrow>
                 let y = unat b1;
                     lo = (if x = 0xF0 then 0x90 else 0x80);
                     hi = (if x = 0xF4 then 0x8F else 0xBF)
                 in if lo \<le> y \<and> y \<le> hi \<and> is_cont b2 \<and> is_cont b3
                    then Some ((x - 0xF0) * 262144 + (y - 0x80) * 4096
                               + (unat b2 - 0x80) * 64 + (unat b3 - 0x80), 4)
                    else None
              | _ \<Rightarrow> None)
           else None))"

lemma utf8_seq_length: "utf8_seq bs = Some (c, n) \<Longrightarrow> 0 < n \<and> n \<le> length bs"
  by (auto simp: utf8_seq_def Let_def split: list.splits if_splits)

function utf8_decode_from :: "nat \<Rightarrow> bytes \<Rightarrow> pyexc + pystr" where
  "utf8_decode_from i bs =
     (if bs = [] then Inr []
      else (case utf8_seq bs of
              None \<Rightarrow> Inl (UnicodeDecodeError i)
            | Some (c, n) \<Rightarrow>
                (case utf8_decode_from (i + n) (drop n bs) of
                   Inl e \<Rightarrow> Inl e
                 | Inr cs \<Rightarrow> Inr (c # cs))))"
  by pat_completeness auto
termination
  by (relation "measure (\<lambda>(i, bs). length bs)") (auto dest: utf8_seq_length)

declare utf8_decode_from.simps [simp del]

definition bytes_decode_utf8 :: "bytes \<Rightarrow> pyexc + pystr" where
  "bytes_decode_utf8 bs = utf8_decode_from 0 bs"

subsection \<open>ASCII\<close>

lemma utf8_decode_from_ascii:
  "list_all (\<lambda>b. unat b < 128) bs \<Longrightarrow> utf8_decode_from i bs = Inr (map unat bs)"
proof (induction bs arbitrary: i)
  case Nil
  then show ?case by (simp add: utf8_decode_from.simps)
next
  case (Cons b bs)
  then have "utf8_seq (b # bs) = Some (unat b, 1)"
    by (simp add: utf8_seq_def)
  with Cons show ?case by (simp add: utf8_decode_from.simps [of i "b # bs"])
qed

lemma bytes_decode_utf8_ascii:
  "list_all (\<lambda>b. unat b < 128) bs \<Longrightarrow> bytes_decode_utf8 bs = Inr (map unat bs)"
  by (simp add: bytes_decode_utf8_def utf8_decode_from_ascii)

lemma utf8_encode_from_error: "isl (utf8_encode_from i s) \<longleftrightarrow> list_ex is_surrogate s"
proof (induction s arbitrary: i)
  case Nil
  show ?case by simp
next
  case (Cons c s)
  from Cons.IH [of "Suc i"] show ?case
    by (cases "utf8_encode_from (Suc i) s") auto
qed

lemma utf8_encode_from_Inl:
  "utf8_encode_from j s = Inl e \<longleftrightarrow>
   (\<exists>i < length s. is_surrogate (s ! i) \<and> \<not> list_ex is_surrogate (take i s) \<and>
      e = UnicodeEncodeError (s ! i) (j + i))"
proof (induction s arbitrary: j)
  case Nil
  then show ?case by simp
next
  case (Cons c s)
  show ?case
  proof (cases "is_surrogate c")
    case True
    have "(\<exists>i < length (c # s). is_surrogate ((c # s) ! i) \<and> \<not> list_ex is_surrogate (take i (c # s)) \<and>
            e = UnicodeEncodeError ((c # s) ! i) (j + i)) \<longleftrightarrow> e = UnicodeEncodeError c j"
    proof
      assume "\<exists>i < length (c # s). is_surrogate ((c # s) ! i) \<and> \<not> list_ex is_surrogate (take i (c # s)) \<and>
            e = UnicodeEncodeError ((c # s) ! i) (j + i)"
      then obtain i where "i < length (c # s)" "\<not> list_ex is_surrogate (take i (c # s))"
        "e = UnicodeEncodeError ((c # s) ! i) (j + i)" by blast
      with True show "e = UnicodeEncodeError c j" by (cases i) auto
    qed (use True in auto)
    with True show ?thesis by auto
  next
    case False
    have "(\<exists>i < length (c # s). is_surrogate ((c # s) ! i) \<and> \<not> list_ex is_surrogate (take i (c # s)) \<and>
            e = UnicodeEncodeError ((c # s) ! i) (j + i)) \<longleftrightarrow>
          (\<exists>i < length s. is_surrogate (s ! i) \<and> \<not> list_ex is_surrogate (take i s) \<and>
            e = UnicodeEncodeError (s ! i) (Suc j + i))"
    proof
      assume "\<exists>i < length (c # s). is_surrogate ((c # s) ! i) \<and> \<not> list_ex is_surrogate (take i (c # s)) \<and>
            e = UnicodeEncodeError ((c # s) ! i) (j + i)"
      then obtain i where i: "i < length (c # s)" "is_surrogate ((c # s) ! i)"
        "\<not> list_ex is_surrogate (take i (c # s))" "e = UnicodeEncodeError ((c # s) ! i) (j + i)"
        by blast
      with False obtain k where "i = Suc k" by (cases i) auto
      with i show "\<exists>i < length s. is_surrogate (s ! i) \<and> \<not> list_ex is_surrogate (take i s) \<and>
            e = UnicodeEncodeError (s ! i) (Suc j + i)" by auto
    next
      assume "\<exists>i < length s. is_surrogate (s ! i) \<and> \<not> list_ex is_surrogate (take i s) \<and>
            e = UnicodeEncodeError (s ! i) (Suc j + i)"
      then obtain i where i: "i < length s" "is_surrogate (s ! i)" "\<not> list_ex is_surrogate (take i s)"
        "e = UnicodeEncodeError (s ! i) (Suc j + i)" by blast
      with False show "\<exists>i < length (c # s). is_surrogate ((c # s) ! i) \<and> \<not> list_ex is_surrogate (take i (c # s)) \<and>
            e = UnicodeEncodeError ((c # s) ! i) (j + i)"
        by (intro exI [of _ "Suc i"]) auto
    qed
    with False Cons.IH [of "Suc j"] show ?thesis by (auto split: sum.split)
  qed
qed

subsection \<open>Decoding inverts encoding\<close>

text \<open>
  One code point at a time: the sequence \<open>utf8_encode_cp\<close> writes passes the checks of
  Table 3-7 (the lead byte, the narrowed ranges after \<open>E0\<close>, \<open>ED\<close>, \<open>F0\<close> and \<open>F4\<close>, the
  continuation bytes) and carries the code point back.
\<close>

lemma utf8_seq_1: "c < 0x80 \<Longrightarrow> utf8_seq (utf8_encode_cp c @ rest) = Some (c, length (utf8_encode_cp c))"
  by (simp add: utf8_encode_cp_def utf8_seq_def)

lemma utf8_seq_2:
  assumes "0x80 \<le> c" "c < 0x800"
  shows "utf8_seq (utf8_encode_cp c @ rest) = Some (c, length (utf8_encode_cp c))"
proof -
  have q: "2 \<le> c div 64" "c div 64 < 32"
    using assms by (simp_all add: less_eq_div_iff_mult_less_eq div_less_iff_less_mult)
  define b0 :: byte where "b0 = of_nat (0xC0 + c div 64)"
  define b1 :: byte where "b1 = of_nat (0x80 + c mod 64)"
  have enc: "utf8_encode_cp c = [b0, b1]"
    using assms by (simp add: utf8_encode_cp_def b0_def b1_def)
  have u: "unat b0 = 0xC0 + c div 64" "unat b1 = 0x80 + c mod 64"
    unfolding b0_def b1_def using q by (simp_all only: unat_of_nat_byte)
  have v: "(c div 64) * 64 + c mod 64 = c" by simp
  have r: "c mod 64 \<le> 63" "c div 64 \<le> 31" using q by simp_all
  show ?thesis using assms q v r
    by (simp add: enc utf8_seq_def is_cont_def Let_def u)
qed
lemma cp_digits3: "(c div 4096) * 4096 + (c div 64 mod 64) * 64 + c mod 64 = (c::nat)"
proof -
  have "c div 4096 = c div 64 div 64" by (simp add: div_mult2_eq)
  then show ?thesis using div_mult_mod_eq [of "c div 64" 64] div_mult_mod_eq [of c 64] by arith
qed
lemma cp_lead_E0: "0x800 \<le> (c::nat) \<Longrightarrow> c div 4096 = 0 \<Longrightarrow> 32 \<le> c div 64 mod 64"
proof -
  assume "0x800 \<le> c" "c div 4096 = 0"
  then have "c < 4096" "32 \<le> c div 64" by (simp_all add: less_eq_div_iff_mult_less_eq)
  then have "c div 64 < 64" by (simp add: div_less_iff_less_mult)
  with \<open>32 \<le> c div 64\<close> show ?thesis by simp
qed
lemma cp_lead_ED: "(c::nat) < 0xD800 \<Longrightarrow> c div 4096 = 13 \<Longrightarrow> c div 64 mod 64 < 32"
proof -
  assume "c < 0xD800" "c div 4096 = 13"
  then have "832 \<le> c div 64" "c div 64 < 864" by (simp_all add: less_eq_div_iff_mult_less_eq div_less_iff_less_mult)
  then have "c div 64 mod 64 = c div 64 - 832" by (simp add: mod_if le_mod_geq) 
  with \<open>c div 64 < 864\<close> show ?thesis by simp
qed
lemma utf8_seq_3:
  assumes "0x800 \<le> c" "c < 0x10000" "\<not> is_surrogate c"
  shows "utf8_seq (utf8_encode_cp c @ rest) = Some (c, length (utf8_encode_cp c))"
proof -
  have q: "c div 4096 < 16" using assms by (simp add: div_less_iff_less_mult)
  have m: "c div 64 mod 64 \<le> 63" "c mod 64 \<le> 63" by simp_all
  have lo: "c div 4096 = 0 \<Longrightarrow> 32 \<le> c div 64 mod 64" using assms(1) by (rule cp_lead_E0)
  have hi: "c div 4096 = 13 \<Longrightarrow> c div 64 mod 64 \<le> 31"
  proof -
    assume h: "c div 4096 = 13"
    then have "c < 0xE000" by (simp add: div_less_iff_less_mult [symmetric])
    with assms(3) have "c < 0xD800" by (simp add: is_surrogate_def)
    from cp_lead_ED [OF this h] show ?thesis by simp
  qed
  define b0 :: byte where "b0 = of_nat (0xE0 + c div 4096)"
  define b1 :: byte where "b1 = of_nat (0x80 + c div 64 mod 64)"
  define b2 :: byte where "b2 = of_nat (0x80 + c mod 64)"
  have enc: "utf8_encode_cp c = [b0, b1, b2]"
    using assms by (simp add: utf8_encode_cp_def b0_def b1_def b2_def)
  have u: "unat b0 = 0xE0 + c div 4096" "unat b1 = 0x80 + c div 64 mod 64" "unat b2 = 0x80 + c mod 64"
    unfolding b0_def b1_def b2_def using q m by (simp_all only: unat_of_nat_byte)
  show ?thesis using assms q m lo hi cp_digits3 [of c]
    by (simp add: enc utf8_seq_def is_cont_def Let_def u)
qed

lemma cp_digits4: "(c div 262144) * 262144 + (c div 4096 mod 64) * 4096 + (c div 64 mod 64) * 64 + c mod 64 = (c::nat)"
proof -
  have "c div 262144 = c div 4096 div 64" by (simp add: div_mult2_eq)
  then have "(c div 262144) * 262144 + (c div 4096 mod 64) * 4096 = (c div 4096) * 4096"
    using div_mult_mod_eq [of "c div 4096" 64] by arith
  then show ?thesis using cp_digits3 [of c] by arith
qed

lemma utf8_seq_4:
  assumes "0x10000 \<le> c" "c < 0x110000"
  shows "utf8_seq (utf8_encode_cp c @ rest) = Some (c, length (utf8_encode_cp c))"
proof -
  have q: "c div 262144 \<le> 4" using assms(2) by (simp add: div_less_iff_less_mult less_Suc_eq_le [symmetric])
  have m: "c div 4096 mod 64 \<le> 63" "c div 64 mod 64 \<le> 63" "c mod 64 \<le> 63" by simp_all
  have lo: "c div 262144 = 0 \<Longrightarrow> 16 \<le> c div 4096 mod 64"
  proof -
    assume "c div 262144 = 0"
    then have "c div 4096 < 64" by (simp add: div_less_iff_less_mult)
    moreover have "16 \<le> c div 4096" using assms(1) by (simp add: less_eq_div_iff_mult_less_eq)
    ultimately show ?thesis by simp
  qed
  have hi: "c div 262144 = 4 \<Longrightarrow> c div 4096 mod 64 \<le> 15"
  proof -
    assume "c div 262144 = 4"
    then have "256 \<le> c div 4096" by (simp add: less_eq_div_iff_mult_less_eq)
    moreover have "c div 4096 < 272" using assms(2) by (simp add: div_less_iff_less_mult)
    ultimately have "c div 4096 mod 64 = c div 4096 - 256" by (simp add: mod_if le_mod_geq)
    with \<open>c div 4096 < 272\<close> show ?thesis by simp
  qed
  define b0 :: byte where "b0 = of_nat (0xF0 + c div 262144)"
  define b1 :: byte where "b1 = of_nat (0x80 + c div 4096 mod 64)"
  define b2 :: byte where "b2 = of_nat (0x80 + c div 64 mod 64)"
  define b3 :: byte where "b3 = of_nat (0x80 + c mod 64)"
  have enc: "utf8_encode_cp c = [b0, b1, b2, b3]"
    using assms by (simp add: utf8_encode_cp_def b0_def b1_def b2_def b3_def)
  have u: "unat b0 = 0xF0 + c div 262144" "unat b1 = 0x80 + c div 4096 mod 64"
      "unat b2 = 0x80 + c div 64 mod 64" "unat b3 = 0x80 + c mod 64"
    unfolding b0_def b1_def b2_def b3_def using q m by (simp_all only: unat_of_nat_byte)
  show ?thesis using assms q m lo hi cp_digits4 [of c]
    by (simp add: enc utf8_seq_def is_cont_def Let_def u)
qed

lemma utf8_seq_encode_cp:
  "c < 0x110000 \<Longrightarrow> \<not> is_surrogate c \<Longrightarrow>
   utf8_seq (utf8_encode_cp c @ rest) = Some (c, length (utf8_encode_cp c))"
  using utf8_seq_1 [of c rest] utf8_seq_2 [of c rest] utf8_seq_3 [of c rest] utf8_seq_4 [of c rest]
  by (cases "c < 0x80"; cases "c < 0x800"; cases "c < 0x10000") simp_all

lemma utf8_encode_cp_nonempty: "utf8_encode_cp c \<noteq> []"
  by (simp add: utf8_encode_cp_def)

lemma utf8_decode_from_encode:
  "list_all (\<lambda>c. c < 0x110000) s \<Longrightarrow> utf8_encode_from j s = Inr bs \<Longrightarrow> utf8_decode_from i bs = Inr s"
proof (induction s arbitrary: j bs i)
  case Nil
  then show ?case by (simp add: utf8_decode_from.simps [of i "[]"])
next
  case (Cons c cs)
  then obtain bs' where ns: "\<not> is_surrogate c" and tl: "utf8_encode_from (Suc j) cs = Inr bs'"
    and bs: "bs = utf8_encode_cp c @ bs'"
    by (auto split: if_splits sum.splits)
  from Cons.prems(1) ns have seq: "utf8_seq bs = Some (c, length (utf8_encode_cp c))"
    by (simp add: bs utf8_seq_encode_cp)
  from Cons.IH [OF _ tl] Cons.prems(1)
  have "utf8_decode_from (i + length (utf8_encode_cp c)) bs' = Inr cs" by simp
  with seq show ?case
    by (simp add: bs utf8_decode_from.simps [of i "utf8_encode_cp c @ bs'"] utf8_encode_cp_nonempty)
qed

subsection \<open>Properties\<close>

text \<open>
  C13. \<open>str.encode('utf-8')\<close> raises exactly when the string holds a lone surrogate,
  and the \<open>UnicodeEncodeError\<close> names the first one and its index.
\<close>

theorem str_encode_utf8_error:
  "str_encode_utf8 s = Inl e \<longleftrightarrow>
   (\<exists>i < length s. is_surrogate (s ! i) \<and> \<not> list_ex is_surrogate (take i s) \<and>
      e = UnicodeEncodeError (s ! i) i)"
  using utf8_encode_from_Inl [of 0 s e] by (simp add: str_encode_utf8_def)

text \<open>
  C24. Round trip of the codec: the bytes \<open>str.encode('utf-8')\<close> produces for a Python
  string (code points below \<open>0x110000\<close>) decode with \<open>bytes.decode('utf-8')\<close> to the same
  string.
\<close>

theorem utf8_roundtrip:
  assumes "list_all (\<lambda>c. c < 0x110000) s" and "str_encode_utf8 s = Inr bs"
  shows "bytes_decode_utf8 bs = Inr s"
  using assms by (simp add: str_encode_utf8_def bytes_decode_utf8_def utf8_decode_from_encode)

theorem utf8_roundtrip_witness:
  "list_all (\<lambda>c. c < (0x110000::nat)) [0x48, 0xE9, 0x20AC, 0x1F600] \<and>
   str_encode_utf8 [0x48, 0xE9, 0x20AC, 0x1F600] = Inr [0x48, 0xC3, 0xA9, 0xE2, 0x82, 0xAC, 0xF0, 0x9F, 0x98, 0x80] \<and>
   bytes_decode_utf8 [0x48, 0xC3, 0xA9, 0xE2, 0x82, 0xAC, 0xF0, 0x9F, 0x98, 0x80] = Inr [0x48, 0xE9, 0x20AC, 0x1F600]"
proof -
  have h1: "list_all (\<lambda>c. c < (0x110000::nat)) [0x48, 0xE9, 0x20AC, 0x1F600]" by simp
  have h2: "str_encode_utf8 [0x48, 0xE9, 0x20AC, 0x1F600] =
      Inr [0x48, 0xC3, 0xA9, 0xE2, 0x82, 0xAC, 0xF0, 0x9F, 0x98, 0x80]"
    by (simp add: str_encode_utf8_def is_surrogate_def utf8_encode_cp_def)
  show ?thesis using h1 h2 utf8_roundtrip [OF h1 h2] by blast
qed

end
