(* ===== verification/Base64.thy ===== *)
theory Base64
  imports Prelude
begin

text \<open>
  Base64 as the program uses it. \<open>base64.b64encode(x)\<close> (lines 44 and 45 of
  \<open>generate_password_hash.py\<close>) is \<open>binascii.b2a_base64(x, newline=False)\<close>:
  CPython's loop over a 32-bit accumulator (\<open>b2a_loop\<close>, \<open>b2a_drain\<close>, \<open>b2a_finish\<close>),
  proved equal to the RFC 4648 encoding written group by group (\<open>b64_group\<close>,
  \<open>b64encode\<close>), on which the other proofs work.
  \<open>base64.b64decode(s)\<close> (lines 73 and 74) first turns a \<open>str\<close> into ASCII bytes (a
  \<open>ValueError\<close> for any other character) and then runs CPython's \<^emph>\<open>non-strict\<close>
  \<open>binascii.a2b_base64\<close>: a loop over the input bytes with the state
  \<open>quad_pos\<close>, \<open>leftchar\<close> and \<open>pads\<close>, which skips every byte outside the alphabet,
  stops at a complete pad sequence, and raises \<open>binascii.Error\<close> at the end of the input
  when the last quad is incomplete. The loop is \<open>a2b_loop\<close>, its state the record
  \<open>a2b_state\<close>, one alphabet character the step \<open>a2b_step\<close>.
\<close>

unbundle bit_operations_syntax

subsection \<open>The alphabet\<close>

definition b64_table :: bytes where
  "b64_table = map of_char ''ABCDEFGHIJKLMNOPQRSTUVWXYZabcdefghijklmnopqrstuvwxyz0123456789+/''"

definition b64_pad :: byte where
  "b64_pad = 0x3D"

text \<open>
  \<open>table_a2b_base64\<close>: the 6-bit value of an alphabet byte, and a value of at least 64
  (\<open>0xFF\<close>) for every other byte.
\<close>

definition table_a2b :: "byte \<Rightarrow> byte" where
  "table_a2b c =
     (if 0x41 \<le> c \<and> c \<le> 0x5A then c - 0x41
      else if 0x61 \<le> c \<and> c \<le> 0x7A then c - 0x61 + 26
      else if 0x30 \<le> c \<and> c \<le> 0x39 then c - 0x30 + 52
      else if c = 0x2B then 62
      else if c = 0x2F then 63
      else 0xFF)"

definition b64_char :: "byte \<Rightarrow> byte" where
  "b64_char x = b64_table ! unat x"

subsection \<open>Encoding\<close>

fun b64_group :: "bytes \<Rightarrow> bytes" where
  "b64_group [a, b, c] =
     [b64_char (drop_bit 2 a), b64_char (push_bit 4 (a AND 3) OR drop_bit 4 b),
      b64_char (push_bit 2 (b AND 0xF) OR drop_bit 6 c), b64_char (c AND 0x3F)]"
| "b64_group [a, b] =
     [b64_char (drop_bit 2 a), b64_char (push_bit 4 (a AND 3) OR drop_bit 4 b),
      b64_char (push_bit 2 (b AND 0xF)), b64_pad]"
| "b64_group [a] =
     [b64_char (drop_bit 2 a), b64_char (push_bit 4 (a AND 3)), b64_pad, b64_pad]"
| "b64_group _ = []"

definition b64encode :: "bytes \<Rightarrow> bytes" where
  "b64encode xs = concat (map b64_group (chunks 3 xs))"

text \<open>
  CPython's \<open>binascii.b2a_base64\<close> does not cut the input into groups: it shifts every
  byte into the accumulator \<open>leftchar\<close> (a C \<open>unsigned int\<close>, so a 32-bit word whose
  high bits wrap away), counts the pending bits in \<open>leftbits\<close>, and writes a character
  while at least 6 bits are pending (\<open>b2a_drain\<close>). After the loop, 2 or 4 pending bits
  give the last character and the padding (\<open>b2a_finish\<close>). \<open>base64.b64encode\<close> calls it
  with \<open>newline=False\<close>, so no newline is appended.
\<close>

fun b2a_drain :: "word32 \<Rightarrow> nat \<Rightarrow> bytes \<Rightarrow> nat \<times> bytes" where
  "b2a_drain lc lb out =
     (if lb < 6 then (lb, out)
      else b2a_drain lc (lb - 6) (out @ [b64_char (ucast (drop_bit (lb - 6) lc AND 0x3F))]))"

declare b2a_drain.simps [simp del]

fun b2a_loop :: "word32 \<Rightarrow> nat \<Rightarrow> bytes \<Rightarrow> bytes \<Rightarrow> word32 \<times> nat \<times> bytes" where
  "b2a_loop lc lb out [] = (lc, lb, out)"
| "b2a_loop lc lb out (b # bs) =
     (let lc' = push_bit 8 lc OR ucast b;
          (lb', out') = b2a_drain lc' (lb + 8) out
      in b2a_loop lc' lb' out' bs)"

definition b2a_finish :: "word32 \<times> nat \<times> bytes \<Rightarrow> bytes" where
  "b2a_finish st =
     (let (lc, lb, out) = st in
      if lb = 2 then out @ [b64_char (ucast (push_bit 4 (lc AND 3))), b64_pad, b64_pad]
      else if lb = 4 then out @ [b64_char (ucast (push_bit 2 (lc AND 0xF))), b64_pad]
      else out)"

definition b2a_base64 :: "bytes \<Rightarrow> bytes" where
  "b2a_base64 bin = b2a_finish (b2a_loop 0 0 [] bin)"

subsection \<open>Decoding: the non-strict \<open>a2b_base64\<close> loop\<close>

record a2b_state =
  quad_pos :: nat
  leftchar :: byte
  pads :: nat
  bin_out :: bytes

definition a2b_init :: a2b_state where
  "a2b_init = \<lparr>quad_pos = 0, leftchar = 0, pads = 0, bin_out = []\<rparr>"

text \<open>One alphabet character of value \<open>v\<close> (the \<open>switch (quad_pos)\<close> of the C loop).\<close>

definition a2b_step :: "a2b_state \<Rightarrow> byte \<Rightarrow> a2b_state" where
  "a2b_step st v =
     (case quad_pos st of
        0 \<Rightarrow> st\<lparr>quad_pos := 1, leftchar := v\<rparr>
      | Suc 0 \<Rightarrow> st\<lparr>quad_pos := 2,
                   bin_out := bin_out st @ [push_bit 2 (leftchar st) OR drop_bit 4 v],
                   leftchar := v AND 0x0F\<rparr>
      | Suc (Suc 0) \<Rightarrow> st\<lparr>quad_pos := 3,
                   bin_out := bin_out st @ [push_bit 4 (leftchar st) OR drop_bit 2 v],
                   leftchar := v AND 0x03\<rparr>
      | _ \<Rightarrow> st\<lparr>quad_pos := 0,
                   bin_out := bin_out st @ [push_bit 6 (leftchar st) OR v],
                   leftchar := 0\<rparr>)"

text \<open>
  The end of the input with an incomplete quad: one data character too many is the
  length error (its message counts the data characters), two or three the padding error.
\<close>

definition a2b_finish :: "a2b_state \<Rightarrow> pyexc + bytes" where
  "a2b_finish st =
     (if quad_pos st = 0 then Inr (bin_out st)
      else if quad_pos st = 1 then Inl (Base64LengthError (length (bin_out st) div 3 * 4 + 1))
      else Inl Base64PaddingError)"

fun a2b_loop :: "a2b_state \<Rightarrow> bytes \<Rightarrow> pyexc + bytes" where
  "a2b_loop st [] = a2b_finish st"
| "a2b_loop st (c # cs) =
     (if c = b64_pad then
        (if 2 \<le> quad_pos st \<and> 4 \<le> quad_pos st + Suc (pads st) then Inr (bin_out st)
         else a2b_loop (if 2 \<le> quad_pos st then st\<lparr>pads := Suc (pads st)\<rparr> else st) cs)
      else (let v = table_a2b c in
            if 64 \<le> v then a2b_loop st cs
            else a2b_loop (a2b_step (st\<lparr>pads := 0\<rparr>) v) cs))"

definition a2b_base64 :: "bytes \<Rightarrow> pyexc + bytes" where
  "a2b_base64 s = a2b_loop a2b_init s"

text \<open>
  \<open>base64._bytes_from_decode_data\<close>: a \<open>str\<close> must be ASCII, a bytes-like object is
  taken as it is, anything else is a \<open>TypeError\<close>.
\<close>

definition bytes_from_decode_data :: "pyval \<Rightarrow> pyexc + bytes" where
  "bytes_from_decode_data v =
     (case v of
        PyStr s \<Rightarrow> (if list_all (\<lambda>c. c < 128) s then Inr (map of_nat s) else Inl NonAsciiError)
      | PyBytes bs \<Rightarrow> Inr bs
      | PyOther \<Rightarrow> Inl TypeError)"

definition b64decode :: "pyval \<Rightarrow> pyexc + bytes" where
  "b64decode v = (case bytes_from_decode_data v of Inl e \<Rightarrow> Inl e | Inr bs \<Rightarrow> a2b_base64 bs)"

subsection \<open>The decoder inverts the encoder\<close>

lemma table_a2b_all: "list_all (\<lambda>n. table_a2b (b64_table ! n) = of_nat n) [0..<64]"
  by (simp add: b64_table_def table_a2b_def upt_rec)

lemma table_a2b_b64_char: "unat v < 64 \<Longrightarrow> table_a2b (b64_char v) = v"
  using table_a2b_all by (auto simp: b64_char_def list_all_iff)

lemma table_a2b_pad: "table_a2b b64_pad = 0xFF"
  by (simp add: table_a2b_def b64_pad_def)

lemma b64_char_not_pad: "unat v < 64 \<Longrightarrow> b64_char v \<noteq> b64_pad"
proof
  assume "unat v < 64" "b64_char v = b64_pad"
  then have "v = 0xFF" using table_a2b_b64_char table_a2b_pad by metis
  with \<open>unat v < 64\<close> show False by simp
qed

lemma b64_sextets:
  fixes a b c :: byte
  shows "unat (drop_bit 2 a) < 64" "unat (push_bit 4 (a AND 3) OR drop_bit 4 b) < 64"
    "unat (push_bit 2 (b AND 0xF) OR drop_bit 6 c) < 64" "unat (c AND 0x3F) < 64"
    "unat (push_bit 4 (a AND 3)) < 64" "unat (push_bit 2 (b AND 0xF)) < 64"
  by (rule unat_and_63, simp add: bit_simps byte_bit_simps)+

lemma b64_bytes:
  fixes a b c :: byte
  shows "push_bit 2 (drop_bit 2 a) OR drop_bit 4 (push_bit 4 (a AND 3) OR drop_bit 4 b) = a"
    and "push_bit 4 ((push_bit 4 (a AND 3) OR drop_bit 4 b) AND 0x0F)
           OR drop_bit 2 (push_bit 2 (b AND 0xF) OR drop_bit 6 c) = b"
    and "push_bit 6 ((push_bit 2 (b AND 0xF) OR drop_bit 6 c) AND 0x03) OR (c AND 0x3F) = c"
    and "push_bit 4 ((push_bit 4 (a AND 3) OR drop_bit 4 b) AND 0x0F)
           OR drop_bit 2 (push_bit 2 (b AND 0xF)) = b"
    and "push_bit 2 (drop_bit 2 a) OR drop_bit 4 (push_bit 4 (a AND 3)) = a"
  by (simp_all add: bit_simps byte_bit_simps)

lemma a2b_loop_quad:
  assumes "quad_pos st = 0" "unat v1 < 64" "unat v2 < 64" "unat v3 < 64" "unat v4 < 64"
  shows "a2b_loop st ([b64_char v1, b64_char v2, b64_char v3, b64_char v4] @ rest) =
         a2b_loop (st\<lparr>quad_pos := 0, leftchar := 0, pads := 0, bin_out := bin_out st @
            [push_bit 2 v1 OR drop_bit 4 v2, push_bit 4 (v2 AND 0x0F) OR drop_bit 2 v3,
             push_bit 6 (v3 AND 0x03) OR v4]\<rparr>) rest"
  using assms by (cases st) (simp add: a2b_step_def table_a2b_b64_char b64_char_not_pad word_le_nat_alt)

lemma a2b_loop_tri:
  assumes "quad_pos st = 0" "unat v1 < 64" "unat v2 < 64" "unat v3 < 64"
  shows "a2b_loop st ([b64_char v1, b64_char v2, b64_char v3, b64_pad] @ rest) =
         Inr (bin_out st @ [push_bit 2 v1 OR drop_bit 4 v2, push_bit 4 (v2 AND 0x0F) OR drop_bit 2 v3])"
  using assms by (simp add: a2b_step_def table_a2b_b64_char b64_char_not_pad word_le_nat_alt)

lemma a2b_loop_duo:
  assumes "quad_pos st = 0" "unat v1 < 64" "unat v2 < 64"
  shows "a2b_loop st ([b64_char v1, b64_char v2, b64_pad, b64_pad] @ rest) =
         Inr (bin_out st @ [push_bit 2 v1 OR drop_bit 4 v2])"
  using assms by (simp add: a2b_step_def table_a2b_b64_char b64_char_not_pad word_le_nat_alt)

lemma a2b_loop_group3:
  assumes "quad_pos st = 0"
  shows "a2b_loop st (b64_group [a, b, c] @ rest) =
         a2b_loop (st\<lparr>quad_pos := 0, leftchar := 0, pads := 0, bin_out := bin_out st @ [a, b, c]\<rparr>) rest"
  using a2b_loop_quad [OF assms b64_sextets(1) [of a] b64_sextets(2) [of a b] b64_sextets(3) [of b c]
      b64_sextets(4) [of c], of rest]
  by (simp only: b64_group.simps append_Cons append_Nil b64_bytes)

lemma a2b_loop_group2:
  assumes "quad_pos st = 0"
  shows "a2b_loop st (b64_group [a, b] @ rest) = Inr (bin_out st @ [a, b])"
  using a2b_loop_tri [OF assms b64_sextets(1) [of a] b64_sextets(2) [of a b] b64_sextets(6) [of b], of rest]
  by (simp only: b64_group.simps b64_bytes)

lemma a2b_loop_group1:
  assumes "quad_pos st = 0"
  shows "a2b_loop st (b64_group [a] @ rest) = Inr (bin_out st @ [a])"
  using a2b_loop_duo [OF assms b64_sextets(1) [of a] b64_sextets(5) [of a], of rest]
  by (simp only: b64_group.simps b64_bytes)

lemma b64encode_Nil: "b64encode [] = []"
  and b64encode_1: "b64encode [a] = b64_group [a]"
  and b64encode_2: "b64encode [a, b] = b64_group [a, b]"
  and b64encode_3: "b64encode (a # b # c # rest) = b64_group [a, b, c] @ b64encode rest"
  using chunks_append_block [of "[a, b, c]" 3 rest]
  by (simp_all add: b64encode_def chunks_short del: b64_group.simps)

lemma list_cases_3:
  obtains "xs = []" | a where "xs = [a]" | a b where "xs = [a, b]"
    | a b c rest where "xs = a # b # c # rest"
  by (metis list.exhaust)

text \<open>
  Where the decoder stands after the complete groups of an encoding: unchanged for the
  empty input, otherwise at the start of a quad with the bytes appended.
\<close>

definition a2b_resume :: "a2b_state \<Rightarrow> bytes \<Rightarrow> a2b_state" where
  "a2b_resume st xs =
     (if xs = [] then st
      else st\<lparr>quad_pos := 0, leftchar := 0, pads := 0, bin_out := bin_out st @ xs\<rparr>)"

lemma a2b_loop_b64encode:
  "quad_pos st = 0 \<Longrightarrow>
   a2b_loop st (b64encode xs @ rest) =
     (if 3 dvd length xs then a2b_loop (a2b_resume st xs) rest else Inr (bin_out st @ xs))"
proof (induction "length xs" arbitrary: xs st rule: less_induct)
  case less
  from list_cases_3 [of xs] show ?case
  proof cases
    case 1
    then show ?thesis by (simp add: b64encode_Nil a2b_resume_def)
  next
    case (2 a)
    with a2b_loop_group1 [OF less.prems, of a rest] show ?thesis
      by (simp add: b64encode_1 del: a2b_loop.simps b64_group.simps)
  next
    case (3 a b)
    with a2b_loop_group2 [OF less.prems, of a b rest] show ?thesis
      by (simp add: b64encode_2 suc_numerals del: a2b_loop.simps b64_group.simps)
  next
    case (4 a b c ys)
    let ?st = "st\<lparr>quad_pos := 0, leftchar := 0, pads := 0, bin_out := bin_out st @ [a, b, c]\<rparr>"
    have IH: "a2b_loop ?st (b64encode ys @ rest) =
        (if 3 dvd length ys then a2b_loop (a2b_resume ?st ys) rest else Inr (bin_out ?st @ ys))"
      using 4 by (intro less.hyps) simp_all
    have "a2b_resume ?st ys = a2b_resume st xs"
      using 4 by (simp add: a2b_resume_def)
    moreover have "3 dvd length ys \<longleftrightarrow> 3 dvd length xs"
      using 4 by simp presburger
    ultimately show ?thesis
      using 4 IH a2b_loop_group3 [OF less.prems, of a b c "b64encode ys @ rest"]
      by (simp add: b64encode_3 del: a2b_loop.simps b64_group.simps)
  qed
qed

lemma b64_roundtrip: "a2b_base64 (b64encode xs) = Inr xs"
  using a2b_loop_b64encode [of a2b_init xs "[]"]
  by (simp add: a2b_base64_def a2b_init_def a2b_resume_def a2b_finish_def)

lemma a2b_base64_b64encode_suffix:
  "\<not> 3 dvd length xs \<Longrightarrow> a2b_base64 (b64encode xs @ rest) = Inr xs"
  using a2b_loop_b64encode [of a2b_init xs rest] by (simp add: a2b_base64_def a2b_init_def)

subsection \<open>CPython's encoder loop writes the groups\<close>

lemma b2a_bits:
  fixes lc :: word32 and a b c :: byte
  defines "l1 \<equiv> push_bit 8 lc OR ucast a"
  defines "l2 \<equiv> push_bit 8 l1 OR ucast b"
  defines "l3 \<equiv> push_bit 8 l2 OR ucast c"
  shows "(ucast (drop_bit 2 l1 AND 0x3F) :: byte) = drop_bit 2 a"
    and "(ucast (drop_bit 4 l2 AND 0x3F) :: byte) = push_bit 4 (a AND 3) OR drop_bit 4 b"
    and "(ucast (drop_bit 6 l3 AND 0x3F) :: byte) = push_bit 2 (b AND 0xF) OR drop_bit 6 c"
    and "(ucast (drop_bit 0 l3 AND 0x3F) :: byte) = c AND 0x3F"
    and "(ucast (push_bit 4 (l1 AND 3)) :: byte) = push_bit 4 (a AND 3)"
    and "(ucast (push_bit 2 (l2 AND 0xF)) :: byte) = push_bit 2 (b AND 0xF)"
  unfolding l1_def l2_def l3_def by (simp_all add: bit_simps byte_bit_simps)

lemma b2a_drain_8: "b2a_drain lc (0 + 8) out = (2, out @ [b64_char (ucast (drop_bit 2 lc AND 0x3F))])"
  and b2a_drain_10: "b2a_drain lc (2 + 8) out = (4, out @ [b64_char (ucast (drop_bit 4 lc AND 0x3F))])"
  and b2a_drain_12: "b2a_drain lc (4 + 8) out =
     (0, out @ [b64_char (ucast (drop_bit 6 lc AND 0x3F)), b64_char (ucast (drop_bit 0 lc AND 0x3F))])"
  by (simp_all add: b2a_drain.simps)

lemma b2a_loop_b64encode: "b2a_finish (b2a_loop lc 0 out xs) = out @ b64encode xs"
proof (induction "length xs" arbitrary: xs lc out rule: less_induct)
  case less
  from list_cases_3 [of xs] show ?case
  proof cases
    case 1
    then show ?thesis by (simp add: b64encode_Nil b2a_finish_def)
  next
    case (2 a)
    then show ?thesis
      by (simp only: b2a_loop.simps Let_def b2a_drain_8 prod.case b2a_finish_def b2a_bits
          b64encode_1 b64_group.simps) simp
  next
    case (3 a b)
    then show ?thesis
      by (simp only: b2a_loop.simps Let_def b2a_drain_8 b2a_drain_10 prod.case b2a_finish_def
          b2a_bits b64encode_2 b64_group.simps) simp
  next
    case (4 a b c ys)
    let ?l3 = "push_bit 8 (push_bit 8 (push_bit 8 lc OR ucast a) OR ucast b) OR ucast c"
    have IH: "b2a_finish (b2a_loop ?l3 0 (out @ b64_group [a, b, c]) ys)
        = (out @ b64_group [a, b, c]) @ b64encode ys"
      using 4 by (intro less.hyps) simp_all
    have "b2a_loop lc 0 out xs = b2a_loop ?l3 0 (out @ b64_group [a, b, c]) ys"
      using 4 by (simp only: b2a_loop.simps Let_def b2a_drain_8 b2a_drain_10 b2a_drain_12 prod.case
          b2a_bits b64_group.simps append_assoc append_Cons append_Nil)
    with IH 4 show ?thesis by (simp add: b64encode_3)
  qed
qed

subsection \<open>The encoder's output: length and alphabet\<close>

lemma length_b64_group: "g \<in> set (chunks 3 xs) \<Longrightarrow> length (b64_group g) = 4"
proof -
  assume g: "g \<in> set (chunks 3 xs)"
  then have "g \<noteq> []" "length g \<le> 3" by (auto dest: chunks_nonempty chunks_length_le)
  then show ?thesis by (cases g rule: b64_group.cases) simp_all
qed

lemma length_b64encode: "length (b64encode xs) = 4 * ((length xs + 2) div 3)"
proof -
  have "length (b64encode xs) = sum_list (map (length \<circ> b64_group) (chunks 3 xs))"
    by (simp add: b64encode_def length_concat)
  also have "\<dots> = sum_list (map (\<lambda>_. 4) (chunks 3 xs))"
    by (rule arg_cong [where f = sum_list], rule map_cong) (simp_all add: length_b64_group)
  also have "\<dots> = 4 * length (chunks 3 xs)" by (simp add: sum_list_triv)
  finally show ?thesis by (simp add: length_chunks)
qed

lemma b64_char_in_table: "unat v < 64 \<Longrightarrow> b64_char v \<in> set b64_table"
proof -
  assume "unat v < 64"
  moreover have "length b64_table = 64" by (simp add: b64_table_def)
  ultimately show ?thesis by (simp add: b64_char_def)
qed

lemma b64_group_alphabet: "set (b64_group g) \<subseteq> insert b64_pad (set b64_table)"
proof (cases g rule: b64_group.cases)
  case (1 a b c)
  then show ?thesis
    using b64_char_in_table [OF b64_sextets(1) [of a]] b64_char_in_table [OF b64_sextets(2) [of a b]]
      b64_char_in_table [OF b64_sextets(3) [of b c]] b64_char_in_table [OF b64_sextets(4) [of c]]
    by simp
next
  case (2 a b)
  then show ?thesis
    using b64_char_in_table [OF b64_sextets(1) [of a]] b64_char_in_table [OF b64_sextets(2) [of a b]]
      b64_char_in_table [OF b64_sextets(6) [of b]]
    by simp
next
  case (3 a)
  then show ?thesis
    using b64_char_in_table [OF b64_sextets(1) [of a]] b64_char_in_table [OF b64_sextets(5) [of a]]
    by simp
qed simp_all

lemma b64encode_alphabet: "set (b64encode xs) \<subseteq> insert b64_pad (set b64_table)"
  using b64_group_alphabet by (auto simp: b64encode_def)
lemma b64encode_ascii: "list_all (\<lambda>b. unat b < 128) (b64encode xs)"
proof -
  have "list_all (\<lambda>b. unat b < 128) (b64_pad # b64_table)"
    by (simp add: b64_pad_def b64_table_def)
  with b64encode_alphabet [of xs] show ?thesis by (auto simp: list_all_iff)
qed

subsection \<open>Bytes the decoder skips\<close>

lemma a2b_loop_filter:
  "a2b_loop st (filter (\<lambda>c. c = b64_pad \<or> table_a2b c < 64) s) = a2b_loop st s"
  by (induction s arbitrary: st) (auto simp: Let_def not_less)

subsection \<open>The decoder's state invariant\<close>

text \<open>
  After \<open>k\<close> data characters (pads aside) the decoder stands at \<open>quad_pos = k mod 4\<close>
  and has written \<open>3\<close> bytes per complete quad and one byte less than the characters
  of the open quad. This is what lets CPython compute the "number of data characters"
  of its length error from the output length, \<open>(bin_data - bin_data_start) / 3 * 4 + 1\<close>.
\<close>

definition a2b_inv :: "nat \<Rightarrow> a2b_state \<Rightarrow> bool" where
  "a2b_inv k st \<longleftrightarrow> quad_pos st = k mod 4 \<and> length (bin_out st) = 3 * (k div 4) + (k mod 4 - 1)"

text \<open>
  The states the loop reaches, as a step relation over the number of data characters
  consumed: a data character runs \<open>a2b_step\<close> with \<open>pads\<close> reset, a pad that does not
  end the loop counts itself once the quad has two characters, and a skipped byte
  leaves the state alone.
\<close>

inductive a2b_reach :: "nat \<Rightarrow> a2b_state \<Rightarrow> bool" where
  init: "a2b_reach 0 a2b_init"
| data: "a2b_reach k st \<Longrightarrow> unat v < 64 \<Longrightarrow> a2b_reach (Suc k) (a2b_step (st\<lparr>pads := 0\<rparr>) v)"
| pad: "a2b_reach k st \<Longrightarrow> 2 \<le> quad_pos st \<Longrightarrow> a2b_reach k (st\<lparr>pads := Suc (pads st)\<rparr>)"

lemma a2b_inv_pads [simp]: "a2b_inv k (st\<lparr>pads := p\<rparr>) = a2b_inv k st"
  by (simp add: a2b_inv_def)

lemma a2b_step_inv: "a2b_inv k st \<Longrightarrow> a2b_inv (Suc k) (a2b_step st v)"
proof -
  assume inv: "a2b_inv k st"
  have "k mod 4 = 0 \<or> k mod 4 = 1 \<or> k mod 4 = 2 \<or> k mod 4 = 3" by arith
  then show ?thesis
  proof (elim disjE)
    assume "k mod 4 = 0"
    with inv show ?thesis by (simp add: a2b_inv_def a2b_step_def mod_Suc div_Suc)
  next
    assume "k mod 4 = 1"
    with inv show ?thesis by (simp add: a2b_inv_def a2b_step_def mod_Suc div_Suc)
  next
    assume "k mod 4 = 2"
    with inv show ?thesis by (simp add: a2b_inv_def a2b_step_def mod_Suc div_Suc)
  next
    assume "k mod 4 = 3"
    with inv show ?thesis by (simp add: a2b_inv_def a2b_step_def mod_Suc div_Suc)
  qed
qed

lemma a2b_loop_step_reach:
  assumes "a2b_reach k st"
  shows "a2b_loop st (c # cs) = Inr (bin_out st) \<or>
         (\<exists>k' st'. a2b_reach k' st' \<and> a2b_loop st (c # cs) = a2b_loop st' cs)"
proof (cases "c = b64_pad")
  case True
  with assms show ?thesis by (auto intro: a2b_reach.pad)
next
  case False
  show ?thesis
  proof (cases "64 \<le> table_a2b c")
    case True
    with False assms show ?thesis by auto
  next
    case nb: False
    then have "unat (table_a2b c) < 64" by (simp add: not_le word_less_nat_alt)
    with False nb assms show ?thesis by (auto simp: Let_def intro: a2b_reach.data)
  qed
qed

lemma a2b_loop_length_error:
  "a2b_inv k st \<Longrightarrow> a2b_loop st s = Inl (Base64LengthError n) \<Longrightarrow>
   n = k + length (filter (\<lambda>c. c \<noteq> b64_pad \<and> table_a2b c < 64) s) \<and> n mod 4 = 1"
proof (induction s arbitrary: k st)
  case Nil
  then have "quad_pos st = 1" "n = length (bin_out st) div 3 * 4 + 1"
    by (auto simp: a2b_finish_def split: if_splits)
  with Nil.prems(1) have "k mod 4 = 1" "n = k div 4 * 4 + 1" by (simp_all add: a2b_inv_def)
  then show ?case using div_mult_mod_eq [of k 4] by simp
next
  case (Cons c s)
  show ?case
  proof (cases "c = b64_pad")
    case True
    with Cons.prems Cons.IH [of k "st\<lparr>pads := Suc (pads st)\<rparr>"] Cons.IH [of k st] show ?thesis
      by (auto split: if_splits)
  next
    case False
    show ?thesis
    proof (cases "64 \<le> table_a2b c")
      case True
      with False Cons show ?thesis by auto
    next
      case nb: False
      have "a2b_inv (Suc k) (a2b_step (st\<lparr>pads := 0\<rparr>) (table_a2b c))"
        using Cons.prems(1) by (simp add: a2b_step_inv)
      with Cons.IH [of "Suc k"] Cons.prems(2) False nb show ?thesis by (simp add: Let_def not_le)
    qed
  qed
qed


subsection \<open>Properties\<close>

text \<open>
  C7. The standard decoder of the program inverts its encoder: \<open>a2b_base64\<close> returns
  every byte string that \<open>b64encode\<close> encoded, and the encoding is ASCII text, which
  \<open>.decode('utf-8')\<close> at lines 44 and 45 accepts.
\<close>

theorem b64_encode_decode:
  "a2b_base64 (b64encode xs) = Inr xs \<and> list_all (\<lambda>b. unat b < 128) (b64encode xs)"
  by (simp add: b64_roundtrip b64encode_ascii)

text \<open>
  C14. The non-strict decoder stops at the first complete pad sequence: when the encoded
  length is not a multiple of 3 (the encoding ends in \<open>=\<close>), whatever follows the
  encoding is ignored and the original bytes come back.
\<close>

theorem a2b_base64_ignores_suffix:
  "\<not> 3 dvd length xs \<Longrightarrow> a2b_base64 (b64encode xs @ rest) = Inr xs"
  by (rule a2b_base64_b64encode_suffix)

theorem a2b_base64_ignores_suffix_witness:
  "\<not> 3 dvd length [0::byte] \<and> a2b_base64 (b64encode [0] @ [0x21, 0x21]) = Inr [0]"
proof -
  have h: "\<not> 3 dvd length [0::byte]" by simp
  show ?thesis using h a2b_base64_ignores_suffix [OF h, of "[0x21, 0x21]"] by blast
qed

text \<open>
  C23. The non-strict decoder ignores every byte outside the alphabet and \<open>=\<close> (line
  breaks, spaces, \<open>-\<close>, \<open>!\<close>, bytes above 127): decoding a text is decoding the text with
  those bytes deleted, so a text that reduces to an encoding decodes to the encoded bytes.
\<close>

theorem a2b_base64_skips_non_alphabet:
  "a2b_base64 s = a2b_base64 (filter (\<lambda>c. c = b64_pad \<or> table_a2b c < 64) s) \<and>
   (filter (\<lambda>c. c = b64_pad \<or> table_a2b c < 64) s = b64encode xs \<longrightarrow> a2b_base64 s = Inr xs)"
proof
  show eq: "a2b_base64 s = a2b_base64 (filter (\<lambda>c. c = b64_pad \<or> table_a2b c < 64) s)"
    by (simp add: a2b_base64_def a2b_loop_filter)
  show "filter (\<lambda>c. c = b64_pad \<or> table_a2b c < 64) s = b64encode xs \<longrightarrow> a2b_base64 s = Inr xs"
    by (simp add: eq b64_roundtrip)
qed

theorem a2b_base64_skips_non_alphabet_witness:
  "a2b_base64 [0x41, 0x0A, 0x41, 0x3D, 0x3D] =
     a2b_base64 (filter (\<lambda>c. c = b64_pad \<or> table_a2b c < 64) [0x41, 0x0A, 0x41, 0x3D, 0x3D]) \<and>
   (filter (\<lambda>c. c = b64_pad \<or> table_a2b c < 64) [0x41, 0x0A, 0x41, 0x3D, 0x3D] = b64encode [0]) \<and>
   a2b_base64 [0x41, 0x0A, 0x41, 0x3D, 0x3D] = Inr [0]"
proof -
  have h: "filter (\<lambda>c. c = b64_pad \<or> table_a2b c < 64) [0x41, 0x0A, 0x41, 0x3D, 0x3D] = b64encode [0]"
    by (simp add: b64_pad_def table_a2b_def b64encode_def chunks_short b64_char_def b64_table_def)
  show ?thesis
    using h a2b_base64_skips_non_alphabet [of "[0x41, 0x0A, 0x41, 0x3D, 0x3D]" "[0]"] by blast
qed
text \<open>
  C25. CPython's \<open>b2a_base64\<close> loop, with its 32-bit accumulator, writes exactly the
  RFC 4648 encoding that \<open>b64encode\<close> describes group by group, for every input.
\<close>

theorem b2a_base64_eq_b64encode: "b2a_base64 bin = b64encode bin"
  using b2a_loop_b64encode [of 0 "[]" bin] by (simp add: b2a_base64_def)

text \<open>
  C27. The length error of the non-strict decoder is raised only when the number of data
  characters is one more than a multiple of 4, and its message reports exactly that
  number: the invariant of the \<open>a2b_base64\<close> state machine makes CPython's arithmetic on
  the output length right.
\<close>

theorem a2b_base64_length_error:
  assumes "a2b_base64 s = Inl (Base64LengthError n)"
  shows "n = length (filter (\<lambda>c. c \<noteq> b64_pad \<and> table_a2b c < 64) s) \<and> n mod 4 = 1"
proof -
  have "a2b_inv 0 a2b_init" by (simp add: a2b_inv_def a2b_init_def)
  from a2b_loop_length_error [OF this] assms show ?thesis by (simp add: a2b_base64_def)
qed

theorem a2b_base64_length_error_witness:
  "a2b_base64 [0x41, 0x41, 0x41, 0x41, 0x41] = Inl (Base64LengthError 5) \<and>
   5 = length (filter (\<lambda>c. c \<noteq> b64_pad \<and> table_a2b c < 64) [0x41, 0x41, 0x41, 0x41, 0x41]) \<and>
   (5::nat) mod 4 = 1"
proof -
  have h: "a2b_base64 [0x41, 0x41, 0x41, 0x41, 0x41] = Inl (Base64LengthError 5)"
    by (simp add: a2b_base64_def a2b_init_def a2b_step_def table_a2b_def a2b_finish_def b64_pad_def)
  show ?thesis using h a2b_base64_length_error [OF h] by blast
qed

text \<open>
  C29. The inner loop \<open>while (leftbits >= 6)\<close> of \<open>b2a_base64\<close> always ends: it runs exactly
  \<open>leftbits / 6\<close> times, writing the 6-bit groups of the accumulator from the highest
  pending bits down, and leaves \<open>leftbits % 6\<close> bits pending.
\<close>

theorem b2a_drain_terminates:
  "b2a_drain lc lb out = (lb mod 6, out @ map (\<lambda>j. b64_char (ucast (drop_bit (lb - 6 * Suc j) lc AND 0x3F))) [0..<lb div 6])"
proof (induction lc lb out rule: b2a_drain.induct)
  case (1 lc lb out)
  show ?case
  proof (cases "lb < 6")
    case True
    then show ?thesis by (simp add: b2a_drain.simps [of lc lb out])
  next
    case False
    then have d: "lb div 6 = Suc ((lb - 6) div 6)" and m: "lb mod 6 = (lb - 6) mod 6"
      by (simp_all only: le_div_geq le_mod_geq not_less zero_less_numeral)
    have "map (\<lambda>j. b64_char (ucast (drop_bit (lb - 6 * Suc j) lc AND 0x3F))) [0..<lb div 6]
        = b64_char (ucast (drop_bit (lb - 6) lc AND 0x3F)) #
          map (\<lambda>j. b64_char (ucast (drop_bit (lb - 6 - 6 * Suc j) lc AND 0x3F))) [0..<(lb - 6) div 6]"
      by (simp only: d upt_conv_Cons list.map map_Suc_upt [symmetric] map_map comp_def)
         (simp add: algebra_simps)
    with "1.IH" [OF False] False m show ?thesis
      by (simp add: b2a_drain.simps [of lc lb out])
  qed
qed





end
