(* ===== verification/Sha256.thy ===== *)
theory Sha256
  imports Prelude
begin

text \<open>
  SHA-256 (FIPS 180-4, sections 4.1.2, 4.2.2, 5.1.1, 5.3.3 and 6.2), the digest that
  \<open>hashes.SHA256()\<close> selects as the pseudorandom function of PBKDF2 at lines 34 and 78
  of \<open>generate_password_hash.py\<close>. The working variables are 32-bit words (\<open>word32\<close>),
  so every addition wraps modulo \<open>2^32\<close> as the standard requires. The message is a
  byte string; the hash state is the list of the eight words \<open>H0 .. H7\<close>. The
  standard's test vectors are evaluated in the theory \<open>TestVectors\<close>.
\<close>

unbundle bit_operations_syntax

subsection \<open>Functions and constants (FIPS 180-4, 4.1.2 and 4.2.2)\<close>

definition rotr32 :: "nat \<Rightarrow> word32 \<Rightarrow> word32" where
  "rotr32 n x = drop_bit n x OR push_bit (32 - n) x"

definition Ch :: "word32 \<Rightarrow> word32 \<Rightarrow> word32 \<Rightarrow> word32" where
  "Ch x y z = (x AND y) XOR (NOT x AND z)"

definition Maj :: "word32 \<Rightarrow> word32 \<Rightarrow> word32 \<Rightarrow> word32" where
  "Maj x y z = (x AND y) XOR (x AND z) XOR (y AND z)"

definition Sigma0_256 :: "word32 \<Rightarrow> word32" where
  "Sigma0_256 x = rotr32 2 x XOR rotr32 13 x XOR rotr32 22 x"

definition Sigma1_256 :: "word32 \<Rightarrow> word32" where
  "Sigma1_256 x = rotr32 6 x XOR rotr32 11 x XOR rotr32 25 x"

definition sigma0_256 :: "word32 \<Rightarrow> word32" where
  "sigma0_256 x = rotr32 7 x XOR rotr32 18 x XOR drop_bit 3 x"

definition sigma1_256 :: "word32 \<Rightarrow> word32" where
  "sigma1_256 x = rotr32 17 x XOR rotr32 19 x XOR drop_bit 10 x"

definition K256 :: "word32 list" where
  "K256 = [
   0x428A2F98, 0x71374491, 0xB5C0FBCF, 0xE9B5DBA5, 0x3956C25B, 0x59F111F1, 0x923F82A4, 0xAB1C5ED5,
   0xD807AA98, 0x12835B01, 0x243185BE, 0x550C7DC3, 0x72BE5D74, 0x80DEB1FE, 0x9BDC06A7, 0xC19BF174,
   0xE49B69C1, 0xEFBE4786, 0x0FC19DC6, 0x240CA1CC, 0x2DE92C6F, 0x4A7484AA, 0x5CB0A9DC, 0x76F988DA,
   0x983E5152, 0xA831C66D, 0xB00327C8, 0xBF597FC7, 0xC6E00BF3, 0xD5A79147, 0x06CA6351, 0x14292967,
   0x27B70A85, 0x2E1B2138, 0x4D2C6DFC, 0x53380D13, 0x650A7354, 0x766A0ABB, 0x81C2C92E, 0x92722C85,
   0xA2BFE8A1, 0xA81A664B, 0xC24B8B70, 0xC76C51A3, 0xD192E819, 0xD6990624, 0xF40E3585, 0x106AA070,
   0x19A4C116, 0x1E376C08, 0x2748774C, 0x34B0BCB5, 0x391C0CB3, 0x4ED8AA4A, 0x5B9CCA4F, 0x682E6FF3,
   0x748F82EE, 0x78A5636F, 0x84C87814, 0x8CC70208, 0x90BEFFFA, 0xA4506CEB, 0xBEF9A3F7, 0xC67178F2]"

definition H0_256 :: "word32 list" where
  "H0_256 = [0x6A09E667, 0xBB67AE85, 0x3C6EF372, 0xA54FF53A,
             0x510E527F, 0x9B05688C, 0x1F83D9AB, 0x5BE0CD19]"

subsection \<open>Bytes and words, big-endian\<close>

definition be32 :: "bytes \<Rightarrow> word32" where
  "be32 bs = foldl (\<lambda>acc b. push_bit 8 acc OR ucast b) 0 bs"

definition word32_bytes :: "word32 \<Rightarrow> bytes" where
  "word32_bytes w = [ucast (drop_bit 24 w), ucast (drop_bit 16 w), ucast (drop_bit 8 w), ucast w]"

text \<open>The message length in bits as the 64-bit big-endian field of the padding (5.1.1).\<close>

definition u64_be :: "nat \<Rightarrow> bytes" where
  "u64_be n = map (\<lambda>i. of_nat (n div 2 ^ (8 * (7 - i)))) [0..<8]"

subsection \<open>Preprocessing (5.1.1, 5.2.1)\<close>

definition sha256_pad :: "bytes \<Rightarrow> bytes" where
  "sha256_pad m = m @ [0x80] @ replicate ((119 - length m mod 64) mod 64) 0 @ u64_be (8 * length m)"

subsection \<open>Hash computation (6.2.2)\<close>

text \<open>Step 1: the message schedule \<open>W_16 .. W_63\<close>, one word per \<open>t\<close> as in the standard.\<close>

definition sched_step :: "word32 list \<Rightarrow> nat \<Rightarrow> word32 list" where
  "sched_step W t =
     W @ [sigma1_256 (W ! (t - 2)) + W ! (t - 7) + sigma0_256 (W ! (t - 15)) + W ! (t - 16)]"

definition schedule :: "bytes \<Rightarrow> word32 list" where
  "schedule blk = foldl sched_step (map be32 (chunks 4 blk)) [16..<64]"

text \<open>Steps 2 and 3: one round on the working variables \<open>a .. h\<close>.\<close>

fun sha_round :: "word32 list \<Rightarrow> word32 \<times> word32 \<Rightarrow> word32 list" where
  "sha_round [a, b, c, d, e, f, g, h] (k, w) =
     (let T1 = h + Sigma1_256 e + Ch e f g + k + w;
          T2 = Sigma0_256 a + Maj a b c
      in [T1 + T2, a, b, c, d + T1, e, f, g])"
| "sha_round s _ = s"

text \<open>Step 4: the intermediate hash value of one 512-bit block.\<close>

definition compress :: "word32 list \<Rightarrow> bytes \<Rightarrow> word32 list" where
  "compress H blk = map2 (+) (foldl sha_round H (zip K256 (schedule blk))) H"

definition sha256 :: "bytes \<Rightarrow> bytes" where
  "sha256 m = concat (map word32_bytes (foldl compress H0_256 (chunks 64 (sha256_pad m))))"

subsection \<open>Lengths\<close>

lemma length_u64_be [simp]: "length (u64_be n) = 8"
  by (simp add: u64_be_def)

lemma length_word32_bytes [simp]: "length (word32_bytes w) = 4"
  by (simp add: word32_bytes_def)

lemma length_sha_round [simp]: "length s = 8 \<Longrightarrow> length (sha_round s kw) = 8"
  by (cases "(s, kw)" rule: sha_round.cases) (auto simp: Let_def)

lemma length_foldl_sha_round: "length s = 8 \<Longrightarrow> length (foldl sha_round s kws) = 8"
  by (induction kws arbitrary: s) simp_all

lemma length_compress [simp]: "length H = 8 \<Longrightarrow> length (compress H blk) = 8"
  by (simp add: compress_def length_foldl_sha_round)

lemma length_foldl_compress: "length H = 8 \<Longrightarrow> length (foldl compress H blks) = 8"
  by (induction blks arbitrary: H) simp_all

lemma length_concat_word32_bytes:
  "length (concat (map word32_bytes ws)) = 4 * length ws"
  by (induction ws) simp_all

lemma length_H0_256 [simp]: "length H0_256 = 8"
  by (simp add: H0_256_def)

lemma length_sha256 [simp]: "length (sha256 m) = 32"
  by (simp add: sha256_def length_concat_word32_bytes length_foldl_compress)

lemma length_sha256_pad: "length (sha256_pad m) = length m + 9 + (119 - length m mod 64) mod 64"
  by (simp add: sha256_pad_def)

lemma length_sched_foldl: "length (foldl sched_step W ts) = length W + length ts"
  by (induction ts arbitrary: W) (simp_all add: sched_step_def)

lemma pad_length_dvd: "64 dvd ((l::nat) + 9 + (119 - l mod 64) mod 64)"
proof -
  let ?r = "l mod 64"
  have r: "?r < 64" by (rule mod_less_divisor) arith
  have k: "?r + 9 + (119 - ?r) mod 64 = 64 \<or> ?r + 9 + (119 - ?r) mod 64 = 128"
  proof (cases "?r \<le> 55")
    case True
    then have "119 - ?r = (55 - ?r) + 64" by arith
    then have "(119 - ?r) mod 64 = (55 - ?r) mod 64" by (simp only: mod_add_self2)
    also have "\<dots> = 55 - ?r" using True by (intro mod_less) arith
    finally show ?thesis using True by arith
  next
    case False
    with r have "(119 - ?r) mod 64 = 119 - ?r" by (intro mod_less) arith
    with False r show ?thesis by arith
  qed
  have split: "l + 9 + (119 - ?r) mod 64 = 64 * (l div 64) + (?r + 9 + (119 - ?r) mod 64)"
    using div_mult_mod_eq [of l 64] by arith
  have d: "64 dvd (64::nat)" "64 dvd (128::nat)" by simp_all
  from k have "64 dvd (?r + 9 + (119 - ?r) mod 64)"
  proof
    assume "?r + 9 + (119 - ?r) mod 64 = 64"
    with d(1) show ?thesis by (simp only:)
  next
    assume "?r + 9 + (119 - ?r) mod 64 = 128"
    with d(2) show ?thesis by (simp only:)
  qed
  then show ?thesis unfolding split by (rule dvd_add [OF dvd_triv_left])
qed

subsection \<open>Properties\<close>


end
