(* ===== verification/Hmac.thy ===== *)
theory Hmac
  imports Sha256
begin

text \<open>
  HMAC-SHA256 (RFC 2104, FIPS 198-1) as OpenSSL computes it for the pseudorandom function
  of PBKDF2: a key longer than the 64-byte block is first hashed, the key is then padded
  with zero bytes to the block size (\<open>hmac_key0\<close>), and the digest is
  \<open>H((K0 XOR opad) || H((K0 XOR ipad) || text))\<close>.
\<close>

definition hmac_key0 :: "bytes \<Rightarrow> bytes" where
  "hmac_key0 K = (let K' = (if 64 < length K then sha256 K else K) in K' @ replicate (64 - length K') 0)"

definition hmac_sha256 :: "bytes \<Rightarrow> bytes \<Rightarrow> bytes" where
  "hmac_sha256 K text =
     (let K0 = hmac_key0 K
      in sha256 (xor_bytes K0 (replicate 64 0x5c) @ sha256 (xor_bytes K0 (replicate 64 0x36) @ text)))"

lemma length_hmac_key0 [simp]: "length (hmac_key0 K) = 64"
  by (simp add: hmac_key0_def Let_def)

lemma length_hmac_sha256 [simp]: "length (hmac_sha256 K text) = 32"
  by (simp add: hmac_sha256_def Let_def)

lemma hmac_key0_long: "64 < length K \<Longrightarrow> hmac_key0 (sha256 K) = hmac_key0 K"
  by (simp add: hmac_key0_def Let_def)

text \<open>
  HMAC's key block is always 64 bytes, whatever the key's length (keys longer than
  the block are hashed first), and the MAC is 32 bytes, the length of every PBKDF2 block.
\<close>

theorem hmac_sha256_lengths:
  "length (hmac_key0 K) = 64 \<and> length (hmac_sha256 K text) = 32"
  by simp

text \<open>
  C33. Keys longer than the block collide with their digest: for a key of more than 64
  bytes, HMAC-SHA256 under the key and under its SHA-256 digest (a different, 32-byte
  key) are the same function.
\<close>

theorem hmac_sha256_long_key:
  "64 < length K \<Longrightarrow> hmac_sha256 (sha256 K) text = hmac_sha256 K text \<and> sha256 K \<noteq> K"
proof
  assume "64 < length K"
  then show "hmac_sha256 (sha256 K) text = hmac_sha256 K text"
    by (simp add: hmac_sha256_def hmac_key0_long)
  from \<open>64 < length K\<close> show "sha256 K \<noteq> K" by (auto dest: arg_cong [where f = length])
qed

theorem hmac_sha256_long_key_witness:
  "64 < length (replicate 65 (0::byte)) \<and>
   hmac_sha256 (sha256 (replicate 65 0)) [] = hmac_sha256 (replicate 65 0) [] \<and>
   sha256 (replicate 65 (0::byte)) \<noteq> replicate 65 0"
proof -
  have h: "64 < length (replicate 65 (0::byte))" by simp
  show ?thesis using h hmac_sha256_long_key [OF h, of "[]"] by blast
qed

end
