(* ===== verification/Pbkdf2.thy ===== *)
theory Pbkdf2
  imports Hmac
begin

text \<open>
  PBKDF2 with HMAC-SHA256 as pseudorandom function, the key derivation that
  \<open>PBKDF2HMAC(algorithm=hashes.SHA256(), length=32, salt=salt, iterations=iterations)\<close>
  performs at lines 33 to 41 and 77 to 85 of \<open>generate_password_hash.py\<close>.
  \<^item> \<open>pbkdf2_F\<close> and \<open>pbkdf2_ref\<close> are the definition of RFC 8018, section 5.2:
    \<open>F(P, S, c, i) = U_1 XOR ... XOR U_c\<close> with \<open>U_1 = PRF(P, S || INT(i))\<close> and
    \<open>U_j = PRF(P, U_(j-1))\<close>, and \<open>DK\<close> the first \<open>dkLen\<close> bytes of \<open>T_1 || T_2 || ...\<close>.
  \<^item> \<open>pbkdf2_iter\<close>, \<open>pbkdf2_block\<close> and \<open>pbkdf2_blocks\<close> are the loop of OpenSSL's
    PBKDF2 derivation, which the library calls: per block it copies the first \<open>cplen\<close>
    bytes of \<open>U_1\<close> into the output and XORs the next \<open>c - 1\<close> values into them.
  The theorem \<open>pbkdf2_blocks_ref\<close> shows that the loop computes the RFC's function.
\<close>

definition int_be32 :: "nat \<Rightarrow> bytes" where
  "int_be32 i = [of_nat (i div 2 ^ 24), of_nat (i div 2 ^ 16), of_nat (i div 2 ^ 8), of_nat i]"

subsection \<open>The definition of RFC 8018\<close>

fun pbkdf2_us :: "bytes \<Rightarrow> bytes \<Rightarrow> nat \<Rightarrow> bytes list" where
  "pbkdf2_us P u 0 = []"
| "pbkdf2_us P u (Suc c) = u # pbkdf2_us P (hmac_sha256 P u) c"

definition pbkdf2_F :: "bytes \<Rightarrow> bytes \<Rightarrow> nat \<Rightarrow> nat \<Rightarrow> bytes" where
  "pbkdf2_F P S c i = foldl xor_bytes (replicate 32 0) (pbkdf2_us P (hmac_sha256 P (S @ int_be32 i)) c)"

definition pbkdf2_ref :: "bytes \<Rightarrow> bytes \<Rightarrow> nat \<Rightarrow> nat \<Rightarrow> bytes" where
  "pbkdf2_ref P S c dkLen = take dkLen (concat (map (pbkdf2_F P S c) [1..<(dkLen + 31) div 32 + 1]))"

subsection \<open>The loop of the implementation\<close>

fun pbkdf2_iter :: "bytes \<Rightarrow> bytes \<Rightarrow> bytes \<Rightarrow> nat \<Rightarrow> bytes" where
  "pbkdf2_iter P u t 0 = t"
| "pbkdf2_iter P u t (Suc n) = (let u' = hmac_sha256 P u in pbkdf2_iter P u' (xor_bytes t u') n)"

definition pbkdf2_block :: "bytes \<Rightarrow> bytes \<Rightarrow> nat \<Rightarrow> nat \<Rightarrow> nat \<Rightarrow> bytes" where
  "pbkdf2_block P S c i cplen =
     (let u1 = hmac_sha256 P (S @ int_be32 i) in pbkdf2_iter P u1 (take cplen u1) (c - 1))"

function pbkdf2_blocks :: "bytes \<Rightarrow> bytes \<Rightarrow> nat \<Rightarrow> nat \<Rightarrow> nat \<Rightarrow> bytes" where
  "pbkdf2_blocks P S c i tkeylen =
     (if tkeylen = 0 then []
      else (let cplen = min tkeylen 32
            in pbkdf2_block P S c i cplen @ pbkdf2_blocks P S c (Suc i) (tkeylen - cplen)))"
  by pat_completeness auto
termination
  by (relation "measure (\<lambda>(P, S, c, i, n). n)") auto

declare pbkdf2_blocks.simps [simp del]

text \<open>
  The derivation as the library exposes it: an iteration count below 1 is refused
  (\<open>InvalidIterations\<close>), otherwise the blocks are computed from block index 1.
\<close>

definition pbkdf2_hmac_sha256 :: "bytes \<Rightarrow> bytes \<Rightarrow> int \<Rightarrow> nat \<Rightarrow> pyexc + bytes" where
  "pbkdf2_hmac_sha256 P S iterations keylen =
     (if iterations < 1 then Inl InvalidIterations
      else Inr (pbkdf2_blocks P S (nat iterations) 1 keylen))"

subsection \<open>The loop computes the RFC's function\<close>

lemma pbkdf2_iter_foldl: "pbkdf2_iter P u t n = foldl xor_bytes t (pbkdf2_us P (hmac_sha256 P u) n)"
  by (induction n arbitrary: u t) (simp_all add: Let_def)

lemma pbkdf2_block_F: "0 < c \<Longrightarrow> pbkdf2_block P S c i cplen = take cplen (pbkdf2_F P S c i)"
proof -
  assume "0 < c"
  then obtain n where c: "c = Suc n" by (cases c) auto
  let ?u1 = "hmac_sha256 P (S @ int_be32 i)"
  have "pbkdf2_F P S c i = foldl xor_bytes ?u1 (pbkdf2_us P (hmac_sha256 P ?u1) n)"
    by (simp add: pbkdf2_F_def c xor_bytes_zeros)
  moreover have "take k (foldl xor_bytes t us) = foldl xor_bytes (take k t) us" for k t us
    by (induction us arbitrary: t) (simp_all add: take_xor_bytes)
  ultimately show ?thesis
    by (simp add: pbkdf2_block_def pbkdf2_iter_foldl c Let_def)
qed

lemma length_pbkdf2_us:
  "length u = 32 \<Longrightarrow> v \<in> set (pbkdf2_us P u c) \<Longrightarrow> length v = 32"
proof (induction c arbitrary: u)
  case 0
  then show ?case by simp
next
  case (Suc c)
  with Suc.IH [of "hmac_sha256 P u"] show ?case by auto
qed

lemma length_foldl_xor_bytes:
  "(\<forall>u \<in> set us. length u = length t) \<Longrightarrow> length (foldl xor_bytes t us) = length t"
  by (induction us arbitrary: t) simp_all

lemma length_pbkdf2_F [simp]: "length (pbkdf2_F P S c i) = 32"
proof -
  let ?u1 = "hmac_sha256 P (S @ int_be32 i)"
  have "\<forall>u \<in> set (pbkdf2_us P ?u1 c). length u = length (replicate 32 (0::byte))"
    using length_pbkdf2_us [of ?u1] by simp
  then show ?thesis by (simp add: pbkdf2_F_def length_foldl_xor_bytes)
qed

lemma blocks_count: "0 < (n::nat) \<Longrightarrow> (n + 31) div 32 = Suc ((n - min n 32 + 31) div 32)"
proof (cases "n \<le> 32")
  case True
  assume "0 < n"
  with True show ?thesis by (simp add: min_def)
next
  case False
  then show ?thesis by (simp add: min_def)
qed

lemma blocks_cover: "(n::nat) \<le> 32 * ((n + 31) div 32)"
  by presburger

lemma pbkdf2_blocks_concat:
  "0 < c \<Longrightarrow>
   pbkdf2_blocks P S c i n = take n (concat (map (pbkdf2_F P S c) [i..<i + (n + 31) div 32]))"
proof (induction P S c i n rule: pbkdf2_blocks.induct)
  case (1 P S c i n)
  show ?case
  proof (cases "n = 0")
    case True
    then show ?thesis by (simp add: pbkdf2_blocks.simps [of P S c i 0])
  next
    case False
    then have range: "[i..<i + (n + 31) div 32] = i # [Suc i..<Suc i + (n - min n 32 + 31) div 32]"
      by (simp add: blocks_count upt_conv_Cons)
    have IH: "pbkdf2_blocks P S c (Suc i) (n - min n 32)
        = take (n - min n 32)
            (concat (map (pbkdf2_F P S c) [Suc i..<Suc i + (n - min n 32 + 31) div 32]))"
      using "1.IH" [OF False refl] "1.prems" .
    let ?rest = "concat (map (pbkdf2_F P S c) [Suc i..<Suc i + (n - min n 32 + 31) div 32])"
    have "pbkdf2_blocks P S c i n
        = take (min n 32) (pbkdf2_F P S c i) @ pbkdf2_blocks P S c (Suc i) (n - min n 32)"
      using False "1.prems" by (simp add: pbkdf2_blocks.simps [of P S c i n] pbkdf2_block_F Let_def)
    also have "\<dots> = take n (pbkdf2_F P S c i) @ take (n - 32) ?rest"
      by (simp only: IH) (simp add: min_def)
    also have "\<dots> = take n (concat (map (pbkdf2_F P S c) [i..<i + (n + 31) div 32]))"
      by (simp add: range take_append)
    finally show ?thesis .
  qed
qed

theorem pbkdf2_blocks_ref: "0 < c \<Longrightarrow> pbkdf2_blocks P S c 1 dkLen = pbkdf2_ref P S c dkLen"
proof -
  assume "0 < c"
  moreover have "[1..<1 + (dkLen + 31) div 32] = [1..<(dkLen + 31) div 32 + 1]"
    by (simp add: add.commute)
  ultimately show ?thesis
    by (simp only: pbkdf2_blocks_concat pbkdf2_ref_def)
qed

lemma length_concat_F:
  "length (concat (map (pbkdf2_F P S c) is)) = 32 * length is"
  by (induction "is") simp_all

theorem length_pbkdf2_ref: "length (pbkdf2_ref P S c dkLen) = dkLen"
  using blocks_cover [of dkLen] by (simp add: pbkdf2_ref_def length_concat_F)

lemma length_pbkdf2_iter:
  "length t \<le> 32 \<Longrightarrow> length (pbkdf2_iter P u t n) = length t"
  by (induction n arbitrary: u t) (simp_all add: Let_def)

subsection \<open>The password enters only through the pseudorandom function\<close>

lemma pbkdf2_us_prf_cong: "hmac_sha256 P = hmac_sha256 Q \<Longrightarrow> pbkdf2_us P u c = pbkdf2_us Q u c"
  by (induction c arbitrary: u) simp_all

lemma pbkdf2_ref_prf_cong: "hmac_sha256 P = hmac_sha256 Q \<Longrightarrow> pbkdf2_ref P S c n = pbkdf2_ref Q S c n"
proof -
  assume h: "hmac_sha256 P = hmac_sha256 Q"
  then have "pbkdf2_F P S c = pbkdf2_F Q S c"
    by (simp add: fun_eq_iff pbkdf2_F_def pbkdf2_us_prf_cong [OF h])
  then show ?thesis by (simp add: pbkdf2_ref_def)
qed

subsection \<open>Properties\<close>

text \<open>
  C8. The derivation the library performs refines RFC 8018: an iteration count below 1
  is refused, and any other count yields exactly the RFC's \<open>DK = PBKDF2(P, S, c, dkLen)\<close>
  with HMAC-SHA256 as the pseudorandom function.
\<close>

theorem pbkdf2_hmac_sha256_refines_rfc:
  "pbkdf2_hmac_sha256 P S it dkLen =
     (if it < 1 then Inl InvalidIterations else Inr (pbkdf2_ref P S (nat it) dkLen))"
proof (cases "it < 1")
  case False
  then have "0 < nat it" by simp
  from pbkdf2_blocks_ref [OF this, of P S dkLen] False show ?thesis
    by (simp add: pbkdf2_hmac_sha256_def)
qed (simp add: pbkdf2_hmac_sha256_def)

text \<open>
  C9. The block loop writes exactly the requested number of bytes, whatever the
  iteration count and the first block index: \<open>length=32\<close> at lines 35 and 79 gives a
  32-byte key.
\<close>

theorem length_pbkdf2_blocks: "length (pbkdf2_blocks P S c i n) = n"
proof (induction P S c i n rule: pbkdf2_blocks.induct)
  case (1 P S c i n)
  show ?case
  proof (cases "n = 0")
    case True
    then show ?thesis by (simp add: pbkdf2_blocks.simps [of P S c i 0])
  next
    case False
    then have "length (pbkdf2_block P S c i (min n 32)) = min n 32"
      by (simp add: pbkdf2_block_def Let_def length_pbkdf2_iter)
    with "1.IH" [OF False refl] False show ?thesis
      by (simp add: pbkdf2_blocks.simps [of P S c i n] Let_def)
  qed
qed

end
