(* ===== verification/CompareDigest.thy ===== *)
theory CompareDigest
  imports Prelude
begin

text \<open>
  The constant-time comparison that line 88 of \<open>generate_password_hash.py\<close> means to
  call: \<open>hmac.compare_digest(key, stored_key)\<close> (line 88 names
  \<open>hashlib.compare_digest\<close>, which does not exist; see theory HashEngine). For two
  bytes-like arguments CPython runs \<open>_tscmp\<close> (Modules/_operator.c, and the same
  function over \<open>CRYPTO_memcmp\<close> in Modules/_hashopenssl.c): the loop always runs over the
  length of the second argument; when the lengths differ it compares the second argument
  with itself and starts from a non-zero result, so that neither the length mismatch nor
  the position of a differing byte changes the number of steps. \<open>tscmp_loop\<close> is that
  loop, with the number of iterations it performs returned beside the accumulated result.
\<close>

unbundle bit_operations_syntax

fun tscmp_loop :: "bytes \<Rightarrow> bytes \<Rightarrow> byte \<Rightarrow> nat \<Rightarrow> byte \<times> nat" where
  "tscmp_loop (l # ls) (r # rs) result steps = tscmp_loop ls rs (result OR (l XOR r)) (Suc steps)"
| "tscmp_loop _ _ result steps = (result, steps)"

definition tscmp_run :: "bytes \<Rightarrow> bytes \<Rightarrow> byte \<times> nat" where
  "tscmp_run a b =
     (let (left, result) = (if length a = length b then (a, 0) else (b, 1))
      in tscmp_loop left b result 0)"

definition compare_digest :: "bytes \<Rightarrow> bytes \<Rightarrow> bool" where
  "compare_digest a b = (fst (tscmp_run a b) = 0)"

lemma tscmp_loop_result:
  "length l = length r \<Longrightarrow>
   (fst (tscmp_loop l r result steps) = 0) \<longleftrightarrow> result = 0 \<and> l = r"
  by (induction l r result steps rule: tscmp_loop.induct) auto

lemma tscmp_loop_steps:
  "length l = length r \<Longrightarrow> snd (tscmp_loop l r result steps) = steps + length r"
  by (induction l r result steps rule: tscmp_loop.induct) auto

lemma compare_digest_iff: "compare_digest a b \<longleftrightarrow> a = b"
proof (cases "length a = length b")
  case True
  then show ?thesis by (simp add: compare_digest_def tscmp_run_def tscmp_loop_result)
next
  case False
  then have "a \<noteq> b" by auto
  with False show ?thesis by (simp add: compare_digest_def tscmp_run_def tscmp_loop_result)
qed

lemma tscmp_run_steps: "snd (tscmp_run a b) = length b"
  by (simp add: tscmp_run_def tscmp_loop_steps)

subsection \<open>Properties\<close>


end
