(* ===== verification/HashEngine.thy ===== *)
theory HashEngine
  imports Utf8 Base64 Pbkdf2 CompareDigest "HOL-Library.Stream"
begin

text \<open>
  The two functions of \<open>generate_password_hash.py\<close>:
  \<open>generate_pbkdf2_hash\<close> (lines 12 to 52) and \<open>verify_pbkdf2_hash\<close> (lines 54 to 92).
  The returned dictionary is the record \<open>hash_record\<close>; the secure random source behind
  \<open>os.urandom\<close> is an infinite stream of bytes threaded through \<open>generate_pbkdf2_hash\<close>,
  so that what the call consumes is visible; the \<open>PBKDF2HMAC\<close> object of the
  \<open>cryptography\<close> library is the record \<open>pbkdf2hmac\<close> with its \<open>_used\<close> flag, and
  its \<open>derive\<close> method the state transformer \<open>kdf_derive\<close>. An exception is a value
  \<open>Inl e\<close>; \<open>verify_pbkdf2_hash\<close> catches every one of them, as the \<open>except
  Exception\<close> of lines 90 to 92 does, prints it, and returns \<open>False\<close>. Line 88 calls
  \<open>hashlib.compare_digest\<close>, which CPython's \<open>hashlib\<close> does not define: verification
  is written over the comparison it calls (\<open>verify_with cmp\<close>), and the function as
  written (\<open>verify_pbkdf2_hash\<close>) is distinguished from the repaired one with
  \<open>hmac.compare_digest\<close> (\<open>verify_hmac\<close>).
\<close>

subsection \<open>The library objects\<close>

type_synonym entropy = "byte stream"

definition urandom :: "nat \<Rightarrow> entropy \<Rightarrow> bytes \<times> entropy" where
  "urandom n r = (stake n r, sdrop n r)"

record pbkdf2hmac =
  kdf_length :: nat
  kdf_salt :: bytes
  kdf_iterations :: int
  kdf_used :: bool

definition PBKDF2HMAC :: "nat \<Rightarrow> bytes \<Rightarrow> int \<Rightarrow> pbkdf2hmac" where
  "PBKDF2HMAC len salt iterations =
     \<lparr>kdf_length = len, kdf_salt = salt, kdf_iterations = iterations, kdf_used = False\<rparr>"

text \<open>
  \<open>derive\<close> refuses a second use, marks the object used before it computes, and takes
  a bytes-like key material only.
\<close>

definition kdf_derive :: "pbkdf2hmac \<Rightarrow> pyval \<Rightarrow> (pyexc + bytes) \<times> pbkdf2hmac" where
  "kdf_derive kdf key_material =
     (if kdf_used kdf then (Inl AlreadyFinalized, kdf)
      else (case key_material of
              PyBytes pw \<Rightarrow> pbkdf2_hmac_sha256 pw (kdf_salt kdf) (kdf_iterations kdf) (kdf_length kdf)
            | _ \<Rightarrow> Inl TypeError,
            kdf\<lparr>kdf_used := True\<rparr>))"

subsection \<open>The program\<close>

text \<open>Lines 25 and 26 (and 69, 70): a \<open>str\<close> password is encoded, anything else is kept.\<close>

definition password_bytes :: "pyval \<Rightarrow> pyexc + pyval" where
  "password_bytes password =
     (case password of
        PyStr s \<Rightarrow> sbind (str_encode_utf8 s) (\<lambda>bs. Inr (PyBytes bs))
      | _ \<Rightarrow> Inr password)"

text \<open>Lines 44 and 45: \<open>base64.b64encode(x).decode('utf-8')\<close>.\<close>

definition b64_text :: "bytes \<Rightarrow> pyexc + pystr" where
  "b64_text x = bytes_decode_utf8 (b2a_base64 x)"

record hash_record =
  hash :: pystr
  salt :: pystr
  iterations :: int
  algorithm :: pystr

definition DEFAULT_ITERATIONS :: int where
  "DEFAULT_ITERATIONS = 600000"

definition generate_pbkdf2_hash ::
    "pyval \<Rightarrow> bytes option \<Rightarrow> int \<Rightarrow> entropy \<Rightarrow> (pyexc + hash_record) \<times> entropy" where
  "generate_pbkdf2_hash password salt_arg iters rng =
     (case password_bytes password of
        Inl e \<Rightarrow> (Inl e, rng)
      | Inr pw \<Rightarrow>
          (let (s, rng') = (case salt_arg of None \<Rightarrow> urandom 32 rng | Some s \<Rightarrow> (s, rng));
               key = fst (kdf_derive (PBKDF2HMAC 32 s iters) pw)
           in (sbind key (\<lambda>k.
               sbind (b64_text s) (\<lambda>salt_b64.
               sbind (b64_text k) (\<lambda>key_b64.
               Inr \<lparr>hash = key_b64, salt = salt_b64, iterations = iters,
                    algorithm = ascii ''PBKDF2-SHA256''\<rparr>))), rng')))"

text \<open>
  Line 88 looks the name \<open>compare_digest\<close> up in the module \<open>hashlib\<close>. CPython's
  \<open>hashlib\<close> defines no such name: the constant-time comparison is \<open>hmac.compare_digest\<close>
  (also exported as \<open>secrets.compare_digest\<close>). The lookup raises \<open>AttributeError\<close> before
  anything is compared. \<open>hmac_compare_digest\<close> is the function that the comment on line 87
  and the verify operation of section 4.1 of the specification describe.
\<close>

definition hashlib_compare_digest :: "bytes \<Rightarrow> bytes \<Rightarrow> pyexc + bool" where
  "hashlib_compare_digest a b = Inl (AttributeError (ascii ''hashlib'') (ascii ''compare_digest''))"

definition hmac_compare_digest :: "bytes \<Rightarrow> bytes \<Rightarrow> pyexc + bool" where
  "hmac_compare_digest a b = Inr (compare_digest a b)"

text \<open>
  The body of the \<open>try\<close> block, lines 68 to 88, with the comparison of line 88 as
  parameter \<open>cmp\<close>.
\<close>

definition verify_body ::
    "(bytes \<Rightarrow> bytes \<Rightarrow> pyexc + bool) \<Rightarrow> pyval \<Rightarrow> pyval \<Rightarrow> pyval \<Rightarrow> int \<Rightarrow> pyexc + bool" where
  "verify_body cmp password stored_hash stored_salt iters =
     sbind (password_bytes password) (\<lambda>pw.
     sbind (b64decode stored_salt) (\<lambda>s.
     sbind (b64decode stored_hash) (\<lambda>stored_key.
     sbind (fst (kdf_derive (PBKDF2HMAC 32 s iters) pw)) (\<lambda>key.
     cmp key stored_key))))"

text \<open>
  \<open>str(e)\<close> for the exceptions that reach the handler: the texts of CPython and of the
  library where the model determines them, the exception's name otherwise.
\<close>

definition hex_digit :: "nat \<Rightarrow> nat" where
  "hex_digit d = (if d < 10 then 48 + d else 87 + d)"

text \<open>
  The escape of a character in a \<open>UnicodeEncodeError\<close> text: \<open>\xhh\<close> below 256,
  \<open>\uhhhh\<close> in the rest of the basic plane, \<open>\Uhhhhhhhh\<close> above it.
\<close>

definition char_escape :: "nat \<Rightarrow> pystr" where
  "char_escape c =
     (let (tag, n) = (if c < 0x100 then (120, 2) else if c < 0x10000 then (117, 4) else (85, 8))
      in [92, tag] @ map (\<lambda>k. hex_digit (c div 16 ^ k mod 16)) (rev [0..<n]))"

definition exc_message :: "pyexc \<Rightarrow> pystr" where
  "exc_message e =
     (case e of
        UnicodeEncodeError c i \<Rightarrow>
          [39] @ ascii ''utf-8'' @ [39] @ ascii '' codec can'' @ [39] @ ascii ''t encode character ''
          @ [39, 92, 117] @ map (\<lambda>k. hex_digit (c div 16 ^ k mod 16)) [3, 2, 1, 0] @ [39]
          @ ascii '' in position '' @ dec_str i @ ascii '': surrogates not allowed''
      | NonAsciiError \<Rightarrow> ascii ''string argument should contain only ASCII characters''
      | Base64LengthError n \<Rightarrow>
          ascii ''Invalid base64-encoded string: number of data characters ('' @ dec_str n
          @ ascii '') cannot be 1 more than a multiple of 4''
      | Base64PaddingError \<Rightarrow> ascii ''Incorrect padding''
      | UnicodeDecodeError i \<Rightarrow> ascii ''UnicodeDecodeError''
      | TypeError \<Rightarrow> ascii ''TypeError''
      | InvalidIterations \<Rightarrow> ascii ''InvalidIterations''
      | AlreadyFinalized \<Rightarrow> ascii ''PBKDF2 instances can only be used once.''
      | EOFError \<Rightarrow> ascii ''EOF when reading a line''
      | ModuleNotFoundError m \<Rightarrow> ascii ''No module named '' @ [39] @ m @ [39]
      | AttributeError m a \<Rightarrow>
          ascii ''module '' @ [39] @ m @ [39] @ ascii '' has no attribute '' @ [39] @ a @ [39]
      | OrdinalEncodeError codec c i n \<Rightarrow>
          [39] @ codec @ [39] @ ascii '' codec can'' @ [39] @ ascii ''t encode character ''
          @ [39] @ char_escape c @ [39] @ ascii '' in position '' @ dec_str i
          @ ascii '': ordinal not in range('' @ dec_str n @ ascii '')'')"

text \<open>
  Lines 67 to 92: the handler prints the exception's text and returns \<open>False\<close>. The
  printed lines are returned beside the result, in order.
\<close>

definition verify_with ::
    "(bytes \<Rightarrow> bytes \<Rightarrow> pyexc + bool) \<Rightarrow> pyval \<Rightarrow> pyval \<Rightarrow> pyval \<Rightarrow> int \<Rightarrow> bool \<times> pystr list" where
  "verify_with cmp password stored_hash stored_salt iters =
     (case verify_body cmp password stored_hash stored_salt iters of
        Inl e \<Rightarrow> (False, [ascii ''Error during verification: '' @ exc_message e])
      | Inr r \<Rightarrow> (r, []))"

text \<open>
  The function as written. \<open>verify_hmac\<close> is the same function with \<open>hmac.compare_digest\<close>
  on line 88; it is the repair the properties about successful verification are stated for.
\<close>

definition verify_pbkdf2_hash :: "pyval \<Rightarrow> pyval \<Rightarrow> pyval \<Rightarrow> int \<Rightarrow> bool \<times> pystr list" where
  "verify_pbkdf2_hash = verify_with hashlib_compare_digest"

definition verify_hmac :: "pyval \<Rightarrow> pyval \<Rightarrow> pyval \<Rightarrow> int \<Rightarrow> bool \<times> pystr list" where
  "verify_hmac = verify_with hmac_compare_digest"

subsection \<open>Facts the properties share\<close>

text \<open>The passwords that line 26 turns into bytes without raising.\<close>

definition password_ok :: "pyval \<Rightarrow> bool" where
  "password_ok password =
     (case password of PyStr s \<Rightarrow> \<not> list_ex is_surrogate s | PyBytes _ \<Rightarrow> True | PyOther \<Rightarrow> False)"

text \<open>The salt a call of \<open>generate_pbkdf2_hash\<close> uses: the caller's, or 32 bytes of entropy.\<close>

definition salt_used :: "bytes option \<Rightarrow> entropy \<Rightarrow> bytes" where
  "salt_used salt_arg rng = (case salt_arg of None \<Rightarrow> stake 32 rng | Some s \<Rightarrow> s)"

text \<open>
  The record a caller stores: base64 texts over the alphabet and \<open>=\<close>, a key text of 44
  characters (32 bytes), a salt text of a whole number of quads, a usable iteration count
  and the algorithm name.
\<close>

definition hash_record_wf :: "hash_record \<Rightarrow> bool" where
  "hash_record_wf r \<longleftrightarrow>
     length (hash r) = 44 \<and> set (hash r) \<subseteq> set (map unat (b64_pad # b64_table)) \<and>
     4 dvd length (salt r) \<and> set (salt r) \<subseteq> set (map unat (b64_pad # b64_table)) \<and>
     1 \<le> iterations r \<and> algorithm r = ascii ''PBKDF2-SHA256''"

lemma password_bytes_cases:
  "password_ok password \<longleftrightarrow> (\<exists>pw. password_bytes password = Inr (PyBytes pw))"
proof (cases password)
  case (PyStr s)
  have "(\<exists>bs. str_encode_utf8 s = Inr bs) \<longleftrightarrow> \<not> isl (str_encode_utf8 s)"
    by (cases "str_encode_utf8 s") auto
  with PyStr show ?thesis
    by (auto simp: password_ok_def password_bytes_def str_encode_utf8_def utf8_encode_from_error
        sbind_eq_Inr)
qed (simp_all add: password_ok_def password_bytes_def)

lemma password_bytes_not_str: "password_bytes password \<noteq> Inr (PyStr s)"
  by (cases password) (auto simp: password_bytes_def sbind_def split: sum.splits)

lemma kdf_derive_fresh:
  "fst (kdf_derive (PBKDF2HMAC n s it) (PyBytes pw)) = pbkdf2_hmac_sha256 pw s it n"
  by (simp add: kdf_derive_def PBKDF2HMAC_def)

lemma kdf_derive_other: "fst (kdf_derive (PBKDF2HMAC n s it) PyOther) = Inl TypeError"
  by (simp add: kdf_derive_def PBKDF2HMAC_def)

lemma pbkdf2_hmac_sha256_ok:
  assumes "1 \<le> it"
  shows "pbkdf2_hmac_sha256 pw s it n = Inr (pbkdf2_ref pw s (nat it) n)"
proof -
  from assms have "0 < nat it" by simp
  from pbkdf2_blocks_ref [OF this, of pw s n] assms show ?thesis
    by (simp add: pbkdf2_hmac_sha256_def)
qed

lemma b64_text_ascii: "b64_text x = Inr (map unat (b64encode x))"
  using b2a_loop_b64encode [of 0 "[]" x]
  by (simp add: b64_text_def b2a_base64_def bytes_decode_utf8_ascii b64encode_ascii)

lemma b64decode_text: "b64decode (PyStr (map unat (b64encode x))) = Inr x"
proof -
  have "list_all (\<lambda>c. c < 128) (map unat (b64encode x))"
    using b64encode_ascii [of x] by (simp add: list_all_iff)
  then show ?thesis
    by (simp add: b64decode_def bytes_from_decode_data_def comp_def b64_roundtrip)
qed

lemma generate_success:
  assumes "password_bytes password = Inr (PyBytes pw)" and "1 \<le> iters"
  shows "fst (generate_pbkdf2_hash password salt_arg iters rng) =
    Inr \<lparr>hash = map unat (b64encode (pbkdf2_ref pw (salt_used salt_arg rng) (nat iters) 32)),
         salt = map unat (b64encode (salt_used salt_arg rng)), iterations = iters,
         algorithm = ascii ''PBKDF2-SHA256''\<rparr>"
  using assms
  by (cases salt_arg) (simp_all add: generate_pbkdf2_hash_def urandom_def kdf_derive_fresh
      pbkdf2_hmac_sha256_ok b64_text_ascii salt_used_def)

lemma generate_error:
  "isl (fst (generate_pbkdf2_hash password salt_arg iters rng)) \<longleftrightarrow>
   \<not> (password_ok password \<and> 1 \<le> iters)"
proof (cases "password_bytes password")
  case (Inl e)
  then have "\<not> password_ok password" by (simp add: password_bytes_cases)
  with Inl show ?thesis by (simp add: generate_pbkdf2_hash_def)
next
  case (Inr v)
  show ?thesis
  proof (cases v)
    case (PyStr s)
    with Inr password_bytes_not_str show ?thesis by blast
  next
    case (PyBytes pw)
    with Inr have ok: "password_ok password" by (simp add: password_bytes_cases)
    show ?thesis
    proof (cases "1 \<le> iters")
      case True
      with Inr PyBytes ok show ?thesis by (simp add: generate_success)
    next
      case False
      with Inr PyBytes show ?thesis
        by (cases salt_arg) (simp_all add: generate_pbkdf2_hash_def urandom_def kdf_derive_fresh
            pbkdf2_hmac_sha256_def)
    qed
  next
    case PyOther
    with Inr have "\<not> password_ok password" by (simp add: password_bytes_cases)
    with Inr PyOther show ?thesis
      by (cases salt_arg) (simp_all add: generate_pbkdf2_hash_def urandom_def kdf_derive_other)
  qed
qed

lemma verify_on_encoding:
  assumes "password_bytes password = Inr (PyBytes pw)" and "1 \<le> iters"
  shows "verify_body cmp password (PyStr (map unat (b64encode k))) (PyStr (map unat (b64encode s))) iters
         = cmp (pbkdf2_ref pw s (nat iters) 32) k"
  using assms
  by (simp add: verify_body_def b64decode_text kdf_derive_fresh pbkdf2_hmac_sha256_ok)

lemma kdf_derive_result:
  "fst (kdf_derive (PBKDF2HMAC n s it) v) = Inr key \<longleftrightarrow>
   (\<exists>pw. v = PyBytes pw \<and> 1 \<le> it \<and> key = pbkdf2_ref pw s (nat it) n)"
proof (cases v)
  case (PyBytes pw)
  show ?thesis
  proof (cases "1 \<le> it")
    case True
    with PyBytes show ?thesis by (auto simp: kdf_derive_fresh pbkdf2_hmac_sha256_ok)
  next
    case False
    with PyBytes show ?thesis by (simp add: kdf_derive_fresh pbkdf2_hmac_sha256_def)
  qed
qed (simp_all add: kdf_derive_def PBKDF2HMAC_def)

lemma verify_result: "fst (verify_with cmp p h s it) \<longleftrightarrow> verify_body cmp p h s it = Inr True"
  by (simp add: verify_with_def split: sum.split)

text \<open>The message of the exception line 88 raises.\<close>

lemma exc_message_attribute:
  "exc_message (AttributeError m a) =
   ascii ''module '' @ [39] @ m @ [39] @ ascii '' has no attribute '' @ [39] @ a @ [39]"
  by (simp only: exc_message_def pyexc.case)

text \<open>
  The function as written reports the error of the repaired one where there is one, and the
  \<open>AttributeError\<close> of line 88 otherwise.
\<close>

lemma verify_body_hashlib:
  "verify_body hashlib_compare_digest p h s it =
     Inl (case verify_body hmac_compare_digest p h s it of
            Inl e \<Rightarrow> e
          | Inr _ \<Rightarrow> AttributeError (ascii ''hashlib'') (ascii ''compare_digest''))"
  by (simp add: verify_body_def sbind_def hashlib_compare_digest_def hmac_compare_digest_def
      split: sum.split)

lemma generate_pair:
  assumes "password_bytes password = Inr (PyBytes pw)" and "1 \<le> iters"
  shows "generate_pbkdf2_hash password None iters rng =
    (Inr \<lparr>hash = map unat (b64encode (pbkdf2_ref pw (stake 32 rng) (nat iters) 32)),
          salt = map unat (b64encode (stake 32 rng)), iterations = iters,
          algorithm = ascii ''PBKDF2-SHA256''\<rparr>, sdrop 32 rng)"
proof -
  have "snd (generate_pbkdf2_hash password None iters rng) = sdrop 32 rng"
    using assms(1) by (simp add: generate_pbkdf2_hash_def urandom_def split_def Let_def)
  then show ?thesis
    using generate_success [OF assms, of None rng] by (simp add: salt_used_def prod_eq_iff)
qed

lemma verify_generated:
  assumes "password_bytes password = Inr (PyBytes pw)" and "1 \<le> iters"
  shows "verify_hmac password (PyStr (map unat (b64encode k))) (PyStr (map unat (b64encode s))) iters
         = (pbkdf2_ref pw s (nat iters) 32 = k, [])"
  by (simp add: verify_hmac_def verify_with_def verify_on_encoding [OF assms] hmac_compare_digest_def
      compare_digest_iff)

lemma verify_generated_hashlib:
  assumes "password_bytes password = Inr (PyBytes pw)" and "1 \<le> iters"
  shows "verify_pbkdf2_hash password (PyStr (map unat (b64encode k))) (PyStr (map unat (b64encode s))) iters
         = (False, [ascii ''Error during verification: '' @
                    exc_message (AttributeError (ascii ''hashlib'') (ascii ''compare_digest''))])"
  by (simp add: verify_pbkdf2_hash_def verify_with_def verify_on_encoding [OF assms]
      hashlib_compare_digest_def)

subsection \<open>Properties\<close>



text \<open>
  C35. The order of the \<open>try\<close> block: once the password encodes, a stored salt that does
  not decode is reported (line 73), whatever the stored hash, which line 74 never reads,
  and whatever the iteration count.
\<close>

theorem verify_salt_error_first:
  assumes "password_ok password" and "b64decode stored_salt = Inl e"
  shows "verify_pbkdf2_hash password stored_hash stored_salt iters =
           (False, [ascii ''Error during verification: '' @ exc_message e])"
proof -
  from assms(1) obtain pw where "password_bytes password = Inr (PyBytes pw)"
    by (auto simp: password_bytes_cases)
  with assms(2) show ?thesis by (simp add: verify_pbkdf2_hash_def verify_with_def verify_body_def)
qed

theorem verify_salt_error_first_witness:
  "password_ok (PyBytes []) \<and> b64decode (PyStr (ascii ''also-bad'')) = Inl Base64PaddingError \<and>
   verify_pbkdf2_hash (PyBytes []) PyOther (PyStr (ascii ''also-bad'')) 0 =
     (False, [ascii ''Error during verification: '' @ exc_message Base64PaddingError])"
proof -
  have h1: "password_ok (PyBytes [])" by (simp add: password_ok_def)
  have h2: "b64decode (PyStr (ascii ''also-bad'')) = Inl Base64PaddingError"
    by (simp add: b64decode_def bytes_from_decode_data_def a2b_base64_def a2b_init_def table_a2b_def
        a2b_step_def a2b_finish_def b64_pad_def)
  show ?thesis using h1 h2 verify_salt_error_first [OF h1 h2, of PyOther 0] by blast
qed

end
