(* ===== verification/Demo.thy ===== *)
theory Demo
  imports HashEngine "HOL-Library.Sublist"
begin

text \<open>
  The interactive demo \<open>main\<close> of \<open>generate_password_hash.py\<close> (lines 94 to 127, run by
  lines 129 and 130). Its terminal is a list of events: the prompt that \<open>input()\<close> writes
  and the text of each \<open>print\<close> call, in order. The line the user types is a Python
  \<open>str\<close>, or \<open>None\<close> where \<open>input()\<close> meets the end of its input and raises
  \<open>EOFError\<close>. \<open>main\<close> catches nothing: an exception of \<open>generate_pbkdf2_hash\<close> ends the
  run with the events printed so far. The two \<open>verify_pbkdf2_hash\<close> calls print their
  own error lines, which appear between the demo's lines; since line 88 always fails, each
  prints the \<open>AttributeError\<close> of \<open>hashlib.compare_digest\<close>. Printing never fails here;
  theory Terminal adds the encoding of the terminal. The \<open>{:,}\<close> format of line 113 is
  \<open>fmt_thousands\<close>, built on \<open>str(n)\<close> (\<open>int_str\<close>).
\<close>

datatype io_event = Prompt pystr | Print pystr

subsection \<open>\<open>str(n)\<close> and \<open>format(n, ',')\<close>\<close>

definition int_str :: "int \<Rightarrow> pystr" where
  "int_str n = (if n < 0 then 45 # dec_str (nat (- n)) else dec_str (nat n))"

text \<open>A comma before every group of three digits, counted from the right.\<close>

function comma_groups :: "pystr \<Rightarrow> pystr" where
  "comma_groups ds =
     (if length ds \<le> 3 then ds
      else comma_groups (take (length ds - 3) ds) @ 44 # drop (length ds - 3) ds)"
  by pat_completeness auto
termination
  by (relation "measure length") auto

declare comma_groups.simps [simp del]

definition fmt_thousands :: "int \<Rightarrow> pystr" where
  "fmt_thousands n =
     (if n < 0 then 45 # comma_groups (dec_str (nat (- n))) else comma_groups (dec_str (nat n)))"

subsection \<open>The program\<close>

definition DEFAULT_PASSWORD :: pystr where
  "DEFAULT_PASSWORD = ascii ''mySecurePassword123''"

definition WRONG_PASSWORD :: pystr where
  "WRONG_PASSWORD = ascii ''wrongPassword''"

text \<open>U+2713 CHECK MARK and U+2717 BALLOT X, the marks of lines 120 and 125.\<close>

definition CHECK_MARK :: nat where
  "CHECK_MARK = 0x2713"

definition BALLOT_X :: nat where
  "BALLOT_X = 0x2717"

text \<open>Lines 96, 97 and 100: the banner and the prompt.\<close>

definition main_banner :: "io_event list" where
  "main_banner =
     [Print (ascii ''PBKDF2-SHA256 Password Hash Generator''), Print (replicate 50 61),
      Prompt (ascii ''Enter password to hash: '')]"

text \<open>Lines 102 to 104: an empty line selects the example password.\<close>

definition choose_password :: "pystr \<Rightarrow> pystr \<times> io_event list" where
  "choose_password line =
     (if line = [] then
        (DEFAULT_PASSWORD,
         [Print (ascii ''No password provided. Using example password '' @ [39] @ DEFAULT_PASSWORD @ [39])])
      else (line, []))"

text \<open>
  Lines 111 to 127, once the record \<open>result\<close> exists: the report, with the results and
  the printed lines of the two verifications of lines 119 and 124.
\<close>

definition main_report :: "hash_record \<Rightarrow> bool \<times> pystr list \<Rightarrow> bool \<times> pystr list \<Rightarrow> io_event list" where
  "main_report result v1 v2 =
     (let (is_valid, out1) = v1; (is_wrong_valid, out2) = v2 in
      [Print (10 # ascii ''Generated Hash:''),
       Print (ascii ''Algorithm: '' @ algorithm result),
       Print (ascii ''Iterations: '' @ fmt_thousands (iterations result)),
       Print (ascii ''Salt (base64): '' @ salt result),
       Print (ascii ''Hash (base64): '' @ hash result),
       Print (10 # ascii ''Verifying hash...'')]
      @ map Print out1 @
      [Print (ascii ''Verification result: '' @
              (if is_valid then CHECK_MARK # ascii '' Valid'' else BALLOT_X # ascii '' Invalid''))]
      @ map Print out2 @
      [Print (ascii ''Wrong password test: '' @
              (if \<not> is_wrong_valid then BALLOT_X # ascii '' Should be invalid''
               else CHECK_MARK # ascii '' Should be valid'')),
       Print (10 # ascii ''Hash generation complete!'')])"

definition main :: "pystr option \<Rightarrow> entropy \<Rightarrow> (pyexc + unit) \<times> io_event list \<times> entropy" where
  "main inp rng =
     (case inp of
        None \<Rightarrow> (Inl EOFError, main_banner, rng)
      | Some line \<Rightarrow>
          (let (password, notice) = choose_password line;
               out = main_banner @ notice @
                     [Print (10 # ascii ''Generating hash with 600,000 iterations...'')];
               (res, rng') = generate_pbkdf2_hash (PyStr password) None DEFAULT_ITERATIONS rng
           in case res of
                Inl e \<Rightarrow> (Inl e, out, rng')
              | Inr result \<Rightarrow>
                  (let v1 = verify_pbkdf2_hash (PyStr password) (PyStr (hash result))
                              (PyStr (salt result)) DEFAULT_ITERATIONS;
                       v2 = verify_pbkdf2_hash (PyStr WRONG_PASSWORD) (PyStr (hash result))
                              (PyStr (salt result)) DEFAULT_ITERATIONS
                   in (Inr (), out @ main_report result v1 v2, rng'))))"

subsection \<open>Formatting\<close>

lemma dec_str_digits: "list_all (\<lambda>c. 48 \<le> c \<and> c < 58) (dec_str n)"
proof (induction n rule: dec_str.induct)
  case (1 n)
  then show ?case by (subst dec_str.simps) auto
qed

lemma comma_groups_filter:
  "list_all (\<lambda>c. c \<noteq> 44) ds \<Longrightarrow> filter (\<lambda>c. c \<noteq> 44) (comma_groups ds) = ds"
proof (induction ds rule: comma_groups.induct)
  case (1 ds)
  show ?case
  proof (cases "length ds \<le> 3")
    case True
    with "1.prems" show ?thesis by (simp add: comma_groups.simps [of ds] list_all_iff filter_id_conv)
  next
    case False
    have "list_all (\<lambda>c. c \<noteq> 44) (take (length ds - 3) ds)" "list_all (\<lambda>c. c \<noteq> 44) (drop (length ds - 3) ds)"
      using "1.prems" by (auto simp: list_all_iff dest: in_set_takeD in_set_dropD)
    with "1.IH" [OF False] False show ?thesis
      by (simp add: comma_groups.simps [of ds] list_all_iff filter_id_conv)
  qed
qed

lemma length_comma_groups: "length (comma_groups ds) = length ds + (length ds - 1) div 3"
proof (induction ds rule: comma_groups.induct)
  case (1 ds)
  show ?case
  proof (cases "length ds \<le> 3")
    case True
    then show ?thesis by (simp add: comma_groups.simps [of ds])
  next
    case False
    with "1.IH" [OF False] show ?thesis
      by (simp add: comma_groups.simps [of ds])
  qed
qed

lemma no_comma_digits: "list_all (\<lambda>c. c \<noteq> 44) (dec_str n)"
  using dec_str_digits [of n] by (auto simp: list_all_iff)

subsection \<open>Runs of the demo\<close>

lemma default_password_ok: "\<not> list_ex is_surrogate DEFAULT_PASSWORD"
  by (simp add: DEFAULT_PASSWORD_def is_surrogate_def)

lemma main_success:
  assumes "choose_password line = (p, notice)"
    and "password_bytes (PyStr p) = Inr (PyBytes pw)"
    and "password_bytes (PyStr WRONG_PASSWORD) = Inr (PyBytes wpw)"
  shows "main (Some line) rng =
    (let s = stake 32 rng; k = pbkdf2_ref pw s 600000 32 in
     (Inr (), main_banner @ notice @ [Print (10 # ascii ''Generating hash with 600,000 iterations...'')]
        @ main_report \<lparr>hash = map unat (b64encode k), salt = map unat (b64encode s),
                        iterations = DEFAULT_ITERATIONS, algorithm = ascii ''PBKDF2-SHA256''\<rparr>
            (False, [ascii ''Error during verification: '' @
                     exc_message (AttributeError (ascii ''hashlib'') (ascii ''compare_digest''))])
            (False, [ascii ''Error during verification: '' @
                     exc_message (AttributeError (ascii ''hashlib'') (ascii ''compare_digest''))]),
      sdrop 32 rng))"
proof -
  have it: "1 \<le> DEFAULT_ITERATIONS" "nat DEFAULT_ITERATIONS = 600000"
    by (simp_all add: DEFAULT_ITERATIONS_def)
  show ?thesis
    using assms(1)
    by (simp add: main_def generate_pair [OF assms(2) it(1)] verify_generated_hashlib [OF assms(2) it(1)]
        verify_generated_hashlib [OF assms(3) it(1)] it(2) Let_def)
qed

lemma fmt_default_iterations: "fmt_thousands DEFAULT_ITERATIONS = ascii ''600,000''"
  by (simp add: DEFAULT_ITERATIONS_def fmt_thousands_def dec_str.simps comma_groups.simps)

lemma wrong_password_bytes: "\<exists>wpw. password_bytes (PyStr WRONG_PASSWORD) = Inr (PyBytes wpw)"
  by (simp add: password_bytes_cases [symmetric] password_ok_def WRONG_PASSWORD_def is_surrogate_def)

text \<open>A typed line without lone surrogates selects a password that encodes.\<close>

lemma ok_line_password:
  assumes "\<not> list_ex is_surrogate line" and "choose_password line = (p, notice)"
  shows "\<exists>pw. password_bytes (PyStr p) = Inr (PyBytes pw)"
proof -
  have "\<not> list_ex is_surrogate p"
    using assms default_password_ok by (auto simp: choose_password_def split: if_splits)
  then show ?thesis by (simp add: password_bytes_cases [symmetric] password_ok_def)
qed

subsection \<open>Properties\<close>

text \<open>
  C17. A run that reads a line without lone surrogates completes: no exception escapes
  \<open>main\<close>, it draws 32 bytes of entropy for the salt, prints the iteration count as
  \<open>600,000\<close>, reports the hash it has just generated as invalid (C1 at work: the
  verification fails on line 88) and ends with the completion line.
\<close>

theorem main_completes:
  assumes "\<not> list_ex is_surrogate line"
  shows "fst (main (Some line) rng) = Inr () \<and> snd (snd (main (Some line) rng)) = sdrop 32 rng \<and>
    Print (ascii ''Iterations: 600,000'') \<in> set (fst (snd (main (Some line) rng))) \<and>
    Print (ascii ''Verification result: '' @ BALLOT_X # ascii '' Invalid'')
      \<in> set (fst (snd (main (Some line) rng))) \<and>
    last (fst (snd (main (Some line) rng))) = Print (10 # ascii ''Hash generation complete!'')"
proof -
  obtain p notice where pn: "choose_password line = (p, notice)" by fastforce
  obtain pw where pw: "password_bytes (PyStr p) = Inr (PyBytes pw)"
    using ok_line_password [OF assms pn] by blast
  obtain wpw where wpw: "password_bytes (PyStr WRONG_PASSWORD) = Inr (PyBytes wpw)"
    using wrong_password_bytes by blast
  show ?thesis
    using main_success [OF pn pw wpw, of rng] by (simp add: main_report_def Let_def fmt_default_iterations)
qed

theorem main_completes_witness:
  "\<not> list_ex is_surrogate (ascii ''a'') \<and>
   fst (main (Some (ascii ''a'')) (sconst 0)) = Inr () \<and>
   snd (snd (main (Some (ascii ''a'')) (sconst 0))) = sdrop 32 (sconst 0) \<and>
   Print (ascii ''Iterations: 600,000'') \<in> set (fst (snd (main (Some (ascii ''a'')) (sconst 0)))) \<and>
   Print (ascii ''Verification result: '' @ BALLOT_X # ascii '' Invalid'')
     \<in> set (fst (snd (main (Some (ascii ''a'')) (sconst 0)))) \<and>
   last (fst (snd (main (Some (ascii ''a'')) (sconst 0)))) = Print (10 # ascii ''Hash generation complete!'')"
proof -
  have h: "\<not> list_ex is_surrogate (ascii ''a'')" by (simp add: is_surrogate_def)
  show ?thesis using h main_completes [OF h, of "sconst 0"] by blast
qed

text \<open>
  C18. The uncaught exceptions of \<open>main\<close>: a line holding a lone surrogate makes line
  109 raise the \<open>UnicodeEncodeError\<close> of \<open>password.encode('utf-8')\<close>, after the banner,
  the prompt and the "Generating" line and before any entropy is drawn; at the end of the
  input, \<open>input()\<close> raises \<open>EOFError\<close> right after the prompt.
\<close>

theorem main_uncaught:
  assumes "str_encode_utf8 line = Inl e"
  shows "main (Some line) rng =
           (Inl e, main_banner @ [Print (10 # ascii ''Generating hash with 600,000 iterations...'')], rng) \<and>
         main None rng = (Inl EOFError, main_banner, rng)"
proof -
  from assms have "line \<noteq> []" by (auto simp: str_encode_utf8_def)
  with assms show ?thesis
    by (simp add: main_def choose_password_def generate_pbkdf2_hash_def password_bytes_def)
qed

theorem main_uncaught_witness:
  "str_encode_utf8 [0xD800] = Inl (UnicodeEncodeError 0xD800 0) \<and>
   main (Some [0xD800]) (sconst 0) =
     (Inl (UnicodeEncodeError 0xD800 0),
      main_banner @ [Print (10 # ascii ''Generating hash with 600,000 iterations...'')], sconst 0) \<and>
   main None (sconst 0) = (Inl EOFError, main_banner, sconst 0)"
proof -
  have h: "str_encode_utf8 [0xD800] = Inl (UnicodeEncodeError 0xD800 0)"
    by (simp add: str_encode_utf8_def is_surrogate_def)
  show ?thesis using h main_uncaught [OF h, of "sconst 0"] by blast
qed

text \<open>
  C19. What the demo shows of its two checks, for every typed line without lone
  surrogates: after "Verifying hash..." it prints the \<open>AttributeError\<close> line of the first
  verification, "Verification result: \<open>BALLOT_X\<close> Invalid", the same error line for the
  wrong-password test, "Wrong password test: \<open>BALLOT_X\<close> Should be invalid" and the completion
  line. The fresh hash is reported invalid, and the expected rejection of the wrong
  password is marked with the ballot X U+2717.
\<close>

theorem main_verification_output:
  assumes "\<not> list_ex is_surrogate line"
  shows "suffix
    [Print (10 # ascii ''Verifying hash...''),
     Print (ascii ''Error during verification: module '' @ [39] @ ascii ''hashlib'' @ [39] @
            ascii '' has no attribute '' @ [39] @ ascii ''compare_digest'' @ [39]),
     Print (ascii ''Verification result: '' @ BALLOT_X # ascii '' Invalid''),
     Print (ascii ''Error during verification: module '' @ [39] @ ascii ''hashlib'' @ [39] @
            ascii '' has no attribute '' @ [39] @ ascii ''compare_digest'' @ [39]),
     Print (ascii ''Wrong password test: '' @ BALLOT_X # ascii '' Should be invalid''),
     Print (10 # ascii ''Hash generation complete!'')]
    (fst (snd (main (Some line) rng)))"
proof -
  obtain p notice where pn: "choose_password line = (p, notice)" by fastforce
  obtain pw where pw: "password_bytes (PyStr p) = Inr (PyBytes pw)"
    using ok_line_password [OF assms pn] by blast
  obtain wpw where wpw: "password_bytes (PyStr WRONG_PASSWORD) = Inr (PyBytes wpw)"
    using wrong_password_bytes by blast
  show ?thesis
    using main_success [OF pn pw wpw, of rng]
    by (simp add: main_report_def Let_def exc_message_attribute suffix_def)
qed

theorem main_verification_output_witness:
  "\<not> list_ex is_surrogate (ascii ''a'') \<and> suffix
    [Print (10 # ascii ''Verifying hash...''),
     Print (ascii ''Error during verification: module '' @ [39] @ ascii ''hashlib'' @ [39] @
            ascii '' has no attribute '' @ [39] @ ascii ''compare_digest'' @ [39]),
     Print (ascii ''Verification result: '' @ BALLOT_X # ascii '' Invalid''),
     Print (ascii ''Error during verification: module '' @ [39] @ ascii ''hashlib'' @ [39] @
            ascii '' has no attribute '' @ [39] @ ascii ''compare_digest'' @ [39]),
     Print (ascii ''Wrong password test: '' @ BALLOT_X # ascii '' Should be invalid''),
     Print (10 # ascii ''Hash generation complete!'')]
    (fst (snd (main (Some (ascii ''a'')) (sconst 0))))"
proof -
  have h: "\<not> list_ex is_surrogate (ascii ''a'')" by (simp add: is_surrogate_def)
  show ?thesis using h main_verification_output [OF h, of "sconst 0"] by blast
qed

text \<open>
  C20. An empty line runs the demo on the example password: the same result, the same
  entropy and the same output, with the notice of line 103 inserted after the prompt.
\<close>

theorem main_empty_line:
  "main (Some []) rng =
   (fst (main (Some DEFAULT_PASSWORD) rng),
    main_banner @
    [Print (ascii ''No password provided. Using example password '' @ [39] @ DEFAULT_PASSWORD @ [39])] @
    drop 3 (fst (snd (main (Some DEFAULT_PASSWORD) rng))),
    snd (snd (main (Some DEFAULT_PASSWORD) rng)))"
proof (cases "generate_pbkdf2_hash (PyStr DEFAULT_PASSWORD) None DEFAULT_ITERATIONS rng")
  case (Pair res rng')
  have "DEFAULT_PASSWORD \<noteq> []" by (simp add: DEFAULT_PASSWORD_def)
  with Pair show ?thesis
    by (cases res) (simp_all add: main_def choose_password_def main_banner_def Let_def)
qed

end
