(* ===== verification/Script.thy ===== *)
theory Script
  imports Demo
begin

text \<open>
  The module's top level, run by \<open>python3 generate_password_hash.py\<close> or by an
  \<open>import\<close>: the imports of lines 6 to 10, the three \<open>def\<close> statements, and the guard of
  lines 129 and 130 that calls \<open>main()\<close> only when the module runs as a script. The
  standard-library modules \<open>hashlib\<close>, \<open>os\<close> and \<open>base64\<close> are always present; the
  third-party package \<open>cryptography\<close> may be missing, and then line 9 raises
  \<open>ModuleNotFoundError\<close> before anything is printed. The environment is the module's
  \<open>__name__\<close> and whether \<open>cryptography\<close> is installed.
\<close>

text \<open>Lines 6 to 10: only the import of the \<open>cryptography\<close> package can fail.\<close>

definition import_modules :: "bool \<Rightarrow> pyexc + unit" where
  "import_modules cryptography_installed =
     (if cryptography_installed then Inr () else Inl (ModuleNotFoundError (ascii ''cryptography'')))"

text \<open>Lines 129 and 130, after the imports and the three \<open>def\<close>s.\<close>

definition run_module ::
    "pystr \<Rightarrow> bool \<Rightarrow> pystr option \<Rightarrow> entropy \<Rightarrow> (pyexc + unit) \<times> io_event list \<times> entropy" where
  "run_module name cryptography_installed inp rng =
     (case import_modules cryptography_installed of
        Inl e \<Rightarrow> (Inl e, [], rng)
      | Inr _ \<Rightarrow> if name = ascii ''__main__'' then main inp rng else (Inr (), [], rng))"

end
