(* ===== verification/TestVectors.thy ===== *)
theory TestVectors
  imports HashEngine
begin

text \<open>
  Test vectors, kept apart from the definitions because their evaluation is slow. Each
  SHA-256 compression of a concrete block is evaluated by \<open>code_simp\<close> on the code
  equations of the 32-bit word operations (about two minutes each); everything around
  it (padding, block cutting, the HMAC key block, the digest bytes, base64) is rewritten
  in stages, so that no evaluation has to see more than one block.
  \<^item> SHA-256 of "abc", the one-block example of FIPS 180-4;
  \<^item> PBKDF2-HMAC-SHA256 with password "password", salt "salt", one iteration and a
    32-byte key, the vector published for this function and computed by
    \<open>hashlib.pbkdf2_hmac\<close>; it runs through the whole of \<open>generate_pbkdf2_hash\<close>: the
    UTF-8 encoding, HMAC, PBKDF2, the \<open>b2a_base64\<close> loop and the record; then back
    through verification, as written (the \<open>AttributeError\<close> of line 88) and repaired, with
    the stored texts and with a non-canonical hash text that \<open>a2b_base64\<close> decodes to the
    same key.
\<close>

subsection \<open>Staging\<close>

lemma sha256_two_blocks:
  assumes "sha256_pad m = b1 @ b2" and "length b1 = 64" and "length b2 = 64"
  shows "sha256 m = concat (map word32_bytes (compress (compress H0_256 b1) b2))"
proof -
  from assms(3) have "b2 \<noteq> []" by auto
  with assms(2,3) have "chunks 64 (b1 @ b2) = [b1, b2]"
    by (simp add: chunks_append_block chunks_short)
  then show ?thesis by (simp add: sha256_def assms(1))
qed

lemma pbkdf2_ref_one_block: "pbkdf2_ref P S 1 32 = hmac_sha256 P (S @ int_be32 1)"
  by (simp add: pbkdf2_ref_def pbkdf2_F_def xor_bytes_zeros)

subsection \<open>SHA-256 of "abc"\<close>

lemma sha256_abc_pad:
  "sha256_pad [0x61, 0x62, 0x63] = [0x61, 0x62, 0x63, 0x80] @ replicate 52 0 @ [0, 0, 0, 0, 0, 0, 0, 24]"
  by (simp add: sha256_pad_def u64_be_def upt_rec)

lemma sha256_abc_compress:
  "compress H0_256 ([0x61, 0x62, 0x63, 0x80] @ replicate 52 0 @ [0, 0, 0, 0, 0, 0, 0, 24]) =
     [0xBA7816BF, 0x8F01CFEA, 0x414140DE, 0x5DAE2223, 0xB00361A3, 0x96177A9C, 0xB410FF61, 0xF20015AD]"
  by code_simp

subsection \<open>PBKDF2-HMAC-SHA256("password", "salt", 1, 32)\<close>

lemma hmac_vector_inner_msg:
  "xor_bytes (hmac_key0 [0x70, 0x61, 0x73, 0x73, 0x77, 0x6F, 0x72, 0x64]) (replicate 64 0x36) @ [0x73, 0x61, 0x6C, 0x74] @ int_be32 1 =
     [0x46, 0x57, 0x45, 0x45, 0x41, 0x59, 0x44, 0x52, 0x36, 0x36, 0x36, 0x36, 0x36, 0x36, 0x36, 0x36,
      0x36, 0x36, 0x36, 0x36, 0x36, 0x36, 0x36, 0x36, 0x36, 0x36, 0x36, 0x36, 0x36, 0x36, 0x36, 0x36,
      0x36, 0x36, 0x36, 0x36, 0x36, 0x36, 0x36, 0x36, 0x36, 0x36, 0x36, 0x36, 0x36, 0x36, 0x36, 0x36,
      0x36, 0x36, 0x36, 0x36, 0x36, 0x36, 0x36, 0x36, 0x36, 0x36, 0x36, 0x36, 0x36, 0x36, 0x36, 0x36,
      0x73, 0x61, 0x6C, 0x74, 0x00, 0x00, 0x00, 0x01]"
proof -
  have "int_be32 1 = [0, 0, 0, 1]" by (simp add: int_be32_def)
  moreover have "xor_bytes (hmac_key0 [0x70, 0x61, 0x73, 0x73, 0x77, 0x6F, 0x72, 0x64]) (replicate 64 0x36) =
     [0x46, 0x57, 0x45, 0x45, 0x41, 0x59, 0x44, 0x52, 0x36, 0x36, 0x36, 0x36, 0x36, 0x36, 0x36, 0x36,
      0x36, 0x36, 0x36, 0x36, 0x36, 0x36, 0x36, 0x36, 0x36, 0x36, 0x36, 0x36, 0x36, 0x36, 0x36, 0x36,
      0x36, 0x36, 0x36, 0x36, 0x36, 0x36, 0x36, 0x36, 0x36, 0x36, 0x36, 0x36, 0x36, 0x36, 0x36, 0x36,
      0x36, 0x36, 0x36, 0x36, 0x36, 0x36, 0x36, 0x36, 0x36, 0x36, 0x36, 0x36, 0x36, 0x36, 0x36, 0x36]"
    by code_simp
  ultimately show ?thesis by simp
qed

lemma hmac_vector_inner_pad:
  "sha256_pad
     [0x46, 0x57, 0x45, 0x45, 0x41, 0x59, 0x44, 0x52, 0x36, 0x36, 0x36, 0x36, 0x36, 0x36, 0x36, 0x36,
      0x36, 0x36, 0x36, 0x36, 0x36, 0x36, 0x36, 0x36, 0x36, 0x36, 0x36, 0x36, 0x36, 0x36, 0x36, 0x36,
      0x36, 0x36, 0x36, 0x36, 0x36, 0x36, 0x36, 0x36, 0x36, 0x36, 0x36, 0x36, 0x36, 0x36, 0x36, 0x36,
      0x36, 0x36, 0x36, 0x36, 0x36, 0x36, 0x36, 0x36, 0x36, 0x36, 0x36, 0x36, 0x36, 0x36, 0x36, 0x36,
      0x73, 0x61, 0x6C, 0x74, 0x00, 0x00, 0x00, 0x01] =
     [0x46, 0x57, 0x45, 0x45, 0x41, 0x59, 0x44, 0x52, 0x36, 0x36, 0x36, 0x36, 0x36, 0x36, 0x36, 0x36,
      0x36, 0x36, 0x36, 0x36, 0x36, 0x36, 0x36, 0x36, 0x36, 0x36, 0x36, 0x36, 0x36, 0x36, 0x36, 0x36,
      0x36, 0x36, 0x36, 0x36, 0x36, 0x36, 0x36, 0x36, 0x36, 0x36, 0x36, 0x36, 0x36, 0x36, 0x36, 0x36,
      0x36, 0x36, 0x36, 0x36, 0x36, 0x36, 0x36, 0x36, 0x36, 0x36, 0x36, 0x36, 0x36, 0x36, 0x36, 0x36] @
     [0x73, 0x61, 0x6C, 0x74, 0x00, 0x00, 0x00, 0x01, 0x80, 0x00, 0x00, 0x00, 0x00, 0x00, 0x00, 0x00,
      0x00, 0x00, 0x00, 0x00, 0x00, 0x00, 0x00, 0x00, 0x00, 0x00, 0x00, 0x00, 0x00, 0x00, 0x00, 0x00,
      0x00, 0x00, 0x00, 0x00, 0x00, 0x00, 0x00, 0x00, 0x00, 0x00, 0x00, 0x00, 0x00, 0x00, 0x00, 0x00,
      0x00, 0x00, 0x00, 0x00, 0x00, 0x00, 0x00, 0x00, 0x00, 0x00, 0x00, 0x00, 0x00, 0x00, 0x02, 0x40]"
  by (simp add: sha256_pad_def u64_be_def upt_rec eval_simps)

lemma hmac_vector_inner1:
  "compress H0_256
     [0x46, 0x57, 0x45, 0x45, 0x41, 0x59, 0x44, 0x52, 0x36, 0x36, 0x36, 0x36, 0x36, 0x36, 0x36, 0x36,
      0x36, 0x36, 0x36, 0x36, 0x36, 0x36, 0x36, 0x36, 0x36, 0x36, 0x36, 0x36, 0x36, 0x36, 0x36, 0x36,
      0x36, 0x36, 0x36, 0x36, 0x36, 0x36, 0x36, 0x36, 0x36, 0x36, 0x36, 0x36, 0x36, 0x36, 0x36, 0x36,
      0x36, 0x36, 0x36, 0x36, 0x36, 0x36, 0x36, 0x36, 0x36, 0x36, 0x36, 0x36, 0x36, 0x36, 0x36, 0x36] =
   [0x2223A11B, 0x7C5E8344, 0x28CFD34C, 0x672804E4, 0x6726A8CB, 0x5360806B, 0xA1C77DB8, 0xFCD1ABE0]"
  by code_simp

lemma hmac_vector_inner2:
  "compress [0x2223A11B, 0x7C5E8344, 0x28CFD34C, 0x672804E4, 0x6726A8CB, 0x5360806B, 0xA1C77DB8, 0xFCD1ABE0]
     [0x73, 0x61, 0x6C, 0x74, 0x00, 0x00, 0x00, 0x01, 0x80, 0x00, 0x00, 0x00, 0x00, 0x00, 0x00, 0x00,
      0x00, 0x00, 0x00, 0x00, 0x00, 0x00, 0x00, 0x00, 0x00, 0x00, 0x00, 0x00, 0x00, 0x00, 0x00, 0x00,
      0x00, 0x00, 0x00, 0x00, 0x00, 0x00, 0x00, 0x00, 0x00, 0x00, 0x00, 0x00, 0x00, 0x00, 0x00, 0x00,
      0x00, 0x00, 0x00, 0x00, 0x00, 0x00, 0x00, 0x00, 0x00, 0x00, 0x00, 0x00, 0x00, 0x00, 0x02, 0x40] =
   [0x33D6B376, 0xF23B38D9, 0x1391E4FF, 0x8C676DAB, 0xD2A630D1, 0xAC9F63E7, 0xB09F35A2, 0x96F4466E]"
  by code_simp

lemma hmac_vector_outer_msg:
  "xor_bytes (hmac_key0 [0x70, 0x61, 0x73, 0x73, 0x77, 0x6F, 0x72, 0x64]) (replicate 64 0x5C) @
     [0x33, 0xD6, 0xB3, 0x76, 0xF2, 0x3B, 0x38, 0xD9, 0x13, 0x91, 0xE4, 0xFF, 0x8C, 0x67, 0x6D, 0xAB,
      0xD2, 0xA6, 0x30, 0xD1, 0xAC, 0x9F, 0x63, 0xE7, 0xB0, 0x9F, 0x35, 0xA2, 0x96, 0xF4, 0x46, 0x6E] =
     [0x2C, 0x3D, 0x2F, 0x2F, 0x2B, 0x33, 0x2E, 0x38, 0x5C, 0x5C, 0x5C, 0x5C, 0x5C, 0x5C, 0x5C, 0x5C,
      0x5C, 0x5C, 0x5C, 0x5C, 0x5C, 0x5C, 0x5C, 0x5C, 0x5C, 0x5C, 0x5C, 0x5C, 0x5C, 0x5C, 0x5C, 0x5C,
      0x5C, 0x5C, 0x5C, 0x5C, 0x5C, 0x5C, 0x5C, 0x5C, 0x5C, 0x5C, 0x5C, 0x5C, 0x5C, 0x5C, 0x5C, 0x5C,
      0x5C, 0x5C, 0x5C, 0x5C, 0x5C, 0x5C, 0x5C, 0x5C, 0x5C, 0x5C, 0x5C, 0x5C, 0x5C, 0x5C, 0x5C, 0x5C,
      0x33, 0xD6, 0xB3, 0x76, 0xF2, 0x3B, 0x38, 0xD9, 0x13, 0x91, 0xE4, 0xFF, 0x8C, 0x67, 0x6D, 0xAB,
      0xD2, 0xA6, 0x30, 0xD1, 0xAC, 0x9F, 0x63, 0xE7, 0xB0, 0x9F, 0x35, 0xA2, 0x96, 0xF4, 0x46, 0x6E]"
  by code_simp

lemma hmac_vector_outer_pad:
  "sha256_pad
     [0x2C, 0x3D, 0x2F, 0x2F, 0x2B, 0x33, 0x2E, 0x38, 0x5C, 0x5C, 0x5C, 0x5C, 0x5C, 0x5C, 0x5C, 0x5C,
      0x5C, 0x5C, 0x5C, 0x5C, 0x5C, 0x5C, 0x5C, 0x5C, 0x5C, 0x5C, 0x5C, 0x5C, 0x5C, 0x5C, 0x5C, 0x5C,
      0x5C, 0x5C, 0x5C, 0x5C, 0x5C, 0x5C, 0x5C, 0x5C, 0x5C, 0x5C, 0x5C, 0x5C, 0x5C, 0x5C, 0x5C, 0x5C,
      0x5C, 0x5C, 0x5C, 0x5C, 0x5C, 0x5C, 0x5C, 0x5C, 0x5C, 0x5C, 0x5C, 0x5C, 0x5C, 0x5C, 0x5C, 0x5C,
      0x33, 0xD6, 0xB3, 0x76, 0xF2, 0x3B, 0x38, 0xD9, 0x13, 0x91, 0xE4, 0xFF, 0x8C, 0x67, 0x6D, 0xAB,
      0xD2, 0xA6, 0x30, 0xD1, 0xAC, 0x9F, 0x63, 0xE7, 0xB0, 0x9F, 0x35, 0xA2, 0x96, 0xF4, 0x46, 0x6E] =
     [0x2C, 0x3D, 0x2F, 0x2F, 0x2B, 0x33, 0x2E, 0x38, 0x5C, 0x5C, 0x5C, 0x5C, 0x5C, 0x5C, 0x5C, 0x5C,
      0x5C, 0x5C, 0x5C, 0x5C, 0x5C, 0x5C, 0x5C, 0x5C, 0x5C, 0x5C, 0x5C, 0x5C, 0x5C, 0x5C, 0x5C, 0x5C,
      0x5C, 0x5C, 0x5C, 0x5C, 0x5C, 0x5C, 0x5C, 0x5C, 0x5C, 0x5C, 0x5C, 0x5C, 0x5C, 0x5C, 0x5C, 0x5C,
      0x5C, 0x5C, 0x5C, 0x5C, 0x5C, 0x5C, 0x5C, 0x5C, 0x5C, 0x5C, 0x5C, 0x5C, 0x5C, 0x5C, 0x5C, 0x5C] @
     [0x33, 0xD6, 0xB3, 0x76, 0xF2, 0x3B, 0x38, 0xD9, 0x13, 0x91, 0xE4, 0xFF, 0x8C, 0x67, 0x6D, 0xAB,
      0xD2, 0xA6, 0x30, 0xD1, 0xAC, 0x9F, 0x63, 0xE7, 0xB0, 0x9F, 0x35, 0xA2, 0x96, 0xF4, 0x46, 0x6E,
      0x80, 0x00, 0x00, 0x00, 0x00, 0x00, 0x00, 0x00, 0x00, 0x00, 0x00, 0x00, 0x00, 0x00, 0x00, 0x00,
      0x00, 0x00, 0x00, 0x00, 0x00, 0x00, 0x00, 0x00, 0x00, 0x00, 0x00, 0x00, 0x00, 0x00, 0x03, 0x00]"
  by (simp add: sha256_pad_def u64_be_def upt_rec eval_simps)

lemma hmac_vector_outer1:
  "compress H0_256
     [0x2C, 0x3D, 0x2F, 0x2F, 0x2B, 0x33, 0x2E, 0x38, 0x5C, 0x5C, 0x5C, 0x5C, 0x5C, 0x5C, 0x5C, 0x5C,
      0x5C, 0x5C, 0x5C, 0x5C, 0x5C, 0x5C, 0x5C, 0x5C, 0x5C, 0x5C, 0x5C, 0x5C, 0x5C, 0x5C, 0x5C, 0x5C,
      0x5C, 0x5C, 0x5C, 0x5C, 0x5C, 0x5C, 0x5C, 0x5C, 0x5C, 0x5C, 0x5C, 0x5C, 0x5C, 0x5C, 0x5C, 0x5C,
      0x5C, 0x5C, 0x5C, 0x5C, 0x5C, 0x5C, 0x5C, 0x5C, 0x5C, 0x5C, 0x5C, 0x5C, 0x5C, 0x5C, 0x5C, 0x5C] =
   [0x8EFD7F67, 0x49D07BDB, 0x2C469482, 0x4530EB49, 0xB9FF4865, 0x5EAF2571, 0x40D71BEC, 0x9EC8F66A]"
  by code_simp

lemma hmac_vector_outer2:
  "compress [0x8EFD7F67, 0x49D07BDB, 0x2C469482, 0x4530EB49, 0xB9FF4865, 0x5EAF2571, 0x40D71BEC, 0x9EC8F66A]
     [0x33, 0xD6, 0xB3, 0x76, 0xF2, 0x3B, 0x38, 0xD9, 0x13, 0x91, 0xE4, 0xFF, 0x8C, 0x67, 0x6D, 0xAB,
      0xD2, 0xA6, 0x30, 0xD1, 0xAC, 0x9F, 0x63, 0xE7, 0xB0, 0x9F, 0x35, 0xA2, 0x96, 0xF4, 0x46, 0x6E,
      0x80, 0x00, 0x00, 0x00, 0x00, 0x00, 0x00, 0x00, 0x00, 0x00, 0x00, 0x00, 0x00, 0x00, 0x00, 0x00,
      0x00, 0x00, 0x00, 0x00, 0x00, 0x00, 0x00, 0x00, 0x00, 0x00, 0x00, 0x00, 0x00, 0x00, 0x03, 0x00] =
   [0x120FB6CF, 0xFCF8B32C, 0x43E72252, 0x56C4F837, 0xA86548C9, 0x2CCC3548, 0x0805987C, 0xB70BE17B]"
  by code_simp

lemma hmac_vector_inner_digest:
  "sha256
     [0x46, 0x57, 0x45, 0x45, 0x41, 0x59, 0x44, 0x52, 0x36, 0x36, 0x36, 0x36, 0x36, 0x36, 0x36, 0x36,
      0x36, 0x36, 0x36, 0x36, 0x36, 0x36, 0x36, 0x36, 0x36, 0x36, 0x36, 0x36, 0x36, 0x36, 0x36, 0x36,
      0x36, 0x36, 0x36, 0x36, 0x36, 0x36, 0x36, 0x36, 0x36, 0x36, 0x36, 0x36, 0x36, 0x36, 0x36, 0x36,
      0x36, 0x36, 0x36, 0x36, 0x36, 0x36, 0x36, 0x36, 0x36, 0x36, 0x36, 0x36, 0x36, 0x36, 0x36, 0x36,
      0x73, 0x61, 0x6C, 0x74, 0x00, 0x00, 0x00, 0x01] =
     [0x33, 0xD6, 0xB3, 0x76, 0xF2, 0x3B, 0x38, 0xD9, 0x13, 0x91, 0xE4, 0xFF, 0x8C, 0x67, 0x6D, 0xAB,
      0xD2, 0xA6, 0x30, 0xD1, 0xAC, 0x9F, 0x63, 0xE7, 0xB0, 0x9F, 0x35, 0xA2, 0x96, 0xF4, 0x46, 0x6E]"
proof -
  have "sha256
     [0x46, 0x57, 0x45, 0x45, 0x41, 0x59, 0x44, 0x52, 0x36, 0x36, 0x36, 0x36, 0x36, 0x36, 0x36, 0x36,
      0x36, 0x36, 0x36, 0x36, 0x36, 0x36, 0x36, 0x36, 0x36, 0x36, 0x36, 0x36, 0x36, 0x36, 0x36, 0x36,
      0x36, 0x36, 0x36, 0x36, 0x36, 0x36, 0x36, 0x36, 0x36, 0x36, 0x36, 0x36, 0x36, 0x36, 0x36, 0x36,
      0x36, 0x36, 0x36, 0x36, 0x36, 0x36, 0x36, 0x36, 0x36, 0x36, 0x36, 0x36, 0x36, 0x36, 0x36, 0x36,
      0x73, 0x61, 0x6C, 0x74, 0x00, 0x00, 0x00, 0x01] =
     concat (map word32_bytes (compress (compress H0_256
     [0x46, 0x57, 0x45, 0x45, 0x41, 0x59, 0x44, 0x52, 0x36, 0x36, 0x36, 0x36, 0x36, 0x36, 0x36, 0x36,
      0x36, 0x36, 0x36, 0x36, 0x36, 0x36, 0x36, 0x36, 0x36, 0x36, 0x36, 0x36, 0x36, 0x36, 0x36, 0x36,
      0x36, 0x36, 0x36, 0x36, 0x36, 0x36, 0x36, 0x36, 0x36, 0x36, 0x36, 0x36, 0x36, 0x36, 0x36, 0x36,
      0x36, 0x36, 0x36, 0x36, 0x36, 0x36, 0x36, 0x36, 0x36, 0x36, 0x36, 0x36, 0x36, 0x36, 0x36, 0x36])
     [0x73, 0x61, 0x6C, 0x74, 0x00, 0x00, 0x00, 0x01, 0x80, 0x00, 0x00, 0x00, 0x00, 0x00, 0x00, 0x00,
      0x00, 0x00, 0x00, 0x00, 0x00, 0x00, 0x00, 0x00, 0x00, 0x00, 0x00, 0x00, 0x00, 0x00, 0x00, 0x00,
      0x00, 0x00, 0x00, 0x00, 0x00, 0x00, 0x00, 0x00, 0x00, 0x00, 0x00, 0x00, 0x00, 0x00, 0x00, 0x00,
      0x00, 0x00, 0x00, 0x00, 0x00, 0x00, 0x00, 0x00, 0x00, 0x00, 0x00, 0x00, 0x00, 0x00, 0x02, 0x40]))"
    by (rule sha256_two_blocks [OF hmac_vector_inner_pad]) simp_all
  then show ?thesis
    by (simp only: hmac_vector_inner1 hmac_vector_inner2) (simp add: word32_bytes_def)
qed

lemma hmac_vector_outer_digest:
  "sha256
     [0x2C, 0x3D, 0x2F, 0x2F, 0x2B, 0x33, 0x2E, 0x38, 0x5C, 0x5C, 0x5C, 0x5C, 0x5C, 0x5C, 0x5C, 0x5C,
      0x5C, 0x5C, 0x5C, 0x5C, 0x5C, 0x5C, 0x5C, 0x5C, 0x5C, 0x5C, 0x5C, 0x5C, 0x5C, 0x5C, 0x5C, 0x5C,
      0x5C, 0x5C, 0x5C, 0x5C, 0x5C, 0x5C, 0x5C, 0x5C, 0x5C, 0x5C, 0x5C, 0x5C, 0x5C, 0x5C, 0x5C, 0x5C,
      0x5C, 0x5C, 0x5C, 0x5C, 0x5C, 0x5C, 0x5C, 0x5C, 0x5C, 0x5C, 0x5C, 0x5C, 0x5C, 0x5C, 0x5C, 0x5C,
      0x33, 0xD6, 0xB3, 0x76, 0xF2, 0x3B, 0x38, 0xD9, 0x13, 0x91, 0xE4, 0xFF, 0x8C, 0x67, 0x6D, 0xAB,
      0xD2, 0xA6, 0x30, 0xD1, 0xAC, 0x9F, 0x63, 0xE7, 0xB0, 0x9F, 0x35, 0xA2, 0x96, 0xF4, 0x46, 0x6E] =
     [0x12, 0x0F, 0xB6, 0xCF, 0xFC, 0xF8, 0xB3, 0x2C, 0x43, 0xE7, 0x22, 0x52, 0x56, 0xC4, 0xF8, 0x37,
      0xA8, 0x65, 0x48, 0xC9, 0x2C, 0xCC, 0x35, 0x48, 0x08, 0x05, 0x98, 0x7C, 0xB7, 0x0B, 0xE1, 0x7B]"
proof -
  have "sha256
     [0x2C, 0x3D, 0x2F, 0x2F, 0x2B, 0x33, 0x2E, 0x38, 0x5C, 0x5C, 0x5C, 0x5C, 0x5C, 0x5C, 0x5C, 0x5C,
      0x5C, 0x5C, 0x5C, 0x5C, 0x5C, 0x5C, 0x5C, 0x5C, 0x5C, 0x5C, 0x5C, 0x5C, 0x5C, 0x5C, 0x5C, 0x5C,
      0x5C, 0x5C, 0x5C, 0x5C, 0x5C, 0x5C, 0x5C, 0x5C, 0x5C, 0x5C, 0x5C, 0x5C, 0x5C, 0x5C, 0x5C, 0x5C,
      0x5C, 0x5C, 0x5C, 0x5C, 0x5C, 0x5C, 0x5C, 0x5C, 0x5C, 0x5C, 0x5C, 0x5C, 0x5C, 0x5C, 0x5C, 0x5C,
      0x33, 0xD6, 0xB3, 0x76, 0xF2, 0x3B, 0x38, 0xD9, 0x13, 0x91, 0xE4, 0xFF, 0x8C, 0x67, 0x6D, 0xAB,
      0xD2, 0xA6, 0x30, 0xD1, 0xAC, 0x9F, 0x63, 0xE7, 0xB0, 0x9F, 0x35, 0xA2, 0x96, 0xF4, 0x46, 0x6E] =
     concat (map word32_bytes (compress (compress H0_256
     [0x2C, 0x3D, 0x2F, 0x2F, 0x2B, 0x33, 0x2E, 0x38, 0x5C, 0x5C, 0x5C, 0x5C, 0x5C, 0x5C, 0x5C, 0x5C,
      0x5C, 0x5C, 0x5C, 0x5C, 0x5C, 0x5C, 0x5C, 0x5C, 0x5C, 0x5C, 0x5C, 0x5C, 0x5C, 0x5C, 0x5C, 0x5C,
      0x5C, 0x5C, 0x5C, 0x5C, 0x5C, 0x5C, 0x5C, 0x5C, 0x5C, 0x5C, 0x5C, 0x5C, 0x5C, 0x5C, 0x5C, 0x5C,
      0x5C, 0x5C, 0x5C, 0x5C, 0x5C, 0x5C, 0x5C, 0x5C, 0x5C, 0x5C, 0x5C, 0x5C, 0x5C, 0x5C, 0x5C, 0x5C])
     [0x33, 0xD6, 0xB3, 0x76, 0xF2, 0x3B, 0x38, 0xD9, 0x13, 0x91, 0xE4, 0xFF, 0x8C, 0x67, 0x6D, 0xAB,
      0xD2, 0xA6, 0x30, 0xD1, 0xAC, 0x9F, 0x63, 0xE7, 0xB0, 0x9F, 0x35, 0xA2, 0x96, 0xF4, 0x46, 0x6E,
      0x80, 0x00, 0x00, 0x00, 0x00, 0x00, 0x00, 0x00, 0x00, 0x00, 0x00, 0x00, 0x00, 0x00, 0x00, 0x00,
      0x00, 0x00, 0x00, 0x00, 0x00, 0x00, 0x00, 0x00, 0x00, 0x00, 0x00, 0x00, 0x00, 0x00, 0x03, 0x00]))"
    by (rule sha256_two_blocks [OF hmac_vector_outer_pad]) simp_all
  then show ?thesis
    by (simp only: hmac_vector_outer1 hmac_vector_outer2) (simp add: word32_bytes_def)
qed

lemma hmac_vector:
  "hmac_sha256 [0x70, 0x61, 0x73, 0x73, 0x77, 0x6F, 0x72, 0x64] ([0x73, 0x61, 0x6C, 0x74] @ int_be32 1) =
     [0x12, 0x0F, 0xB6, 0xCF, 0xFC, 0xF8, 0xB3, 0x2C, 0x43, 0xE7, 0x22, 0x52, 0x56, 0xC4, 0xF8, 0x37,
      0xA8, 0x65, 0x48, 0xC9, 0x2C, 0xCC, 0x35, 0x48, 0x08, 0x05, 0x98, 0x7C, 0xB7, 0x0B, 0xE1, 0x7B]"
  by (simp only: hmac_sha256_def Let_def hmac_vector_inner_msg hmac_vector_inner_digest
      hmac_vector_outer_msg hmac_vector_outer_digest)

subsection \<open>Properties\<close>



subsection \<open>The PBKDF2 vector's intermediate values\<close>

text \<open>
  The stages of \<open>generate_pbkdf2_hash("password", salt=b"salt", iterations=1)\<close>: the
  UTF-8 bytes of the password, the derived key, and the base64 texts of the key and the salt.
\<close>

lemma vector_password:
  "password_bytes (PyStr (ascii ''password'')) = Inr (PyBytes [0x70, 0x61, 0x73, 0x73, 0x77, 0x6F, 0x72, 0x64])"
  by (simp add: password_bytes_def str_encode_utf8_def is_surrogate_def utf8_encode_cp_def)

lemma vector_key:
  "pbkdf2_ref [0x70, 0x61, 0x73, 0x73, 0x77, 0x6F, 0x72, 0x64] [0x73, 0x61, 0x6C, 0x74] (nat 1) 32 =
     [0x12, 0x0F, 0xB6, 0xCF, 0xFC, 0xF8, 0xB3, 0x2C, 0x43, 0xE7, 0x22, 0x52, 0x56, 0xC4, 0xF8, 0x37,
      0xA8, 0x65, 0x48, 0xC9, 0x2C, 0xCC, 0x35, 0x48, 0x08, 0x05, 0x98, 0x7C, 0xB7, 0x0B, 0xE1, 0x7B]"
proof -
  have "nat 1 = 1" by simp
  then show ?thesis by (simp only: pbkdf2_ref_one_block hmac_vector)
qed

lemma vector_hash_text:
  "map unat (b64encode
     [0x12, 0x0F, 0xB6, 0xCF, 0xFC, 0xF8, 0xB3, 0x2C, 0x43, 0xE7, 0x22, 0x52, 0x56, 0xC4, 0xF8, 0x37,
      0xA8, 0x65, 0x48, 0xC9, 0x2C, 0xCC, 0x35, 0x48, 0x08, 0x05, 0x98, 0x7C, 0xB7, 0x0B, 0xE1, 0x7B]) =
     ascii ''Eg+2z/z4syxD5yJSVsT4N6hlSMkszDVICAWYfLcL4Xs=''"
  by code_simp

lemma vector_salt_text: "map unat (b64encode [0x73, 0x61, 0x6C, 0x74]) = ascii ''c2FsdA==''"
  by code_simp

text \<open>
  The hash text with its last data character \<open>s\<close> replaced by \<open>t\<close>: the two differ only in
  the two low bits of that character, which \<open>a2b_base64\<close> drops at the pad.
\<close>

lemma vector_hash_alias:
  "b64decode (PyStr (ascii ''Eg+2z/z4syxD5yJSVsT4N6hlSMkszDVICAWYfLcL4Xt='')) =
   Inr [0x12, 0x0F, 0xB6, 0xCF, 0xFC, 0xF8, 0xB3, 0x2C, 0x43, 0xE7, 0x22, 0x52, 0x56, 0xC4, 0xF8, 0x37,
      0xA8, 0x65, 0x48, 0xC9, 0x2C, 0xCC, 0x35, 0x48, 0x08, 0x05, 0x98, 0x7C, 0xB7, 0x0B, 0xE1, 0x7B]"
  by code_simp




end
