(* ===== verification/Terminal.thy ===== *)
theory Terminal
  imports Demo
begin

text \<open>
  The demo on a real terminal. \<open>main\<close> (theory Demo) lists what the program asks to
  write; here every \<open>print\<close> and the prompt of \<open>input()\<close> go through the encoder of
  \<open>sys.stdout\<close>, which raises \<open>UnicodeEncodeError\<close> for a character its codec cannot
  encode. CPython's \<open>TextIOWrapper.write\<close> encodes a non-ASCII text at the call, so the
  failing line is not written and the exception leaves \<open>main\<close> at that line. The
  encodings are UTF-8 (strict: lone surrogates fail) and the one-byte codecs ASCII and
  Latin-1, the stdout of a \<open>C\<close> locale before PEP 538 or of \<open>PYTHONIOENCODING=ascii\<close>
  and \<open>latin-1\<close>.

  \<open>main_tty\<close> is lines 94 to 127 written over a small exception-and-state monad: the
  state holds the lines written so far and the entropy left. The lemma \<open>run_tty_cut\<close>
  shows that a run on a terminal is \<open>main\<close>'s list of lines cut at the first one the
  codec cannot encode.
\<close>

datatype stdout_encoding = EncUTF8 | EncASCII | EncLatin1

definition codec_name :: "stdout_encoding \<Rightarrow> pystr" where
  "codec_name enc =
     (case enc of EncUTF8 \<Rightarrow> ascii ''utf-8'' | EncASCII \<Rightarrow> ascii ''ascii'' | EncLatin1 \<Rightarrow> ascii ''latin-1'')"

definition codec_bound :: "stdout_encoding \<Rightarrow> nat" where
  "codec_bound enc = (case enc of EncUTF8 \<Rightarrow> 0x110000 | EncASCII \<Rightarrow> 128 | EncLatin1 \<Rightarrow> 256)"

text \<open>
  The one-byte encoders (\<open>unicode_encode_ucs1\<close> of CPython): each character below the
  bound is its own byte; the first one at or above it raises, with its index.
\<close>

primrec ordinal_encode_from :: "pystr \<Rightarrow> nat \<Rightarrow> nat \<Rightarrow> pystr \<Rightarrow> pyexc + bytes" where
  "ordinal_encode_from codec n i [] = Inr []"
| "ordinal_encode_from codec n i (c # cs) =
     (if c < n then sbind (ordinal_encode_from codec n (Suc i) cs) (\<lambda>bs. Inr (of_nat c # bs))
      else Inl (OrdinalEncodeError codec c i n))"

definition text_encode :: "stdout_encoding \<Rightarrow> pystr \<Rightarrow> pyexc + bytes" where
  "text_encode enc s =
     (case enc of
        EncUTF8 \<Rightarrow> str_encode_utf8 s
      | _ \<Rightarrow> ordinal_encode_from (codec_name enc) (codec_bound enc) 0 s)"

fun event_text :: "io_event \<Rightarrow> pystr" where
  "event_text (Prompt s) = s"
| "event_text (Print s) = s"

subsection \<open>The terminal monad\<close>

record tty =
  written :: "io_event list"
  entropy_left :: entropy

type_synonym 'a tty_m = "tty \<Rightarrow> (pyexc + 'a) \<times> tty"

definition tret :: "'a \<Rightarrow> 'a tty_m" where
  "tret x st = (Inr x, st)"

definition traise :: "pyexc \<Rightarrow> 'a tty_m" where
  "traise e st = (Inl e, st)"

definition tbind :: "'a tty_m \<Rightarrow> ('a \<Rightarrow> 'b tty_m) \<Rightarrow> 'b tty_m" where
  "tbind m f st = (case m st of (Inl e, st') \<Rightarrow> (Inl e, st') | (Inr x, st') \<Rightarrow> f x st')"

text \<open>Writing one line: the encoder runs first; a line it rejects is not written.\<close>

definition write_event :: "stdout_encoding \<Rightarrow> io_event \<Rightarrow> unit tty_m" where
  "write_event enc ev st =
     (case text_encode enc (event_text ev) of
        Inl e \<Rightarrow> (Inl e, st)
      | Inr _ \<Rightarrow> (Inr (), st\<lparr>written := written st @ [ev]\<rparr>))"

definition tprint :: "stdout_encoding \<Rightarrow> pystr \<Rightarrow> unit tty_m" where
  "tprint enc s = write_event enc (Print s)"

primrec tprint_lines :: "stdout_encoding \<Rightarrow> pystr list \<Rightarrow> unit tty_m" where
  "tprint_lines enc [] = tret ()"
| "tprint_lines enc (s # ss) = tbind (tprint enc s) (\<lambda>_. tprint_lines enc ss)"

text \<open>\<open>input(prompt)\<close>: the prompt is written, then a line is read or \<open>EOFError\<close> raised.\<close>

definition tinput :: "stdout_encoding \<Rightarrow> pystr \<Rightarrow> pystr option \<Rightarrow> pystr tty_m" where
  "tinput enc prompt inp =
     tbind (write_event enc (Prompt prompt))
       (\<lambda>_. case inp of None \<Rightarrow> traise EOFError | Some line \<Rightarrow> tret line)"

text \<open>Line 109: the salt is drawn from the entropy in the state.\<close>

definition tgenerate :: "pystr \<Rightarrow> hash_record tty_m" where
  "tgenerate password st =
     (let (res, rng') = generate_pbkdf2_hash (PyStr password) None DEFAULT_ITERATIONS (entropy_left st)
      in (res, st\<lparr>entropy_left := rng'\<rparr>))"

text \<open>Lines 119 and 124: the handler of \<open>verify_pbkdf2_hash\<close> prints on the same stdout.\<close>

definition tverify :: "stdout_encoding \<Rightarrow> pystr \<Rightarrow> hash_record \<Rightarrow> bool tty_m" where
  "tverify enc password result =
     (let (ok, out) = verify_pbkdf2_hash (PyStr password) (PyStr (hash result)) (PyStr (salt result))
                        DEFAULT_ITERATIONS
      in tbind (tprint_lines enc out) (\<lambda>_. tret ok))"

definition main_tty :: "stdout_encoding \<Rightarrow> pystr option \<Rightarrow> unit tty_m" where
  "main_tty enc inp =
     tbind (tprint enc (ascii ''PBKDF2-SHA256 Password Hash Generator'')) (\<lambda>_.
     tbind (tprint enc (replicate 50 61)) (\<lambda>_.
     tbind (tinput enc (ascii ''Enter password to hash: '') inp) (\<lambda>line.
     tbind (if line = [] then
              tbind (tprint enc (ascii ''No password provided. Using example password '' @ [39] @
                                 DEFAULT_PASSWORD @ [39]))
                (\<lambda>_. tret DEFAULT_PASSWORD)
            else tret line) (\<lambda>password.
     tbind (tprint enc (10 # ascii ''Generating hash with 600,000 iterations...'')) (\<lambda>_.
     tbind (tgenerate password) (\<lambda>result.
     tbind (tprint_lines enc
              [10 # ascii ''Generated Hash:'',
               ascii ''Algorithm: '' @ algorithm result,
               ascii ''Iterations: '' @ fmt_thousands (iterations result),
               ascii ''Salt (base64): '' @ salt result,
               ascii ''Hash (base64): '' @ hash result,
               10 # ascii ''Verifying hash...'']) (\<lambda>_.
     tbind (tverify enc password result) (\<lambda>is_valid.
     tbind (tprint enc (ascii ''Verification result: '' @
              (if is_valid then CHECK_MARK # ascii '' Valid'' else BALLOT_X # ascii '' Invalid''))) (\<lambda>_.
     tbind (tverify enc WRONG_PASSWORD result) (\<lambda>is_wrong_valid.
     tbind (tprint enc (ascii ''Wrong password test: '' @
              (if \<not> is_wrong_valid then BALLOT_X # ascii '' Should be invalid''
               else CHECK_MARK # ascii '' Should be valid''))) (\<lambda>_.
     tprint enc (10 # ascii ''Hash generation complete!''))))))))))))"

definition run_tty :: "stdout_encoding \<Rightarrow> pystr option \<Rightarrow> entropy \<Rightarrow> (pyexc + unit) \<times> io_event list \<times> entropy" where
  "run_tty enc inp rng =
     (let (r, st) = main_tty enc inp \<lparr>written = [], entropy_left = rng\<rparr> in (r, written st, entropy_left st))"

subsection \<open>Writing a list of lines\<close>

text \<open>The error of a line the codec rejects, and the first such error of a list of lines.\<close>

definition event_error :: "stdout_encoding \<Rightarrow> io_event \<Rightarrow> pyexc option" where
  "event_error enc ev = (case text_encode enc (event_text ev) of Inl e \<Rightarrow> Some e | Inr _ \<Rightarrow> None)"

primrec first_error :: "stdout_encoding \<Rightarrow> io_event list \<Rightarrow> pyexc option" where
  "first_error enc [] = None"
| "first_error enc (ev # evs) = (case event_error enc ev of Some e \<Rightarrow> Some e | None \<Rightarrow> first_error enc evs)"

primrec write_all :: "stdout_encoding \<Rightarrow> io_event list \<Rightarrow> unit tty_m" where
  "write_all enc [] = tret ()"
| "write_all enc (ev # evs) = tbind (write_event enc ev) (\<lambda>_. write_all enc evs)"

named_theorems tty_simps "rules that execute the terminal monad"

lemma tbind_tret [tty_simps]: "tbind (tret x) f = f x"
  by (simp add: fun_eq_iff tbind_def tret_def)

lemma tbind_traise [tty_simps]: "tbind (traise e) f = traise e"
  by (simp add: fun_eq_iff tbind_def traise_def)

lemma tbind_assoc [tty_simps]: "tbind (tbind m f) g = tbind m (\<lambda>x. tbind (f x) g)"
  by (simp add: fun_eq_iff tbind_def split: prod.split sum.split)

lemma tbind_tret_right [tty_simps]: "tbind m tret = m"
  by (simp add: fun_eq_iff tbind_def tret_def split: prod.split sum.split)

lemma write_all_append [tty_simps]:
  "write_all enc (xs @ ys) = tbind (write_all enc xs) (\<lambda>_. write_all enc ys)"
  by (induction xs) (simp_all add: tty_simps)

lemma tbind_tret_unit [tty_simps]: "tbind m (\<lambda>_ :: unit. tret ()) = m"
  by (simp add: fun_eq_iff tbind_def tret_def split: prod.split sum.split)

lemma tprint_lines_write_all [tty_simps]: "tprint_lines enc ss = write_all enc (map Print ss)"
  by (induction ss) (simp_all add: tty_simps tprint_def)

lemma tbind_write_event:
  "tbind (write_event enc ev) g st =
     (case text_encode enc (event_text ev) of
        Inl e \<Rightarrow> (Inl e, st)
      | Inr _ \<Rightarrow> g () (st\<lparr>written := written st @ [ev]\<rparr>))"
  by (simp add: tbind_def write_event_def split: sum.split)

text \<open>
  Executing a list of writes: either every line is encoded and written, or the lines
  before the first rejected one are written and its error is raised.
\<close>

lemma write_all_run:
  "tbind (write_all enc evs) f st =
     (case first_error enc evs of
        Some e \<Rightarrow> (Inl e, st\<lparr>written := written st @ takeWhile (\<lambda>ev. event_error enc ev = None) evs\<rparr>)
      | None \<Rightarrow> f () (st\<lparr>written := written st @ evs\<rparr>))"
proof (induction evs arbitrary: st)
  case Nil
  then show ?case by (simp add: tty_simps)
next
  case (Cons ev evs)
  have "tbind (write_all enc (ev # evs)) f st = tbind (write_event enc ev) (\<lambda>_. tbind (write_all enc evs) f) st"
    by (simp only: write_all.simps tbind_assoc)
  also have "\<dots> = (case text_encode enc (event_text ev) of
                     Inl e \<Rightarrow> (Inl e, st)
                   | Inr _ \<Rightarrow> tbind (write_all enc evs) f (st\<lparr>written := written st @ [ev]\<rparr>))"
    by (rule tbind_write_event)
  also have "\<dots> = (case first_error enc (ev # evs) of
        Some e \<Rightarrow> (Inl e, st\<lparr>written := written st @ takeWhile (\<lambda>ev. event_error enc ev = None) (ev # evs)\<rparr>)
      | None \<Rightarrow> f () (st\<lparr>written := written st @ ev # evs\<rparr>))"
    by (cases "text_encode enc (event_text ev)") (simp_all add: Cons.IH event_error_def split: option.split)
  finally show ?case .
qed

lemma tbind_tgenerate:
  "tbind (tgenerate p) g st =
     (case generate_pbkdf2_hash (PyStr p) None DEFAULT_ITERATIONS (entropy_left st) of
        (Inl e, rng') \<Rightarrow> (Inl e, st\<lparr>entropy_left := rng'\<rparr>)
      | (Inr r, rng') \<Rightarrow> g r (st\<lparr>entropy_left := rng'\<rparr>))"
  by (simp add: tbind_def tgenerate_def split: prod.split sum.split)

lemma first_error_append:
  "first_error enc (xs @ ys) = (case first_error enc xs of None \<Rightarrow> first_error enc ys | Some e \<Rightarrow> Some e)"
  by (induction xs) (simp_all split: option.split)

lemma takeWhile_first_error:
  "first_error enc xs = Some e \<Longrightarrow>
   takeWhile (\<lambda>ev. event_error enc ev = None) (xs @ ys) = takeWhile (\<lambda>ev. event_error enc ev = None) xs"
  by (induction xs) (simp_all split: option.splits)

lemma takeWhile_no_error:
  "first_error enc xs = None \<Longrightarrow>
   takeWhile (\<lambda>ev. event_error enc ev = None) (xs @ ys) = xs @ takeWhile (\<lambda>ev. event_error enc ev = None) ys"
  by (induction xs) (simp_all split: option.splits)

lemma takeWhile_all_ok:
  "first_error enc xs = None \<Longrightarrow> takeWhile (\<lambda>ev. event_error enc ev = None) xs = xs"
  by (induction xs) (simp_all split: option.splits)

lemmas cut_simps = takeWhile_all_ok write_all_run tbind_tgenerate first_error_append takeWhile_first_error takeWhile_no_error

subsection \<open>The run on a terminal is the event model cut at the first unencodable line\<close>

lemma main_tty_None: "main_tty enc None = tbind (write_all enc main_banner) (\<lambda>_. traise EOFError)"
  by (simp add: main_tty_def tinput_def tprint_def main_banner_def tty_simps)

lemma main_tty_Some:
  "main_tty enc (Some line) =
     (let (password, notice) = choose_password line in
      tbind (write_all enc (main_banner @ notice @
                            [Print (10 # ascii ''Generating hash with 600,000 iterations...'')])) (\<lambda>_.
      tbind (tgenerate password) (\<lambda>result.
      tbind (write_all enc (main_report result
          (verify_pbkdf2_hash (PyStr password) (PyStr (hash result)) (PyStr (salt result)) DEFAULT_ITERATIONS)
          (verify_pbkdf2_hash (PyStr WRONG_PASSWORD) (PyStr (hash result)) (PyStr (salt result))
             DEFAULT_ITERATIONS))) (\<lambda>_. tret ()))))"
  by (cases "line = []")
     (simp_all add: main_tty_def tinput_def tverify_def tprint_def choose_password_def main_report_def
        main_banner_def split_def Let_def tty_simps)

text \<open>
  A run on a terminal writes \<open>main\<close>'s lines up to the first one the codec rejects and
  then raises that line's \<open>UnicodeEncodeError\<close>; when the codec accepts every line, the
  run is \<open>main\<close>'s, entropy included.
\<close>

lemma run_tty_cut:
  "fst (run_tty enc inp rng) =
     (case first_error enc (fst (snd (main inp rng))) of None \<Rightarrow> fst (main inp rng) | Some e \<Rightarrow> Inl e) \<and>
   fst (snd (run_tty enc inp rng)) = takeWhile (\<lambda>ev. event_error enc ev = None) (fst (snd (main inp rng))) \<and>
   (first_error enc (fst (snd (main inp rng))) = None \<longrightarrow>
      snd (snd (run_tty enc inp rng)) = snd (snd (main inp rng)))"
proof (cases inp)
  case None
  then show ?thesis
    by (simp add: run_tty_def main_tty_None main_def cut_simps traise_def split: option.split)
next
  case (Some line)
  obtain p notice where pn: "choose_password line = (p, notice)" by fastforce
  obtain res rng' where g: "generate_pbkdf2_hash (PyStr p) None DEFAULT_ITERATIONS rng = (res, rng')"
    by fastforce
  show ?thesis
  proof (cases res)
    case (Inl e)
    with Some pn g show ?thesis
      by (simp add: run_tty_def main_tty_Some main_def cut_simps split: option.split)
  next
    case (Inr r)
    with Some pn g show ?thesis
      by (simp add: run_tty_def main_tty_Some main_def cut_simps tret_def split: option.split)
  qed
qed

subsection \<open>Which lines the codecs accept\<close>

lemma first_error_None: "first_error enc evs = None \<longleftrightarrow> (\<forall>ev \<in> set evs. event_error enc ev = None)"
  by (induction evs) (simp_all split: option.split)

lemma ordinal_encode_below:
  "list_all (\<lambda>c. c < n) s \<Longrightarrow> ordinal_encode_from codec n i s = Inr (map of_nat s)"
  by (induction s arbitrary: i) simp_all

text \<open>Every codec writes a line of ASCII characters; UTF-8 writes every line without surrogates.\<close>

lemma event_error_ascii:
  "list_all (\<lambda>c. c < 128) (event_text ev) \<Longrightarrow> event_error enc ev = None"
proof -
  assume a: "list_all (\<lambda>c. c < 128) (event_text ev)"
  then have "\<not> list_ex is_surrogate (event_text ev)"
    by (auto simp: list_all_iff list_ex_iff is_surrogate_def)
  then have "\<not> isl (str_encode_utf8 (event_text ev))"
    by (simp add: str_encode_utf8_def utf8_encode_from_error)
  moreover have "list_all (\<lambda>c. c < codec_bound enc) (event_text ev)" if "enc \<noteq> EncUTF8"
    using a that by (cases enc) (auto simp: codec_bound_def list_all_iff)
  ultimately show ?thesis
    by (cases enc) (auto simp: event_error_def text_encode_def ordinal_encode_below split: sum.split)
qed

lemma event_error_utf8: "event_error EncUTF8 ev = None \<longleftrightarrow> \<not> list_ex is_surrogate (event_text ev)"
  using utf8_encode_from_error [of 0 "event_text ev"]
  by (cases "utf8_encode_from 0 (event_text ev)")
     (simp_all add: event_error_def text_encode_def str_encode_utf8_def)

subsection \<open>The lines of the demo\<close>

lemma list_all_replicate_iff: "list_all P (replicate n x) \<longleftrightarrow> n = 0 \<or> P x"
  by (induction n) auto

lemma list_all_below_mono: "list_all (\<lambda>c. c < a) s \<Longrightarrow> a \<le> b \<Longrightarrow> list_all (\<lambda>c. c < (b::nat)) s"
  by (auto simp: list_all_iff)

lemma b64_text_below: "list_all (\<lambda>c. c < 128) (map unat (b64encode x))"
  using b64encode_ascii [of x] by (simp add: list_all_iff)

lemma notice_ascii:
  "choose_password line = (p, notice) \<Longrightarrow> \<forall>ev \<in> set notice. list_all (\<lambda>c. c < 128) (event_text ev)"
  by (auto simp: choose_password_def DEFAULT_PASSWORD_def split: if_splits)

text \<open>The lines of a run whose typed line encodes.\<close>

lemma main_lines:
  assumes "\<not> list_ex is_surrogate line" and "choose_password line = (p, notice)"
  obtains pw where "fst (snd (main (Some line) rng)) =
    main_banner @ notice @ [Print (10 # ascii ''Generating hash with 600,000 iterations...'')] @
    main_report \<lparr>hash = map unat (b64encode (pbkdf2_ref pw (stake 32 rng) 600000 32)),
                 salt = map unat (b64encode (stake 32 rng)),
                 iterations = DEFAULT_ITERATIONS, algorithm = ascii ''PBKDF2-SHA256''\<rparr>
      (False, [ascii ''Error during verification: '' @
               exc_message (AttributeError (ascii ''hashlib'') (ascii ''compare_digest''))])
      (False, [ascii ''Error during verification: '' @
               exc_message (AttributeError (ascii ''hashlib'') (ascii ''compare_digest''))])"
proof -
  obtain pw where pw: "password_bytes (PyStr p) = Inr (PyBytes pw)"
    using ok_line_password [OF assms] by blast
  obtain wpw where wpw: "password_bytes (PyStr WRONG_PASSWORD) = Inr (PyBytes wpw)"
    using wrong_password_bytes by blast
  show ?thesis
    using main_success [OF assms(2) pw wpw, of rng] that [of pw] by (simp add: Let_def)
qed

text \<open>Every line the demo writes lies below the surrogates.\<close>

lemma main_events_bmp: "\<forall>ev \<in> set (fst (snd (main inp rng))). list_all (\<lambda>c. c < 0xD800) (event_text ev)"
proof (cases inp)
  case None
  then show ?thesis by (simp add: main_def main_banner_def list_all_replicate_iff)
next
  case (Some line)
  obtain p notice where pn: "choose_password line = (p, notice)" by fastforce
  have nt: "\<forall>ev \<in> set notice. list_all (\<lambda>c. c < 0xD800) (event_text ev)"
    using notice_ascii [OF pn] list_all_below_mono [where a = 128 and b = "0xD800"] by simp
  show ?thesis
  proof (cases "list_ex is_surrogate line")
    case True
    then obtain e where "str_encode_utf8 line = Inl e"
      using utf8_encode_from_error [of 0 line]
      by (cases "str_encode_utf8 line") (simp_all add: str_encode_utf8_def)
    with Some show ?thesis
      using main_uncaught [of line e rng] by (simp add: main_banner_def list_all_replicate_iff)
  next
    case False
    obtain pw where "fst (snd (main (Some line) rng)) =
      main_banner @ notice @ [Print (10 # ascii ''Generating hash with 600,000 iterations...'')] @
      main_report \<lparr>hash = map unat (b64encode (pbkdf2_ref pw (stake 32 rng) 600000 32)),
                   salt = map unat (b64encode (stake 32 rng)),
                   iterations = DEFAULT_ITERATIONS, algorithm = ascii ''PBKDF2-SHA256''\<rparr>
        (False, [ascii ''Error during verification: '' @
                 exc_message (AttributeError (ascii ''hashlib'') (ascii ''compare_digest''))])
        (False, [ascii ''Error during verification: '' @
                 exc_message (AttributeError (ascii ''hashlib'') (ascii ''compare_digest''))])"
      by (rule main_lines [OF False pn])
    moreover have "list_all (\<lambda>c. c < 0xD800) (map unat (b64encode x))" for x
      using list_all_below_mono [OF b64_text_below [of x], where b = "0xD800"] by simp
    ultimately show ?thesis
      using Some nt by (simp add: main_report_def main_banner_def fmt_default_iterations exc_message_attribute
          CHECK_MARK_def BALLOT_X_def list_all_replicate_iff)
  qed
qed

subsection \<open>Properties\<close>

text \<open>
  C39. On a UTF-8 terminal the demo is its event model: whatever the typed line and the
  entropy, the run writes exactly the lines of \<open>main\<close>, with its result and its
  remaining entropy. No line the demo writes holds a surrogate (the typed password is never
  printed, and the marks U+2713 and U+2717 are not surrogates), so C17 to C20 hold of the
  run on such a terminal.
\<close>

theorem main_tty_utf8: "run_tty EncUTF8 inp rng = main inp rng"
proof -
  have "\<not> list_ex is_surrogate (event_text ev)" if "ev \<in> set (fst (snd (main inp rng)))" for ev
    using main_events_bmp that by (fastforce simp: list_all_iff list_ex_iff is_surrogate_def)
  then have "first_error EncUTF8 (fst (snd (main inp rng))) = None"
    by (simp add: first_error_None event_error_utf8)
  with run_tty_cut [of EncUTF8 inp rng] show ?thesis
    by (simp add: prod_eq_iff takeWhile_all_ok)
qed

text \<open>
  C40. On a terminal whose encoding is ASCII or Latin-1, a run on a line without lone
  surrogates ends with an uncaught \<open>UnicodeEncodeError\<close> at line 120: the codec cannot
  encode the ballot X U+2717 at index 21 of "Verification result: \<open>BALLOT_X\<close> Invalid".
  By then the salt and the hash have been printed, and so has the error line of the first
  verification. Nothing after that line is written.
\<close>

theorem main_tty_narrow_stdout:
  assumes "enc \<noteq> EncUTF8" and "\<not> list_ex is_surrogate line"
  shows "fst (run_tty enc (Some line) rng) =
           Inl (OrdinalEncodeError (codec_name enc) BALLOT_X 21 (codec_bound enc)) \<and>
         fst (snd (run_tty enc (Some line) rng)) =
           takeWhile (\<lambda>ev. ev \<noteq> Print (ascii ''Verification result: '' @ BALLOT_X # ascii '' Invalid''))
             (fst (snd (main (Some line) rng)))"
proof -
  obtain p notice where pn: "choose_password line = (p, notice)" by fastforce
  then have nt: "notice = [] \<or>
      notice = [Print (ascii ''No password provided. Using example password '' @ [39] @ DEFAULT_PASSWORD @ [39])]"
    by (auto simp: choose_password_def split: if_splits)
  obtain pw where ev: "fst (snd (main (Some line) rng)) =
    main_banner @ notice @ [Print (10 # ascii ''Generating hash with 600,000 iterations...'')] @
    main_report \<lparr>hash = map unat (b64encode (pbkdf2_ref pw (stake 32 rng) 600000 32)),
                 salt = map unat (b64encode (stake 32 rng)),
                 iterations = DEFAULT_ITERATIONS, algorithm = ascii ''PBKDF2-SHA256''\<rparr>
      (False, [ascii ''Error during verification: '' @
               exc_message (AttributeError (ascii ''hashlib'') (ascii ''compare_digest''))])
      (False, [ascii ''Error during verification: '' @
               exc_message (AttributeError (ascii ''hashlib'') (ascii ''compare_digest''))])"
    by (rule main_lines [OF assms(2) pn])
  have mark: "event_error enc (Print (ascii ''Verification result: '' @ BALLOT_X # ascii '' Invalid'')) =
      Some (OrdinalEncodeError (codec_name enc) BALLOT_X 21 (codec_bound enc))"
    using assms(1) by (cases enc) (simp_all add: event_error_def text_encode_def codec_bound_def BALLOT_X_def)
  from nt show ?thesis
    using run_tty_cut [of enc "Some line" rng] mark [simplified]
    by (elim disjE)
       (simp_all add: ev main_report_def main_banner_def fmt_default_iterations exc_message_attribute
          DEFAULT_PASSWORD_def first_error_append event_error_ascii b64_text_below list_all_replicate_iff
          replicate_numeral
          takeWhile_first_error takeWhile_no_error)
qed

theorem main_tty_narrow_stdout_witness:
  "EncASCII \<noteq> EncUTF8 \<and> \<not> list_ex is_surrogate (ascii ''a'') \<and>
   fst (run_tty EncASCII (Some (ascii ''a'')) (sconst 0)) =
     Inl (OrdinalEncodeError (codec_name EncASCII) BALLOT_X 21 (codec_bound EncASCII)) \<and>
   fst (snd (run_tty EncASCII (Some (ascii ''a'')) (sconst 0))) =
     takeWhile (\<lambda>ev. ev \<noteq> Print (ascii ''Verification result: '' @ BALLOT_X # ascii '' Invalid''))
       (fst (snd (main (Some (ascii ''a'')) (sconst 0))))"
proof -
  have h1: "EncASCII \<noteq> EncUTF8" by simp
  have h2: "\<not> list_ex is_surrogate (ascii ''a'')" by (simp add: is_surrogate_def)
  show ?thesis using h1 h2 main_tty_narrow_stdout [OF h1 h2, of "sconst 0"] by blast
qed

end
