(* ===== verification/Spec2Isabelle.thy ===== *)
theory Spec2Isabelle
  imports Script TestVectors Terminal
begin

text \<open>
  \<^bold>\<open>A verified model of generate_password_hash.py.\<close>

  The repository's only source, \<open>src/laravel-workos-starterKit/generate_password_hash.py\<close>,
  derives a password hash with PBKDF2-HMAC-SHA256 (\<open>generate_pbkdf2_hash\<close>, lines 12-52),
  checks a password against a stored hash (\<open>verify_pbkdf2_hash\<close>, lines 54-92) and
  demonstrates both from the command line (\<open>main\<close>, lines 94-127). The functions call
  library services: \<open>str.encode('utf-8')\<close> and \<open>bytes.decode('utf-8')\<close>, \<open>os.urandom\<close>,
  \<open>base64\<close>, the \<open>PBKDF2HMAC\<close> key derivation of the \<open>cryptography\<close> package with
  \<open>hashes.SHA256()\<close>, \<open>print\<close> and \<open>input\<close> on the terminal, and, on line 88,
  \<open>hashlib.compare_digest\<close>. The development models the three functions and, below
  them, each of those services down to the bytes, so that the properties are about the
  values the program computes and the lines it prints.

  The main finding is on line 88. CPython's module \<open>hashlib\<close> has no function
  \<open>compare_digest\<close> (the constant-time comparison is \<open>hmac.compare_digest\<close>), so every
  verification that gets past decoding and key derivation raises \<open>AttributeError\<close>, prints
  "Error during verification: module 'hashlib' has no attribute 'compare_digest'" and
  returns \<open>False\<close>. The model says so: \<open>verify_pbkdf2_hash\<close> is the try body
  \<open>verify_body\<close> with the comparison \<open>hashlib_compare_digest\<close>, which raises that error.
  The same function with \<open>hmac.compare_digest\<close> on line 88, the repair the comment on
  line 87 and the specification describe, is \<open>verify_hmac\<close>; the properties of a
  successful verification are stated for it, and those that hold whatever line 88 does
  are stated for \<open>verify_with cmp\<close> for every comparison \<open>cmp\<close>.

  \<^bold>\<open>Theories.\<close>
  \<^item> \<open>Prelude\<close>: the types (\<open>byte = 8 word\<close>, \<open>word32 = 32 word\<close>, a Python \<open>str\<close> as
    the list of its code points \<open>pystr\<close>), the Python exceptions of the modelled paths
    (\<open>pyexc\<close>), Python values \<open>pyval\<close>, exception propagation \<open>sbind\<close>, block cutting
    \<open>chunks\<close> with its length, \<open>str(n)\<close> as \<open>dec_str\<close>, and the shared lemma collections
    \<open>chunk_simps\<close>, \<open>byte_bit_simps\<close>, \<open>eval_simps\<close>.
  \<^item> \<open>Utf8\<close>: \<open>str.encode('utf-8')\<close> (\<open>str_encode_utf8\<close>, raising
    \<open>UnicodeEncodeError\<close> at the first lone surrogate, C13) and the strict
    \<open>bytes.decode('utf-8')\<close> (\<open>bytes_decode_utf8\<close>, the sequences of Table 3-7 of the
    Unicode standard); decoding inverts encoding (C24).
  \<^item> \<open>Base64\<close>: \<open>base64.b64encode\<close> as CPython's \<open>b2a_base64\<close> loop over a wrapping
    32-bit accumulator (\<open>b2a_loop\<close>, \<open>b2a_drain\<close>, \<open>b2a_finish\<close>), proved equal to the
    RFC 4648 encoding group by group \<open>b64encode\<close> (C25); \<open>base64.b64decode\<close>
    (\<open>b64decode\<close>): the conversion of a \<open>str\<close> to ASCII and CPython's non-strict
    \<open>binascii.a2b_base64\<close> loop, a state machine over the input bytes (\<open>a2b_state\<close>,
    \<open>a2b_step\<close>, \<open>a2b_loop\<close>) that skips bytes outside the alphabet (C23), stops at a
    complete pad sequence (C14) and raises at an incomplete final quad, its state
    invariant (\<open>a2b_inv\<close>) over its reachable states (the step relation \<open>a2b_reach\<close>,
    C32) and behind its error message (C27); the round trip (C7) and the inner loop's
    termination (C29).
  \<^item> \<open>Sha256\<close>: SHA-256 of FIPS 180-4 on 32-bit words (padding, message schedule,
    64 rounds, block chaining); the padding (C11).
  \<^item> \<open>Hmac\<close>: HMAC-SHA256 of RFC 2104 / FIPS 198-1; a key longer than the block and its
    digest give the same MAC (C33).
  \<^item> \<open>Pbkdf2\<close>: PBKDF2 of RFC 8018 (\<open>pbkdf2_F\<close>, \<open>pbkdf2_ref\<close>) and the block loop of
    the OpenSSL implementation the library calls (\<open>pbkdf2_iter\<close>, \<open>pbkdf2_block\<close>,
    \<open>pbkdf2_blocks\<close>), with the iteration-count check (\<open>pbkdf2_hmac_sha256\<close>); the
    refinement (C8) and the key length (C9).
  \<^item> \<open>CompareDigest\<close>: CPython's \<open>_tscmp\<close> behind \<open>hmac.compare_digest\<close>, with its
    step count (C10).
  \<^item> \<open>HashEngine\<close>: the \<open>PBKDF2HMAC\<close> object (\<open>pbkdf2hmac\<close>, \<open>kdf_derive\<close> with the
    single-use flag, C16), \<open>os.urandom\<close> on an entropy stream, \<open>generate_pbkdf2_hash\<close>,
    and verification: the try body \<open>verify_body cmp\<close>, the handler \<open>verify_with cmp\<close>
    that prints and returns \<open>False\<close> (C28) and reports the first failing step (C35), the
    comparisons \<open>hashlib_compare_digest\<close> (line 88 as written) and
    \<open>hmac_compare_digest\<close>, and the two functions \<open>verify_pbkdf2_hash\<close> and
    \<open>verify_hmac\<close>; the record invariant \<open>hash_record_wf\<close>.
  \<^item> \<open>Demo\<close>: \<open>main\<close> as a function from the typed line and the entropy to the
    uncaught exception or completion, the ordered prompt and print events
    (\<open>io_event\<close>), and the remaining entropy; the \<open>{:,}\<close> format (\<open>fmt_thousands\<close>).
    Its properties are C17 to C21.
  \<^item> \<open>Script\<close>: the module's top level, the imports of lines 6 to 10
    (\<open>import_modules\<close>, which fails with \<open>ModuleNotFoundError\<close> when the \<open>cryptography\<close>
    package is missing) and the \<open>__main__\<close> guard of lines 129 and 130 (\<open>run_module\<close>).
  \<^item> \<open>TestVectors\<close>: the slow evaluations, kept apart: SHA-256 of "abc" (C26) and the
    published PBKDF2-HMAC-SHA256 vector run through the whole of \<open>generate_pbkdf2_hash\<close>
    (C36), then back through verification (C37), with a second hash text that decodes to
    the same key (C38). Each SHA-256 compression of a concrete block is evaluated by
    \<open>code_simp\<close> (about two minutes; five of them); the rest is rewritten in stages.
  \<^item> \<open>Terminal\<close>: \<open>main\<close> on a terminal whose stdout encodes each line with UTF-8,
    ASCII or Latin-1 (\<open>text_encode\<close>, the one-byte encoder \<open>ordinal_encode_from\<close>):
    lines 94 to 127 as \<open>main_tty\<close> over a small exception-and-state monad (\<open>tret\<close>,
    \<open>tbind\<close>, \<open>traise\<close>, the record \<open>tty\<close> of the lines written and the entropy left),
    with \<open>print\<close> (\<open>tprint\<close>), \<open>input\<close> (\<open>tinput\<close>) and the two library calls; a run
    is \<open>main\<close>'s list of lines cut at the first one the codec rejects (\<open>run_tty_cut\<close>),
    equal to \<open>main\<close> on UTF-8 (C39), and stopped at line 120 on ASCII and Latin-1 (C40).
  \<^item> this theory: the abstract specification of \<open>derive\<close> (\<open>spec_derive\<close>, section 4.1 of
    the specification) and the properties that span the components (C1 to C6, C12, C15,
    C22, C30, C31, C34).

  \<^bold>\<open>How the model corresponds to the code.\<close> A Python exception is a value
  \<open>Inl e\<close> of a sum type and propagates through \<open>sbind\<close> in the order of the
  statements; the dictionary returned at lines 47-52 is the record \<open>hash_record\<close>; the
  side effects are explicit: \<open>generate_pbkdf2_hash\<close> and \<open>main\<close> take and return the
  entropy stream (\<open>os.urandom(32)\<close> takes its first 32 bytes), \<open>verify_pbkdf2_hash\<close>
  returns the lines it prints beside its result, and \<open>main\<close> returns its terminal events
  in order, the lines printed inside \<open>verify_pbkdf2_hash\<close> included; \<open>main_tty\<close>
  threads the same effects through the terminal monad, where a write can fail. Python
  \<open>int\<close>s are \<open>int\<close>; the SHA-256 state and the \<open>b2a_base64\<close> accumulator are
  \<open>32 word\<close>s, so every addition and shift wraps as in the standard and in C. Every
  definition is executable; loops are structural recursions or \<open>function\<close>s with a
  measure (\<open>pbkdf2_blocks\<close>, \<open>utf8_decode_from\<close>, \<open>comma_groups\<close>), and every loop of the
  program ends, so no fuel is needed.

  \<^bold>\<open>What the properties show.\<close> The specification's round trip fails: verification
  rejects every hash that generation produced, with the \<open>AttributeError\<close> of line 88
  (C1), and never returns \<open>True\<close>; every call prints one error line (C2). With
  \<open>hmac.compare_digest\<close> on line 88 the round trip holds (C12) and verification accepts
  exactly the inputs whose decoded salt and key match a fresh PBKDF2 derivation (C31).
  Malformed stored data makes it print the error and return \<open>False\<close> (C3); a generated
  record carries the salt it used, a 32-byte key, the iteration count and the algorithm
  name (C4) and is well formed (C22); generation fails exactly for an unencodable password
  or an iteration count below 1 and never checks the salt's length (C5); it consumes 32
  bytes of entropy exactly when it makes the salt (C6); on the inputs the specification
  admits it refines the specification's \<open>derive\<close> (C30). Whatever line 88 does, a stored
  hash with trailing text verifies as the hash itself does (C15), and a password longer
  than 64 bytes and its SHA-256 digest give the same record and the same verifications
  (C34). The demo completes for every encodable line and reports its own fresh hash as
  invalid (C17, C19), ends with an uncaught exception otherwise (C18), and treats an empty
  line as the example password (C20). On a UTF-8 terminal the run is the event model
  (C39); on an ASCII or Latin-1 terminal it dies at line 120 on the ballot X (C40). The
  services are proved correct on their own (C7 to C11, C13, C14, C16, C21, C23 to C29,
  C32, C33): among them the encoder loop's termination (C29), the decoder's state
  invariant behind its error message (C27), and the error text verification prints for
  an unencodable password (C28); the order of its steps decides which error it reports
  (C35). The model reproduces the published test vectors of SHA-256 (C26) and of
  PBKDF2-HMAC-SHA256, the latter through the whole of \<open>generate_pbkdf2_hash\<close> (C36);
  verifying its stored strings prints the \<open>AttributeError\<close>, and with the repair returns
  \<open>True\<close> (C37); a hash text that differs from the stored one in the last character
  decodes to the same key, because the decoder ignores the bits that the pad leaves over
  (C38).

  \<^bold>\<open>What is not modelled.\<close> Terminal encodings other than UTF-8, ASCII and Latin-1
  (for example cp1252, which cannot encode U+2713 or U+2717 either), the decoding of the
  typed line (it is given as a Python \<open>str\<close>), and \<open>KeyboardInterrupt\<close>; the internals
  of \<open>os.urandom\<close> (an arbitrary stream stands for it: the program only takes 32 bytes
  from it, and what makes them random is the operating system, outside this source; its
  failure when the system has no random source is not modelled); the \<open>cryptography\<close>
  library's type checks of its arguments other than the key material (the caller's salt is
  taken to be bytes and the iteration count an \<open>int\<close>, so the \<open>TypeError\<close> of the
  \<open>PBKDF2HMAC\<close> constructor for a salt of another type is not a path of the model);
  Python values that are neither \<open>str\<close> nor bytes are one value \<open>PyOther\<close>, and the texts
  of the exceptions whose message the model does not determine are replaced by the
  exception's name. The collision resistance of SHA-256 is not a theorem of HOL, so the
  spec's negative case (a different password is rejected) is not stated for the repaired
  function in general (C34 refutes it for passwords longer than 64 bytes), nor are its salt
  and iteration sensitivity; the demo's two derivations at 600,000 iterations are reasoned
  about symbolically, never evaluated, and so is the spec's conformance vector at 1,000
  iterations (2,000 HMACs), beyond the budget of evaluation.
\<close>

subsection \<open>The abstract specification of derive\<close>

text \<open>
  Section 4.1 of the specification: \<open>derive\<close> refuses a salt that is not 32 bytes and an
  iteration count below 1, and otherwise returns the record of the base64 texts of the
  salt and of the 32-byte PBKDF2-HMAC-SHA256 key (RFC 8018), the count and the algorithm
  name. \<open>None\<close> is the specification's \<open>InvalidInputError\<close>.
\<close>

definition spec_derive :: "bytes \<Rightarrow> bytes \<Rightarrow> int \<Rightarrow> hash_record option" where
  "spec_derive pw s it =
     (if length s \<noteq> 32 \<or> it < 1 then None
      else Some \<lparr>hash = map unat (b64encode (pbkdf2_ref pw s (nat it) 32)),
                 salt = map unat (b64encode s), iterations = it,
                 algorithm = ascii ''PBKDF2-SHA256''\<rparr>)"

subsection \<open>Generation and verification agree\<close>

lemma b64decode_text_suffix:
  assumes "\<not> 3 dvd length x" and "list_all (\<lambda>c. c < 128) junk"
  shows "b64decode (PyStr (map unat (b64encode x) @ junk)) = Inr x"
proof -
  have "list_all (\<lambda>c. c < 128) (map unat (b64encode x) @ junk)"
    using b64encode_ascii [of x] assms(2) by (auto simp: list_all_iff)
  then show ?thesis
    using a2b_base64_b64encode_suffix [OF assms(1), of "map of_nat junk"]
    by (simp add: b64decode_def bytes_from_decode_data_def comp_def)
qed

text \<open>
  C1. The specification's round trip (section 8) fails for every input: for a password
  that encodes and an iteration count of at least 1, \<open>generate_pbkdf2_hash\<close> returns a
  record, and \<open>verify_pbkdf2_hash\<close> with the same password, the record's texts and the
  same count derives the same key, then fails at line 88, which calls a function the
  module \<open>hashlib\<close> does not have: it prints "Error during verification: module 'hashlib'
  has no attribute 'compare_digest'" and returns \<open>False\<close>.
\<close>

theorem verify_generated_rejected:
  assumes "password_ok password" and "1 \<le> iters"
  shows "case fst (generate_pbkdf2_hash password salt_arg iters rng) of
           Inl e \<Rightarrow> False
         | Inr r \<Rightarrow> verify_pbkdf2_hash password (PyStr (hash r)) (PyStr (salt r)) iters =
             (False, [ascii ''Error during verification: module '' @ [39] @ ascii ''hashlib'' @ [39] @
                      ascii '' has no attribute '' @ [39] @ ascii ''compare_digest'' @ [39]])"
proof -
  from assms(1) obtain pw where pw: "password_bytes password = Inr (PyBytes pw)"
    by (auto simp: password_bytes_cases)
  show ?thesis
    by (simp add: generate_success [OF pw assms(2)] verify_generated_hashlib [OF pw assms(2)]
        exc_message_attribute)
qed

theorem verify_generated_rejected_witness:
  "password_ok (PyBytes []) \<and> (1::int) \<le> 1 \<and>
   (case fst (generate_pbkdf2_hash (PyBytes []) None 1 (sconst 0)) of
      Inl e \<Rightarrow> False
    | Inr r \<Rightarrow> verify_pbkdf2_hash (PyBytes []) (PyStr (hash r)) (PyStr (salt r)) 1 =
        (False, [ascii ''Error during verification: module '' @ [39] @ ascii ''hashlib'' @ [39] @
                 ascii '' has no attribute '' @ [39] @ ascii ''compare_digest'' @ [39]]))"
proof -
  have h1: "password_ok (PyBytes [])" by (simp add: password_ok_def)
  have h2: "(1::int) \<le> 1" by simp
  show ?thesis
    using h1 h2 verify_generated_rejected [OF h1 h2, of None "sconst 0"] by blast
qed

text \<open>
  C2. \<open>verify_pbkdf2_hash\<close> never returns \<open>True\<close>: every call prints one line and returns
  \<open>False\<close>. The line carries the error of the repaired function \<open>verify_hmac\<close> where that
  function raises (an unencodable password, a stored text that does not decode, an
  iteration count below 1), and the \<open>AttributeError\<close> of line 88 otherwise.
\<close>

theorem verify_never_true:
  "verify_pbkdf2_hash password stored_hash stored_salt iters =
     (False, [ascii ''Error during verification: '' @
              exc_message (case verify_body hmac_compare_digest password stored_hash stored_salt iters of
                             Inl e \<Rightarrow> e
                           | Inr _ \<Rightarrow> AttributeError (ascii ''hashlib'') (ascii ''compare_digest''))])"
  by (simp only: verify_pbkdf2_hash_def verify_with_def verify_body_hashlib sum.case)

text \<open>
  C12. Round trip of the repaired function: with \<open>hmac.compare_digest\<close> on line 88, for a
  password that encodes (a \<open>str\<close> without lone surrogates, or bytes) and an iteration
  count of at least 1, \<open>generate_pbkdf2_hash\<close> returns a record, whatever the salt
  argument and the entropy, and verification with the same password, the record's hash
  and salt texts and the same count returns \<open>True\<close> without printing anything.
\<close>

theorem verify_generate_roundtrip:
  assumes "password_ok password" and "1 \<le> iters"
  shows "case fst (generate_pbkdf2_hash password salt_arg iters rng) of
           Inl e \<Rightarrow> False
         | Inr r \<Rightarrow> verify_hmac password (PyStr (hash r)) (PyStr (salt r)) iters = (True, [])"
proof -
  from assms(1) obtain pw where pw: "password_bytes password = Inr (PyBytes pw)"
    by (auto simp: password_bytes_cases)
  show ?thesis
    by (simp add: generate_success [OF pw assms(2)] verify_generated [OF pw assms(2)])
qed

theorem verify_generate_roundtrip_witness:
  "password_ok (PyBytes []) \<and> (1::int) \<le> 1 \<and>
   (case fst (generate_pbkdf2_hash (PyBytes []) None 1 (sconst 0)) of
      Inl e \<Rightarrow> False
    | Inr r \<Rightarrow> verify_hmac (PyBytes []) (PyStr (hash r)) (PyStr (salt r)) 1 = (True, []))"
proof -
  have h1: "password_ok (PyBytes [])" by (simp add: password_ok_def)
  have h2: "(1::int) \<le> 1" by simp
  show ?thesis
    using h1 h2 verify_generate_roundtrip [OF h1 h2, of None "sconst 0"] by blast
qed

text \<open>
  C31. Functional behaviour of the repaired function: \<open>verify_hmac\<close> returns \<open>True\<close>
  exactly when the password encodes, both stored texts decode, the iteration count is at
  least 1, and PBKDF2-HMAC-SHA256 of the password with the decoded salt and that count
  gives the decoded stored key (equality of byte strings, so a stored key of another
  length never matches).
\<close>

theorem verify_true_iff:
  "fst (verify_hmac password stored_hash stored_salt iters) \<longleftrightarrow>
   (\<exists>pw s key. password_bytes password = Inr (PyBytes pw) \<and> b64decode stored_salt = Inr s \<and>
      b64decode stored_hash = Inr key \<and> 1 \<le> iters \<and> pbkdf2_ref pw s (nat iters) 32 = key)"
  by (auto simp: verify_hmac_def verify_result verify_body_def sbind_eq_Inr kdf_derive_result
      hmac_compare_digest_def compare_digest_iff)


text \<open>
  C4. The record of \<open>generate_pbkdf2_hash\<close> (lines 47 to 52): when the call returns, its
  salt text decodes to the salt used (the caller's, or the first 32 bytes of entropy), its
  hash text decodes to a 32-byte key, the iteration count is the one given and the
  algorithm is \<open>"PBKDF2-SHA256"\<close>.
\<close>

theorem generate_record_fields:
  "case fst (generate_pbkdf2_hash password salt_arg iters rng) of
     Inl e \<Rightarrow> True
   | Inr r \<Rightarrow> b64decode (PyStr (salt r)) = Inr (case salt_arg of None \<Rightarrow> stake 32 rng | Some s \<Rightarrow> s)
             \<and> (\<exists>key. b64decode (PyStr (hash r)) = Inr key \<and> length key = 32)
             \<and> iterations r = iters \<and> algorithm r = ascii ''PBKDF2-SHA256''"
proof (cases "password_ok password \<and> 1 \<le> iters")
  case True
  then obtain pw where pw: "password_bytes password = Inr (PyBytes pw)"
    by (auto simp: password_bytes_cases)
  with True show ?thesis
    by (simp add: generate_success b64decode_text salt_used_def length_pbkdf2_ref)
next
  case False
  then have "isl (fst (generate_pbkdf2_hash password salt_arg iters rng))"
    by (simp add: generate_error)
  then show ?thesis by (auto split: sum.split)
qed

text \<open>
  C5. The error paths of \<open>generate_pbkdf2_hash\<close>: it returns a record exactly when the
  password encodes and the iteration count is at least 1. The salt is never checked: a
  caller's salt of any length is accepted.
\<close>

theorem generate_succeeds_iff:
  "\<not> isl (fst (generate_pbkdf2_hash password salt_arg iters rng)) \<longleftrightarrow>
   password_ok password \<and> 1 \<le> iters"
  by (simp add: generate_error)

text \<open>
  C6. Entropy: \<open>generate_pbkdf2_hash\<close> leaves the random source untouched when the
  caller gives a salt or the password fails to encode (line 26 raises before line 30),
  and otherwise consumes exactly 32 bytes of it.
\<close>

theorem generate_entropy:
  "snd (generate_pbkdf2_hash password salt_arg iters rng) =
     (case salt_arg of
        Some s \<Rightarrow> rng
      | None \<Rightarrow> (if isl (password_bytes password) then rng else sdrop 32 rng))"
  by (cases salt_arg; cases "password_bytes password")
     (simp_all add: generate_pbkdf2_hash_def urandom_def split_def Let_def)

text \<open>
  C15. A stored hash text with anything appended (ASCII) verifies as the text itself does,
  whatever the comparison on line 88: the key is 32 bytes, so its encoding ends in \<open>=\<close>,
  and the non-strict decoder stops there. Once line 88 compares, the longer text is
  accepted; the spec asks malformed stored data to fail verification.
\<close>

theorem verify_hash_trailing_data:
  assumes "password_ok password" and "1 \<le> iters" and "list_all (\<lambda>c. c < 128) junk"
  shows "case fst (generate_pbkdf2_hash password salt_arg iters rng) of
           Inl e \<Rightarrow> False
         | Inr r \<Rightarrow> verify_with cmp password (PyStr (hash r @ junk)) (PyStr (salt r)) iters =
                   verify_with cmp password (PyStr (hash r)) (PyStr (salt r)) iters"
proof -
  from assms(1) obtain pw where pw: "password_bytes password = Inr (PyBytes pw)"
    by (auto simp: password_bytes_cases)
  let ?k = "pbkdf2_ref pw (salt_used salt_arg rng) (nat iters) 32"
  have "\<not> 3 dvd length ?k" by (simp add: length_pbkdf2_ref)
  from b64decode_text_suffix [OF this assms(3)] show ?thesis
    by (simp add: generate_success [OF pw assms(2)] verify_with_def verify_body_def b64decode_text)
qed

theorem verify_hash_trailing_data_witness:
  "password_ok (PyBytes []) \<and> (1::int) \<le> 1 \<and> list_all (\<lambda>c. c < 128) (ascii ''junk'') \<and>
   (case fst (generate_pbkdf2_hash (PyBytes []) None 1 (sconst 0)) of
      Inl e \<Rightarrow> False
    | Inr r \<Rightarrow> verify_with hmac_compare_digest (PyBytes []) (PyStr (hash r @ ascii ''junk'')) (PyStr (salt r)) 1
             = verify_with hmac_compare_digest (PyBytes []) (PyStr (hash r)) (PyStr (salt r)) 1)"
proof -
  have h1: "password_ok (PyBytes [])" by (simp add: password_ok_def)
  have h2: "(1::int) \<le> 1" by simp
  have h3: "list_all (\<lambda>c. c < 128) (ascii ''junk'')" by simp
  show ?thesis
    using h1 h2 h3 verify_hash_trailing_data [OF h1 h2 h3, where salt_arg = None and rng = "sconst 0"
        and cmp = hmac_compare_digest] by blast
qed

text \<open>
  C22. Every record \<open>generate_pbkdf2_hash\<close> returns is well formed: the hash text has 44
  characters, both texts use only the base64 alphabet and \<open>=\<close>, the salt text is
  \<open>4 \<lceil>n / 3\<rceil>\<close> characters for an \<open>n\<close>-byte salt (44 for the default one), the iteration
  count is at least 1 and the algorithm is \<open>"PBKDF2-SHA256"\<close>.
\<close>

theorem generate_record_wf:
  "case fst (generate_pbkdf2_hash password salt_arg iters rng) of
     Inl e \<Rightarrow> True
   | Inr r \<Rightarrow> hash_record_wf r \<and> length (salt r) = 4 * ((length (salt_used salt_arg rng) + 2) div 3)"
proof (cases "password_ok password \<and> 1 \<le> iters")
  case True
  then obtain pw where pw: "password_bytes password = Inr (PyBytes pw)"
    by (auto simp: password_bytes_cases)
  have alpha: "set (map unat (b64encode x)) \<subseteq> set (map unat (b64_pad # b64_table))" for x
    using b64encode_alphabet [of x] by auto
  with True pw show ?thesis
    by (simp add: generate_success hash_record_wf_def length_b64encode length_pbkdf2_ref)
next
  case False
  then have "isl (fst (generate_pbkdf2_hash password salt_arg iters rng))"
    by (simp add: generate_error)
  then show ?thesis by (auto split: sum.split)
qed

text \<open>
  C30. Refinement: on the inputs the specification admits (bytes, and a salt of 32 bytes
  or none), \<open>generate_pbkdf2_hash\<close> returns exactly the record of \<open>spec_derive\<close> and
  raises where it raises. (For a salt of another length the two part: see C5.)
\<close>

theorem generate_refines_spec:
  assumes "case salt_arg of None \<Rightarrow> True | Some s \<Rightarrow> length s = 32"
  shows "map_sum (\<lambda>e. ()) id (fst (generate_pbkdf2_hash (PyBytes pw) salt_arg it rng)) =
         (case spec_derive pw (salt_used salt_arg rng) it of None \<Rightarrow> Inl () | Some r \<Rightarrow> Inr r)"
proof (cases "1 \<le> it")
  case True
  have pw: "password_bytes (PyBytes pw) = Inr (PyBytes pw)" by (simp add: password_bytes_def)
  have "length (salt_used salt_arg rng) = 32"
    using assms by (cases salt_arg) (simp_all add: salt_used_def)
  with True show ?thesis by (simp add: generate_success [OF pw True] spec_derive_def)
next
  case False
  then have "isl (fst (generate_pbkdf2_hash (PyBytes pw) salt_arg it rng))"
    by (simp add: generate_error)
  with False show ?thesis
    by (cases "fst (generate_pbkdf2_hash (PyBytes pw) salt_arg it rng)") (simp_all add: spec_derive_def)
qed

theorem generate_refines_spec_witness:
  "(case None of None \<Rightarrow> True | Some s \<Rightarrow> length (s :: bytes) = 32) \<and>
   map_sum (\<lambda>e. ()) id (fst (generate_pbkdf2_hash (PyBytes []) None 1 (sconst 0))) =
   (case spec_derive [] (salt_used None (sconst 0)) 1 of None \<Rightarrow> Inl () | Some r \<Rightarrow> Inr r)"
proof -
  have h: "case None of None \<Rightarrow> True | Some s \<Rightarrow> length (s :: bytes) = 32" by simp
  show ?thesis using h generate_refines_spec [OF h, of "[]" 1 "sconst 0"] by blast
qed

text \<open>
  Determinism (section 8): with a salt supplied, the record does not depend on the
  random source.
\<close>

theorem generate_deterministic:
  "fst (generate_pbkdf2_hash password (Some s) iters rng) =
   fst (generate_pbkdf2_hash password (Some s) iters rng')"
  by (cases "password_bytes password") (simp_all add: generate_pbkdf2_hash_def)


text \<open>
  C34. The specification's negative case fails for long passwords: a password of more
  than 64 bytes and its SHA-256 digest, a different password, give the same record
  (whatever the salt argument, entropy and count), and every verification treats the two
  alike, whatever the comparison on line 88 and the stored texts. HMAC replaces a key longer
  than its block by the key's digest.
\<close>

theorem long_password_alias:
  assumes "64 < length P"
  shows "sha256 P \<noteq> P \<and>
    fst (generate_pbkdf2_hash (PyBytes (sha256 P)) salt_arg iters rng) =
      fst (generate_pbkdf2_hash (PyBytes P) salt_arg iters rng) \<and>
    verify_with cmp (PyBytes (sha256 P)) stored_hash stored_salt iters =
      verify_with cmp (PyBytes P) stored_hash stored_salt iters"
proof (intro conjI)
  from assms show "sha256 P \<noteq> P" by (auto dest: arg_cong [where f = length])
  have "hmac_sha256 (sha256 P) = hmac_sha256 P"
    using assms by (simp add: fun_eq_iff hmac_sha256_def hmac_key0_long)
  then have ref: "pbkdf2_ref (sha256 P) s c n = pbkdf2_ref P s c n" for s c n
    by (rule pbkdf2_ref_prf_cong)
  have same: "pbkdf2_hmac_sha256 (sha256 P) s it n = pbkdf2_hmac_sha256 P s it n" for s it n
  proof (cases "1 \<le> it")
    case True
    then show ?thesis by (simp add: pbkdf2_hmac_sha256_ok ref)
  next
    case False
    then show ?thesis by (simp add: pbkdf2_hmac_sha256_def)
  qed
  show "fst (generate_pbkdf2_hash (PyBytes (sha256 P)) salt_arg iters rng) =
      fst (generate_pbkdf2_hash (PyBytes P) salt_arg iters rng)"
    by (simp add: generate_pbkdf2_hash_def password_bytes_def kdf_derive_fresh same split_def Let_def)
  show "verify_with cmp (PyBytes (sha256 P)) stored_hash stored_salt iters =
      verify_with cmp (PyBytes P) stored_hash stored_salt iters"
    by (simp add: verify_with_def verify_body_def password_bytes_def kdf_derive_fresh same)
qed

theorem long_password_alias_witness:
  "64 < length (replicate 65 (0::byte)) \<and>
   sha256 (replicate 65 0) \<noteq> replicate 65 0 \<and>
   fst (generate_pbkdf2_hash (PyBytes (sha256 (replicate 65 0))) None 1 (sconst 0)) =
     fst (generate_pbkdf2_hash (PyBytes (replicate 65 0)) None 1 (sconst 0)) \<and>
   verify_with hmac_compare_digest (PyBytes (sha256 (replicate 65 0))) PyOther PyOther 1 =
     verify_with hmac_compare_digest (PyBytes (replicate 65 0)) PyOther PyOther 1"
proof -
  have h: "64 < length (replicate 65 (0::byte))" by simp
  show ?thesis
    using h long_password_alias [OF h, where salt_arg = None and iters = 1 and rng = "sconst 0"
        and cmp = hmac_compare_digest and stored_hash = PyOther and stored_salt = PyOther] by blast
qed

end
